theory Spec2Isabelle
  imports Main "HOL-Library.Sublist" "HOL-Library.Char_ord" "HOL-Library.List_Lexorder"
begin

section \<open>Python values used by the analyzer\<close>

text \<open>
  Exceptions of the host language that the analyzer code can raise and does not catch
  itself. Every function of the model that can raise returns \<open>py_error + 'a\<close>.

  A Python string is modelled as a list of characters with code points 0 to 255;
  texts with other characters are outside the model.
\<close>

datatype py_error = IndexError | KeyError | NameError | SyntaxError | TypeError | AttributeError

text \<open>
  \<open>xs[i]\<close> on a Python list: a negative index counts from the end, an index out of
  range raises IndexError.
\<close>

definition py_index :: "'a list \<Rightarrow> int \<Rightarrow> py_error + 'a" where
  "py_index xs i =
     (if 0 \<le> i \<and> i < int (length xs) then Inr (xs ! nat i)
      else if i < 0 \<and> - int (length xs) \<le> i then Inr (xs ! nat (int (length xs) + i))
      else Inl IndexError)"

text \<open>\<open>s.startswith(p)\<close> and \<open>needle in s\<close> on strings.\<close>

definition startswith :: "string \<Rightarrow> string \<Rightarrow> bool" where
  "startswith s p = (take (length p) s = p)"

fun str_contains :: "string \<Rightarrow> string \<Rightarrow> bool" where
  "str_contains [] needle = (needle = [])"
| "str_contains (c # cs) needle = (startswith (c # cs) needle \<or> str_contains cs needle)"

text \<open>
  \<open>s.lstrip()\<close> and \<open>s.strip()\<close> remove the characters Python counts as
  whitespace. Among the code points of the model these are tab, newline, vertical
  tab, form feed and carriage return (9 to 13), the four separators 0x1c to 0x1f, the
  space, next line (0x85) and the no-break space (0xa0).
\<close>

definition is_space :: "char \<Rightarrow> bool" where
  "is_space c =
     (let n = of_char c :: nat
      in (9 \<le> n \<and> n \<le> 13) \<or> (28 \<le> n \<and> n \<le> 32) \<or> n = 133 \<or> n = 160)"

definition lstrip :: "string \<Rightarrow> string" where
  "lstrip s = dropWhile is_space s"

definition strip :: "string \<Rightarrow> string" where
  "strip s = rev (dropWhile is_space (rev (dropWhile is_space s)))"

text \<open>\<open>s.split(sep)\<close> for a one-character separator: \<open>"".split(".")\<close> is \<open>[""]\<close>.\<close>

fun split_on :: "char \<Rightarrow> string \<Rightarrow> string list" where
  "split_on sep [] = [[]]"
| "split_on sep (c # cs) =
     (if c = sep then [] # split_on sep cs
      else (case split_on sep cs of
              [] \<Rightarrow> [[c]]
            | w # ws \<Rightarrow> (c # w) # ws))"

text \<open>\<open>sep.join(xs)\<close> for a list of strings.\<close>

fun join_with :: "string \<Rightarrow> string list \<Rightarrow> string" where
  "join_with sep [] = []"
| "join_with sep [x] = x"
| "join_with sep (x # y # rest) = x @ sep @ join_with sep (y # rest)"

section \<open>Diagnostic model (tools.py)\<close>

datatype severity = Error | Warning | Information | Hint

record code_position =
  pos_line :: int
  pos_column :: int

record code_range =
  range_start :: code_position
  range_end :: code_position

text \<open>
  One constructor per diagnostic class of tools.py, carrying the message data the
  class pops from its keyword arguments.
\<close>

datatype diag_kind =
    DebugDiagnostic string
  | MissingRegisterInInit
  | DuplicateName
  | ConflictingName
  | SuperInvocationWithParams
  | SuperInvocationMismatchedName string
  | SuperWithoutParent
  | MissingSuperCall
  | UnknownPoolKey string
  | UnknownModel string
  | UnknownAttribute string string
  | ChangeVariableModel string string
  | TrytonTagNotFound
  | TrytonXmlFileUnregistered
  | UnexpectedXMLTag string
  | RecordMissingAttribute string
  | RecordUnknownModel string
  | RecordUnknownField string string
  | RecordDuplicateId string string

text \<open>
  \<open>UnknownAttribute model attr\<close>, \<open>ChangeVariableModel previous new\<close>,
  \<open>RecordUnknownField model field\<close>, \<open>RecordDuplicateId fs_id other_line\<close>.
\<close>

fun err_code :: "diag_kind \<Rightarrow> string" where
  "err_code (DebugDiagnostic _) = ''----''"
| "err_code MissingRegisterInInit = ''0001''"
| "err_code DuplicateName = ''0002''"
| "err_code ConflictingName = ''0003''"
| "err_code SuperInvocationWithParams = ''1001''"
| "err_code (SuperInvocationMismatchedName _) = ''1002''"
| "err_code SuperWithoutParent = ''1003''"
| "err_code MissingSuperCall = ''1004''"
| "err_code (UnknownPoolKey _) = ''1005''"
| "err_code (UnknownModel _) = ''1006''"
| "err_code (UnknownAttribute _ _) = ''1007''"
| "err_code (ChangeVariableModel _ _) = ''1008''"
| "err_code TrytonTagNotFound = ''5000''"
| "err_code TrytonXmlFileUnregistered = ''5001''"
| "err_code (UnexpectedXMLTag _) = ''5002''"
| "err_code (RecordMissingAttribute _) = ''5003''"
| "err_code (RecordUnknownModel _) = ''5004''"
| "err_code (RecordUnknownField _ _) = ''5005''"
| "err_code (RecordDuplicateId _ _) = ''5006''"

fun severity_of :: "diag_kind \<Rightarrow> severity" where
  "severity_of (DebugDiagnostic _) = Information"
| "severity_of MissingRegisterInInit = Warning"
| "severity_of DuplicateName = Warning"
| "severity_of ConflictingName = Error"
| "severity_of SuperInvocationWithParams = Information"
| "severity_of (SuperInvocationMismatchedName _) = Error"
| "severity_of SuperWithoutParent = Error"
| "severity_of MissingSuperCall = Error"
| "severity_of (UnknownPoolKey _) = Error"
| "severity_of (UnknownModel _) = Error"
| "severity_of (UnknownAttribute _ _) = Error"
| "severity_of (ChangeVariableModel _ _) = Warning"
| "severity_of TrytonTagNotFound = Error"
| "severity_of TrytonXmlFileUnregistered = Warning"
| "severity_of (UnexpectedXMLTag _) = Error"
| "severity_of (RecordMissingAttribute _) = Error"
| "severity_of (RecordUnknownModel _) = Error"
| "severity_of (RecordUnknownField _ _) = Error"
| "severity_of (RecordDuplicateId _ _) = Error"

text \<open>
  A diagnostic: its class and message data, its position and file, and the context
  strings of ModelDiagnostic and FunctionDiagnostic (module, model, class, function).
  The diagnostics of the XML walkers carry no context; the model leaves it empty there.
\<close>

record diag_context =
  ctx_module :: string
  ctx_model :: string
  ctx_class :: string
  ctx_function :: string

record diagnostic =
  d_kind :: diag_kind
  d_position :: code_range
  d_filepath :: string
  d_context :: diag_context

definition no_context :: diag_context where
  "no_context = \<lparr>ctx_module = [], ctx_model = [], ctx_class = [], ctx_function = []\<rparr>"

section \<open>Inline suppression markers (Analyzer.ignored and its overrides)\<close>

datatype analyzer_kind = PythonAnalyzer | XMLAnalyzer | ViewAnalyzer

definition marker :: "string \<Rightarrow> string" where
  "marker code = ''IGNORE-TRYTON-LS-'' @ code"

text \<open>\<open>Analyzer.ignored\<close>: the marker is looked for in the raw line of the diagnostic.\<close>

definition base_ignored :: "string list \<Rightarrow> string \<Rightarrow> int \<Rightarrow> py_error + bool" where
  "base_ignored raw_lines code line_number =
     (case py_index raw_lines (line_number - 1) of
        Inl e \<Rightarrow> Inl e
      | Inr l \<Rightarrow> Inr (str_contains l (marker code)))"

text \<open>
  The overrides of PythonAnalyzer and XMLAnalyzer also accept the marker on the line
  above when that line starts (after leading whitespace) with the comment opener.
  ViewAnalyzer does not override \<open>ignored\<close>.
\<close>

definition above_ignored :: "string \<Rightarrow> string list \<Rightarrow> string \<Rightarrow> int \<Rightarrow> py_error + bool" where
  "above_ignored opener raw_lines code line_number =
     (if line_number > 1 then
        (case py_index raw_lines (line_number - 2) of
           Inl e \<Rightarrow> Inl e
         | Inr l \<Rightarrow> Inr (startswith (lstrip l) opener \<and> str_contains l (marker code)))
      else Inr False)"

fun ignored :: "analyzer_kind \<Rightarrow> string list \<Rightarrow> string \<Rightarrow> int \<Rightarrow> py_error + bool" where
  "ignored PythonAnalyzer raw_lines code line_number =
     (case base_ignored raw_lines code line_number of
        Inl e \<Rightarrow> Inl e
      | Inr True \<Rightarrow> Inr True
      | Inr False \<Rightarrow> above_ignored ''#'' raw_lines code line_number)"
| "ignored XMLAnalyzer raw_lines code line_number =
     (case base_ignored raw_lines code line_number of
        Inl e \<Rightarrow> Inl e
      | Inr True \<Rightarrow> Inr True
      | Inr False \<Rightarrow> above_ignored ''<!--'' raw_lines code line_number)"
| "ignored ViewAnalyzer raw_lines code line_number =
     base_ignored raw_lines code line_number"

text \<open>
  \<open>Analyzer.add_diagnostic\<close>: the diagnostic is appended to the list unless
  \<open>ignored\<close> says so for its code and the line its position starts at.
\<close>

definition add_diagnostic ::
  "analyzer_kind \<Rightarrow> string list \<Rightarrow> diagnostic \<Rightarrow> diagnostic list \<Rightarrow> py_error + diagnostic list" where
  "add_diagnostic k raw_lines d ds =
     (case ignored k raw_lines (err_code (d_kind d)) (pos_line (range_start (d_position d))) of
        Inl e \<Rightarrow> Inl e
      | Inr True \<Rightarrow> Inr ds
      | Inr False \<Rightarrow> Inr (ds @ [d]))"

text \<open>Sequencing of computations that may raise.\<close>

definition bind_err :: "py_error + 'a \<Rightarrow> ('a \<Rightarrow> py_error + 'b) \<Rightarrow> py_error + 'b" where
  "bind_err m f = (case m of Inl e \<Rightarrow> Inl e | Inr x \<Rightarrow> f x)"

text \<open>\<open>str(n)\<close> of an integer: its decimal digits.\<close>

definition digit_char :: "nat \<Rightarrow> char" where
  "digit_char d = ''0123456789'' ! (d mod 10)"

function str_nat :: "nat \<Rightarrow> string" where
  "str_nat n =
     (if n < 10 then [digit_char n]
      else str_nat (n div 10) @ [digit_char (n mod 10)])"
  by pat_completeness auto
termination
  by (relation "measure id") auto

declare str_nat.simps [simp del]

definition str_int :: "int \<Rightarrow> string" where
  "str_int i = (if i < 0 then CHR ''-'' # str_nat (nat (- i)) else str_nat (nat i))"

section \<open>Model registry (pool.py: Pool, PoolModel)\<close>

text \<open>
  What the introspector returns for one model (\<open>fetch_model\<close>): the set of member
  names \<open>attrs\<close>, for kind "model" the fields with their type tag and, for relation
  fields, the target model name; for kind "wizard" the view states with their target.
\<close>

record field_info =
  fi_string :: string
  fi_type :: string
  fi_relation :: "string option"

record model_data =
  md_attrs :: "string set"
  md_fields :: "string \<rightharpoonup> field_info"
  md_states :: "string \<rightharpoonup> string"

text \<open>
  A pool for one dependency key: the names the session knows, by kind, with the data
  fetched for each. \<open>PoolModel\<close> is the proxy \<open>Pool.get\<close> builds from it; it
  remembers the pool it comes from (here: the pool's key), its kind and its name, so
  that two proxies are the same object exactly when the records are equal.
  The cache of fetched proxies is not part of the model.
\<close>

record pool =
  pool_key :: "string list"
  pool_models :: "string \<rightharpoonup> model_data"
  pool_wizards :: "string \<rightharpoonup> model_data"

record pool_model =
  pm_key :: "string list"
  pm_type :: string
  pm_name :: string
  pm_dir :: "string set"
  pm_fields :: "string \<rightharpoonup> field_info"
  pm_states :: "string \<rightharpoonup> string"

definition pool_get :: "pool \<Rightarrow> string \<Rightarrow> string \<Rightarrow> py_error + pool_model" where
  "pool_get p name kind =
     (let referential = (if kind = ''model'' then pool_models p else pool_wizards p)
      in case referential name of
           None \<Rightarrow> Inl KeyError
         | Some data \<Rightarrow>
             Inr \<lparr>pm_key = pool_key p, pm_type = kind, pm_name = name,
                  pm_dir = md_attrs data, pm_fields = md_fields data,
                  pm_states = md_states data\<rparr>)"

definition has_attribute :: "pool_model \<Rightarrow> string \<Rightarrow> bool" where
  "has_attribute model name = (name \<in> pm_dir model)"

definition supported_keys :: "string set" where
  "supported_keys = {''model'', ''wizard''}"

text \<open>
  \<open>PoolManager.get_pool\<close>: the pool of a dependency tuple, keyed by the sorted
  tuple. The session with the introspector is a parameter: a function from the sorted
  key to the pool it serves.
\<close>

type_synonym pool_manager = "string list \<Rightarrow> pool"

definition get_pool :: "pool_manager \<Rightarrow> string list \<Rightarrow> pool" where
  "get_pool manager module_names = manager (sort module_names)"

section \<open>Structured-data walker (analyzer.py: XMLAnalyzer)\<close>

text \<open>
  An element as the streaming parser hands it over with an event: tag, attributes,
  text (None when absent) and source line.
\<close>

record xml_element =
  el_tag :: string
  el_attrib :: "string \<rightharpoonup> string"
  el_text :: "string option"
  el_sourceline :: int

text \<open>
  What an XMLAnalyzer is built from: the file's path and stem, its raw lines, the name
  of the module it belongs to (None when no module was attached), the lines of the
  module's tryton.cfg, and the pool manager.
\<close>

record xml_env =
  xe_filepath :: string
  xe_filename :: string
  xe_raw_lines :: "string list"
  xe_module :: "string option"
  xe_cfg_lines :: "string list"
  xe_manager :: pool_manager

record xml_state =
  xs_diagnostics :: "diagnostic list"
  xs_fs_ids :: "string \<rightharpoonup> int"
  xs_found_tryton_tag :: bool
  xs_tag_stack :: "xml_element list"
  xs_current_pool :: "pool option"
  xs_current_model :: "pool_model option"
  xs_cur_prefix :: int

definition xml_init :: xml_state where
  "xml_init = \<lparr>xs_diagnostics = [], xs_fs_ids = Map.empty, xs_found_tryton_tag = False,
     xs_tag_stack = [], xs_current_pool = None, xs_current_model = None,
     xs_cur_prefix = 0\<rparr>"

definition xml_node_position :: "xml_state \<Rightarrow> xml_element \<Rightarrow> code_range" where
  "xml_node_position s node =
     \<lparr>range_start = \<lparr>pos_line = el_sourceline node, pos_column = xs_cur_prefix s\<rparr>,
      range_end = \<lparr>pos_line = el_sourceline node, pos_column = 99\<rparr>\<rparr>"

text \<open>\<open>XMLDiagnostic.init_from_analyzer\<close>.\<close>

definition xml_diag :: "xml_env \<Rightarrow> xml_state \<Rightarrow> xml_element \<Rightarrow> diag_kind \<Rightarrow> diagnostic" where
  "xml_diag env s node k =
     \<lparr>d_kind = k, d_position = xml_node_position s node,
      d_filepath = xe_filepath env, d_context = no_context\<rparr>"

definition xml_add :: "xml_env \<Rightarrow> diagnostic \<Rightarrow> xml_state \<Rightarrow> py_error + xml_state" where
  "xml_add env d s =
     (case add_diagnostic XMLAnalyzer (xe_raw_lines env) d (xs_diagnostics s) of
        Inl e \<Rightarrow> Inl e
      | Inr ds \<Rightarrow> Inr (s\<lparr>xs_diagnostics := ds\<rparr>))"

definition analyze_tryton_start :: "xml_env \<Rightarrow> xml_element \<Rightarrow> xml_state \<Rightarrow> py_error + xml_state" where
  "analyze_tryton_start env node s = Inr (s\<lparr>xs_found_tryton_tag := True\<rparr>)"

definition analyze_data_start :: "xml_env \<Rightarrow> xml_element \<Rightarrow> xml_state \<Rightarrow> py_error + xml_state" where
  "analyze_data_start env node s =
     bind_err
       (if length (xs_tag_stack s) \<noteq> 2
        then xml_add env (xml_diag env s node (UnexpectedXMLTag (el_tag node))) s
        else Inr s)
       (\<lambda>s1. case xe_module env of
           None \<Rightarrow> Inr s1
         | Some name \<Rightarrow>
             (let modules = [name] @
                    (case el_attrib node ''depends'' of
                       None \<Rightarrow> []
                     | Some deps \<Rightarrow> map strip (split_on CHR '','' deps))
              in Inr (s1\<lparr>xs_current_pool := Some (get_pool (xe_manager env) modules)\<rparr>)))"

definition analyze_record_start :: "xml_env \<Rightarrow> xml_element \<Rightarrow> xml_state \<Rightarrow> py_error + xml_state" where
  "analyze_record_start env node s =
     bind_err
       (if length (xs_tag_stack s) \<noteq> 3
        then xml_add env (xml_diag env s node (UnexpectedXMLTag (el_tag node))) s
        else Inr s)
       (\<lambda>s1. bind_err
          (if el_attrib node ''model'' = None
           then xml_add env (xml_diag env s1 node (RecordMissingAttribute ''model'')) s1
           else Inr s1)
          (\<lambda>s2. bind_err
             (case el_attrib node ''id'' of
                None \<Rightarrow> xml_add env (xml_diag env s2 node (RecordMissingAttribute ''id'')) s2
              | Some fs_id \<Rightarrow>
                  (case xs_fs_ids s2 fs_id of
                     Some other \<Rightarrow>
                       xml_add env
                         (xml_diag env s2 node (RecordDuplicateId fs_id (str_int other))) s2
                   | None \<Rightarrow>
                       Inr (s2\<lparr>xs_fs_ids := (xs_fs_ids s2)(fs_id \<mapsto> el_sourceline node)\<rparr>)))
             (\<lambda>s3. case xs_current_pool s3 of
                 None \<Rightarrow> Inr s3
               | Some p \<Rightarrow>
                   (case el_attrib node ''model'' of
                      None \<Rightarrow> Inr s3
                    | Some model_name \<Rightarrow>
                        if model_name = [] then Inr s3
                        else (case pool_get p model_name ''model'' of
                                Inr m \<Rightarrow> Inr (s3\<lparr>xs_current_model := Some m\<rparr>)
                              | Inl KeyError \<Rightarrow>
                                  xml_add env
                                    (xml_diag env s3 node (RecordUnknownModel model_name)) s3
                              | Inl e \<Rightarrow> Inl e)))))"

text \<open>
  In \<open>_analyze_field_start\<close> the text of a field element may be None; the lookup then
  fails like that of an unknown name and the message shows \<open>None\<close>.
\<close>

definition analyze_field_start :: "xml_env \<Rightarrow> xml_element \<Rightarrow> xml_state \<Rightarrow> py_error + xml_state" where
  "analyze_field_start env node s =
     bind_err
       (if length (xs_tag_stack s) \<noteq> 4
        then xml_add env (xml_diag env s node (UnexpectedXMLTag (el_tag node))) s
        else Inr s)
       (\<lambda>s1. bind_err
          (if el_attrib node ''name'' = None
           then xml_add env (xml_diag env s1 node (RecordMissingAttribute ''name'')) s1
           else Inr s1)
          (\<lambda>s2. case (xs_current_model s2, el_attrib node ''name'') of
              (Some model, Some name) \<Rightarrow>
                if pm_fields model name = None
                then xml_add env
                       (xml_diag env s2 node (RecordUnknownField (pm_name model) name)) s2
                else (case xs_current_pool s2 of
                        None \<Rightarrow> Inr s2
                      | Some p \<Rightarrow>
                          if pm_name model = ''ir.ui.view'' \<and> name = ''model''
                          then (case (case el_text node of
                                        None \<Rightarrow> Inl KeyError
                                      | Some t \<Rightarrow> pool_get p t ''model'') of
                                  Inr m \<Rightarrow> Inr s2
                                | Inl KeyError \<Rightarrow>
                                    xml_add env
                                      (xml_diag env s2 node
                                         (RecordUnknownModel
                                            (case el_text node of
                                               None \<Rightarrow> ''None'' | Some t \<Rightarrow> t))) s2
                                | Inl e \<Rightarrow> Inl e)
                          else Inr s2)
            | _ \<Rightarrow> Inr s2))"

definition analyze_record_end :: "xml_env \<Rightarrow> xml_element \<Rightarrow> xml_state \<Rightarrow> py_error + xml_state" where
  "analyze_record_end env node s = Inr (s\<lparr>xs_current_model := None\<rparr>)"

definition analyze_data_end :: "xml_env \<Rightarrow> xml_element \<Rightarrow> xml_state \<Rightarrow> py_error + xml_state" where
  "analyze_data_end env node s = Inr (s\<lparr>xs_current_pool := None\<rparr>)"

text \<open>
  \<open>analyze_node_start\<close> and \<open>analyze_node_end\<close>: the handler is looked up by the
  element's tag (\<open>getattr(self, f"_analyze_{tag}_start", None)\<close>); the class defines
  start handlers for tryton, data, record and field and end handlers for record and
  data.
\<close>

definition xml_push :: "xml_element \<Rightarrow> xml_state \<Rightarrow> xml_state" where
  "xml_push element s =
     (let s1 = s\<lparr>xs_tag_stack := xs_tag_stack s @ [element]\<rparr>
      in case el_text element of
           None \<Rightarrow> s1
         | Some t \<Rightarrow>
             if t \<noteq> [] \<and> startswith t [CHR 0x0A]
             then s1\<lparr>xs_cur_prefix := int (length t) - 1\<rparr>
             else s1)"

definition xml_node_start :: "xml_env \<Rightarrow> xml_element \<Rightarrow> xml_state \<Rightarrow> py_error + xml_state" where
  "xml_node_start env element s =
     (let s2 = xml_push element s
      in if el_tag element = ''tryton'' then analyze_tryton_start env element s2
         else if el_tag element = ''data'' then analyze_data_start env element s2
         else if el_tag element = ''record'' then analyze_record_start env element s2
         else if el_tag element = ''field'' then analyze_field_start env element s2
         else Inr s2)"

definition xml_node_end :: "xml_env \<Rightarrow> xml_element \<Rightarrow> xml_state \<Rightarrow> py_error + xml_state" where
  "xml_node_end env element s =
     bind_err
       (if el_tag element = ''record'' then analyze_record_end env element s
        else if el_tag element = ''data'' then analyze_data_end env element s
        else Inr s)
       (\<lambda>s1. if xs_tag_stack s1 = [] then Inl IndexError
              else Inr (s1\<lparr>xs_tag_stack := butlast (xs_tag_stack s1)\<rparr>))"

text \<open>
  The event loop of \<open>XMLAnalyzer.analyze\<close>. The events are those the parser delivered:
  when the parser stops on a syntax error the loop ends there (the exception is
  caught and dropped), so the list is the stream up to that point. Events other than
  "start" and "end" (comments) are skipped.
\<close>

fun xml_step :: "xml_env \<Rightarrow> string \<times> xml_element \<Rightarrow> xml_state \<Rightarrow> py_error + xml_state" where
  "xml_step env (action, element) s =
     (if action = ''start'' then xml_node_start env element s
      else if action = ''end'' then xml_node_end env element s
      else Inr s)"

fun xml_events :: "xml_env \<Rightarrow> (string \<times> xml_element) list \<Rightarrow> xml_state \<Rightarrow> py_error + xml_state" where
  "xml_events env [] s = Inr s"
| "xml_events env (ev # rest) s =
     (case xml_step env ev s of
        Inl e \<Rightarrow> Inl e
      | Inr s' \<Rightarrow> xml_events env rest s')"

definition check_is_tryton_xml_file :: "xml_env \<Rightarrow> bool" where
  "check_is_tryton_xml_file env =
     list_ex (\<lambda>l. xe_filename env @ ''.xml'' = strip l) (xe_cfg_lines env)"

definition file_diag :: "xml_env \<Rightarrow> diag_kind \<Rightarrow> diagnostic" where
  "file_diag env k =
     \<lparr>d_kind = k,
      d_position = \<lparr>range_start = \<lparr>pos_line = 1, pos_column = 0\<rparr>,
                    range_end = \<lparr>pos_line = 1, pos_column = 99\<rparr>\<rparr>,
      d_filepath = xe_filepath env, d_context = no_context\<rparr>"

definition xml_analyze :: "xml_env \<Rightarrow> (string \<times> xml_element) list \<Rightarrow> py_error + diagnostic list" where
  "xml_analyze env events =
     (let is_tryton_xml = check_is_tryton_xml_file env
      in case xml_events env events xml_init of
           Inl e \<Rightarrow> Inl e
         | Inr s \<Rightarrow>
             (let ds1 = (if is_tryton_xml \<and> \<not> xs_found_tryton_tag s
                         then xs_diagnostics s @ [file_diag env TrytonTagNotFound]
                         else xs_diagnostics s);
                  ds2 = (if \<not> is_tryton_xml \<and> xs_found_tryton_tag s
                         then ds1 @ [file_diag env TrytonXmlFileUnregistered]
                         else ds1)
              in Inr ds2))"

text \<open>
  For stating properties of a pass: the RecordDuplicateId diagnostics of a list that
  are about one identifier, and the events that open a record carrying it.
\<close>

definition duplicate_id_diagnostics :: "string \<Rightarrow> diagnostic list \<Rightarrow> diagnostic list" where
  "duplicate_id_diagnostics fs_id ds =
     filter (\<lambda>d. case d_kind d of RecordDuplicateId i l \<Rightarrow> i = fs_id | _ \<Rightarrow> False) ds"

definition record_start_with_id :: "string \<Rightarrow> string \<times> xml_element \<Rightarrow> bool" where
  "record_start_with_id fs_id ev =
     (fst ev = ''start'' \<and> el_tag (snd ev) = ''record'' \<and> el_attrib (snd ev) ''id'' = Some fs_id)"

section \<open>View-description walker (analyzer.py: ViewAnalyzer)\<close>










section \<open>Completion listing (pool.py: PoolModel.generate_completions)\<close>

text \<open>
  What the introspector returns for one member of a model (\<open>fetch_completions\<close>):
  its type ("field", "state" or "method") and the data each type comes with. Optional
  entries that are absent are given as the empty list or string, which the code
  treats like an absent one. The choices of a selection field come as the field
  declares them, pairs of a key and a label; a key is a string or a value of another
  type (\<open>None\<close> for the empty choice), given as \<open>None\<close> here.
\<close>

record completion_info =
  info_type :: string
  info_string :: string
  info_class_name :: string
  info_function :: bool
  info_selection :: "(string option \<times> string) list"
  info_domain :: string
  info_states :: string
  info_documentation :: "string option"

text \<open>\<open>CompletionItemKind.Field\<close> and \<open>CompletionItemKind.Method\<close>.\<close>

datatype completion_item_kind = FieldKind | MethodKind

record completion_item =
  item_label :: string
  item_kind :: completion_item_kind
  item_detail :: "string option"
  item_documentation :: "string option"

text \<open>
  \<open>sep.join(keys)\<close> on the keys of the choices: the join raises TypeError when an
  item is not a string.
\<close>

definition join_keys :: "string \<Rightarrow> string option list \<Rightarrow> py_error + string" where
  "join_keys sep keys =
     (case those keys of
        None \<Rightarrow> Inl TypeError
      | Some xs \<Rightarrow> Inr (join_with sep xs))"

definition field_documentation :: "completion_info \<Rightarrow> py_error + string" where
  "field_documentation info =
     bind_err
       (if info_selection info \<noteq> []
        then bind_err (join_keys '', '' (map fst (info_selection info)))
               (\<lambda>selection.
                  Inr ([CHR 0x0A, CHR 0x0A] @ ''Selection:'' @ [CHR 0x0A, CHR 0x0A] @ selection))
        else Inr [])
       (\<lambda>choices.
          Inr (info_string info @
               (if info_function info then '' [Function]'' else []) @
               choices @
               (if info_domain info \<noteq> []
                then [CHR 0x0A, CHR 0x0A] @ ''Domain:'' @ [CHR 0x0A, CHR 0x0A] @ info_domain info
                else []) @
               (if info_states info \<noteq> []
                then [CHR 0x0A, CHR 0x0A] @ ''States: '' @ [CHR 0x0A, CHR 0x0A] @ info_states info
                else [])))"

text \<open>
  The item made for one member of the completion dictionary; a member of another
  type gives none.
\<close>

definition completion_entry :: "string \<Rightarrow> completion_info \<Rightarrow> py_error + completion_item list" where
  "completion_entry key info =
     (if info_type info = ''field'' then
        bind_err (field_documentation info)
          (\<lambda>documentation.
             Inr [\<lparr>item_label = key, item_kind = FieldKind,
                   item_detail = Some (info_class_name info),
                   item_documentation = Some documentation\<rparr>])
      else if info_type info = ''state'' then
        Inr [\<lparr>item_label = key, item_kind = FieldKind,
              item_detail = Some (info_class_name info), item_documentation = None\<rparr>]
      else if info_type info = ''method'' then
        Inr [\<lparr>item_label = key, item_kind = MethodKind,
              item_detail = None, item_documentation = info_documentation info\<rparr>]
      else Inr [])"

text \<open>The loop over the items of the dictionary, in its order.\<close>

fun completion_items :: "(string \<times> completion_info) list \<Rightarrow> py_error + completion_item list" where
  "completion_items [] = Inr []"
| "completion_items ((key, info) # rest) =
     (case completion_entry key info of
        Inl e \<Rightarrow> Inl e
      | Inr items \<Rightarrow>
          (case completion_items rest of
             Inl e \<Rightarrow> Inl e
           | Inr others \<Rightarrow> Inr (items @ others)))"

text \<open>The sort is stable, with key 0 for a field and 10 for anything else.\<close>

definition completion_rank :: "completion_item \<Rightarrow> nat" where
  "completion_rank x = (if item_kind x = FieldKind then 0 else 10)"

definition generate_completions ::
  "(string \<times> completion_info) list \<Rightarrow> py_error + completion_item list" where
  "generate_completions listing =
     (case completion_items listing of
        Inl e \<Rightarrow> Inl e
      | Inr completions \<Rightarrow> Inr (sort_key completion_rank completions))"

section \<open>General source walker (analyzer.py: PythonAnalyzer)\<close>

subsection \<open>Syntax trees\<close>

text \<open>
  The part of the concrete syntax tree the walker has handlers for, plus generic
  nodes for every other form. Each node carries an identifier standing for the
  identity of the node object (the walker keys its maps by node objects and looks
  positions up by node). \<open>SimpleString\<close> holds the token as written, quotes
  included; \<open>Attribute n v an a\<close> is \<open>v.a\<close> with \<open>an\<close> the identifier of the Name
  node of \<open>a\<close>; an argument is its keyword (if any) and its value. Loops,
  comprehensions and nested definitions are outside this fragment.
\<close>

datatype expr =
    Name nat string
  | SimpleString nat string
  | Constant nat
  | Attribute nat expr nat string
  | Subscript nat expr "subscript_element list"
  | Call nat expr "arg list"
  | ListExpr nat "expr list"
  | TupleExpr nat "expr list"
  | Lambda nat expr
  | OtherExpr nat "expr list"
and arg = Arg "(nat \<times> string) option" expr
and subscript_element = Index expr | Slice "expr list"

fun node_id :: "expr \<Rightarrow> nat" where
  "node_id (Name n _) = n"
| "node_id (SimpleString n _) = n"
| "node_id (Constant n) = n"
| "node_id (Attribute n _ _ _) = n"
| "node_id (Subscript n _ _) = n"
| "node_id (Call n _ _) = n"
| "node_id (ListExpr n _) = n"
| "node_id (TupleExpr n _) = n"
| "node_id (Lambda n _) = n"
| "node_id (OtherExpr n _) = n"

fun arg_value :: "arg \<Rightarrow> expr" where
  "arg_value (Arg _ v) = v"

fun arg_keyword :: "arg \<Rightarrow> (nat \<times> string) option" where
  "arg_keyword (Arg k _) = k"

text \<open>
  Statements: an expression statement, \<open>Assign n targets value\<close>,
  \<open>AnnAssign n target annotation value\<close> (the value may be absent), and a generic
  compound statement with its header expressions and its body.
\<close>

datatype stmt =
    Expr expr
  | Assign nat "expr list" expr
  | AnnAssign nat expr expr "expr option"
  | Compound "expr list" "stmt list"

text \<open>\<open>value[1:-1]\<close> of a string token: the text between its first and last character.\<close>

definition unquote :: "string \<Rightarrow> string" where
  "unquote v = butlast (tl v)"

subsection \<open>Analyzer state\<close>

text \<open>
  \<open>TrytonMetadata\<close> of the class being visited, the constant surroundings of a
  PythonAnalyzer (file, module, raw lines, node positions, import path, pool manager,
  the order in which the set of pool kinds is enumerated, the override chains and the
  parsed files the registry hands out) and its mutable state. The two binding maps
  are keyed by a variable name or by a node.
\<close>

record tryton_metadata =
  tm_pool :: pool
  tm_model :: "pool_model option"
  tm_model_name :: string
  tm_kind :: "string option"
  tm_class_name :: string

datatype mkey = KName string | KNode nat

text \<open>
  An entry of the override chain the introspector returns for a method: the class
  (as \<open>str(klass)\<close>) and either nothing (the class does not have the method), the
  mark "no_code", or the file and first line of the definition.
\<close>

datatype details = NoDetails | NoCode | Site string int

text \<open>
  What \<open>FunctionFinder\<close> and \<open>ignore_error_code\<close> read of a parsed parent file:
  classes and functions with the lines they span, a function with the comments inside
  it, and any other statement with the statements it contains.
\<close>

datatype outline =
    OClass int int "outline list"
  | OFunction int int "string list"
  | OBlock "outline list"

record py_env =
  pe_filepath :: string
  pe_module :: "string option"
  pe_raw_lines :: "string list"
  pe_positions :: "nat \<Rightarrow> code_range"
  pe_import_path :: string
  pe_manager :: pool_manager
  pe_supported_keys :: "string list"
  pe_super_information :: "pool_model \<Rightarrow> string \<Rightarrow> (string \<times> details) list"
  pe_get_parsed :: "string \<Rightarrow> outline list option"

record py_state =
  ps_diagnostics :: "diagnostic list"
  ps_class_metadata :: "tryton_metadata option"
  ps_cur_function :: "string option"
  ps_function_pool_vars :: "string set"
  ps_node_mappings :: "mkey \<rightharpoonup> pool_model"
  ps_node_list_mappings :: "mkey \<rightharpoonup> pool_model"

definition get_module_name :: "py_env \<Rightarrow> string" where
  "get_module_name env = (case pe_module env of None \<Rightarrow> [] | Some n \<Rightarrow> n)"

definition get_current_model_name :: "py_state \<Rightarrow> string" where
  "get_current_model_name s =
     (case ps_class_metadata s of None \<Rightarrow> [] | Some md \<Rightarrow> tm_model_name md)"

definition get_current_class_name :: "py_state \<Rightarrow> string" where
  "get_current_class_name s =
     (case ps_class_metadata s of None \<Rightarrow> [] | Some md \<Rightarrow> tm_class_name md)"

definition get_current_function_name :: "py_state \<Rightarrow> string" where
  "get_current_function_name s =
     (case ps_cur_function s of None \<Rightarrow> [] | Some f \<Rightarrow> f)"

text \<open>\<open>get_import_path\<close>: inside a class, the quoted qualified name of the class.\<close>

definition get_import_path :: "py_env \<Rightarrow> py_state \<Rightarrow> string" where
  "get_import_path env s =
     (case ps_class_metadata s of
        None \<Rightarrow> pe_import_path env
      | Some md \<Rightarrow> [CHR 0x27] @ pe_import_path env @ ''.'' @ get_current_class_name s @ [CHR 0x27])"

text \<open>\<open>PythonAnalyzer.get_pool\<close>.\<close>

definition py_get_pool :: "py_env \<Rightarrow> py_state \<Rightarrow> pool option" where
  "py_get_pool env s =
     (case ps_class_metadata s of
        None \<Rightarrow> (case pe_module env of
                   None \<Rightarrow> None
                 | Some name \<Rightarrow> Some (get_pool (pe_manager env) [name]))
      | Some md \<Rightarrow> Some (tm_pool md))"

text \<open>\<open>FunctionDiagnostic.init_from_analyzer\<close> for the node with identifier \<open>n\<close>.\<close>

definition py_diag :: "py_env \<Rightarrow> py_state \<Rightarrow> nat \<Rightarrow> diag_kind \<Rightarrow> diagnostic" where
  "py_diag env s n k =
     \<lparr>d_kind = k, d_position = pe_positions env n, d_filepath = pe_filepath env,
      d_context = \<lparr>ctx_module = get_module_name env, ctx_model = get_current_model_name s,
                   ctx_class = get_current_class_name s,
                   ctx_function = get_current_function_name s\<rparr>\<rparr>"

definition py_add :: "py_env \<Rightarrow> diagnostic \<Rightarrow> py_state \<Rightarrow> py_error + py_state" where
  "py_add env d s =
     (case add_diagnostic PythonAnalyzer (pe_raw_lines env) d (ps_diagnostics s) of
        Inl e \<Rightarrow> Inl e
      | Inr ds \<Rightarrow> Inr (s\<lparr>ps_diagnostics := ds\<rparr>))"

subsection \<open>Inferred models of nodes\<close>

text \<open>
  The text of \<open>", ".join(pool.supported_keys)\<close>. The keys are a Python set, and the
  order in which the join meets them is not fixed by the program (it changes with the
  hash seed of the run): the enumeration is taken from the environment.
\<close>

definition supported_keys_text :: "py_env \<Rightarrow> string" where
  "supported_keys_text env = join_with '', '' (pe_supported_keys env)"

text \<open>
  \<open>_handle_pool_get\<close>: a call \<open>Pool().get("name"[, "kind"])\<close> or
  \<open>var.get("name"[, "kind"])\<close> with \<open>var\<close> a known pool variable binds the call node
  to the model looked up. The result is the model found (if any) and the new state.
\<close>

fun is_pool_receiver :: "py_state \<Rightarrow> expr \<Rightarrow> bool" where
  "is_pool_receiver s (Call _ (Name _ f) _) = (f = ''Pool'')"
| "is_pool_receiver s (Name _ v) = (v \<in> ps_function_pool_vars s)"
| "is_pool_receiver s _ = False"

fun pool_get_args :: "arg list \<Rightarrow> ((nat \<times> string) \<times> (nat \<times> string) option) option" where
  "pool_get_args [Arg _ (SimpleString n v)] = Some ((n, v), None)"
| "pool_get_args [Arg _ (SimpleString n v), Arg _ (SimpleString n' v')] =
     Some ((n, v), Some (n', v'))"
| "pool_get_args _ = None"

fun pool_get_match :: "py_state \<Rightarrow> expr \<Rightarrow> ((nat \<times> string) \<times> (nat \<times> string) option) option" where
  "pool_get_match s (Call _ (Attribute _ recv _ a) args) =
     (if is_pool_receiver s recv \<and> a = ''get'' then pool_get_args args else None)"
| "pool_get_match s _ = None"

definition handle_pool_get ::
  "py_env \<Rightarrow> py_state \<Rightarrow> expr \<Rightarrow> py_error + (pool_model option \<times> py_state)" where
  "handle_pool_get env s node =
     (case py_get_pool env s of
        None \<Rightarrow> Inr (None, s)
      | Some p \<Rightarrow>
          (case pool_get_match s node of
             None \<Rightarrow> Inr (None, s)
           | Some ((name_id, name_tok), kind_arg) \<Rightarrow>
               bind_err
                 (case kind_arg of
                    None \<Rightarrow> Inr (''model'', s)
                  | Some (kind_id, kind_tok) \<Rightarrow>
                      if unquote kind_tok \<notin> supported_keys
                      then bind_err
                             (py_add env
                                (py_diag env s kind_id (UnknownPoolKey (supported_keys_text env))) s)
                             (\<lambda>s1. Inr (unquote kind_tok, s1))
                      else Inr (unquote kind_tok, s))
                 (\<lambda>(kind, s1).
                    case pool_get p (unquote name_tok) kind of
                      Inr m \<Rightarrow>
                        Inr (Some m,
                             s1\<lparr>ps_node_mappings := (ps_node_mappings s1)(KNode (node_id node) \<mapsto> m)\<rparr>)
                    | Inl KeyError \<Rightarrow>
                        bind_err
                          (py_add env
                             (py_diag env s1 name_id (UnknownModel (unquote name_tok))) s1)
                          (\<lambda>s2. Inr (None, s2))
                    | Inl e \<Rightarrow> Inl e)))"

text \<open>\<open>_get_type\<close> and \<open>_get_list_type\<close>. The node may be absent (a missing value).\<close>

definition name_key :: "expr \<Rightarrow> mkey option" where
  "name_key node = (case node of Name _ v \<Rightarrow> Some (KName v) | _ \<Rightarrow> None)"

definition lookup_node :: "(mkey \<rightharpoonup> pool_model) \<Rightarrow> expr \<Rightarrow> pool_model option" where
  "lookup_node m node =
     (case (case name_key node of None \<Rightarrow> None | Some k \<Rightarrow> m k) of
        Some model \<Rightarrow> Some model
      | None \<Rightarrow> m (KNode (node_id node)))"

definition get_type ::
  "py_env \<Rightarrow> py_state \<Rightarrow> expr option \<Rightarrow> py_error + (pool_model option \<times> py_state)" where
  "get_type env s node_opt =
     (case node_opt of
        None \<Rightarrow> Inr (None, s)
      | Some node \<Rightarrow>
          (case lookup_node (ps_node_mappings s) node of
             Some model \<Rightarrow> Inr (Some model, s)
           | None \<Rightarrow> handle_pool_get env s node))"

definition get_list_type :: "py_state \<Rightarrow> expr option \<Rightarrow> pool_model option" where
  "get_list_type s node_opt =
     (case node_opt of
        None \<Rightarrow> None
      | Some node \<Rightarrow> lookup_node (ps_node_list_mappings s) node)"

subsection \<open>Node handlers\<close>

text \<open>
  \<open>leave_Attribute\<close> for \<open>v.a\<close>: when the model of \<open>v\<close> is known, \<open>a\<close> must be one
  of its members; a relation field (or a wizard state) binds the attribute node to
  the target model, as a single record or as a sequence. The lookup of the target is
  not guarded: an unknown target raises.
\<close>

definition leave_Attribute ::
  "py_env \<Rightarrow> nat \<Rightarrow> expr \<Rightarrow> nat \<Rightarrow> string \<Rightarrow> py_state \<Rightarrow> py_error + py_state" where
  "leave_Attribute env n v an attr s =
     bind_err (get_type env s (Some v))
       (\<lambda>(model_opt, s1).
          case model_opt of
            None \<Rightarrow> Inr s1
          | Some model \<Rightarrow>
              bind_err
                (if \<not> has_attribute model attr
                 then py_add env (py_diag env s1 an (UnknownAttribute (pm_name model) attr)) s1
                 else Inr s1)
                (\<lambda>s2.
                   case py_get_pool env s2 of
                     None \<Rightarrow> Inr s2
                   | Some p \<Rightarrow>
                       if pm_type model = ''model'' then
                         (case pm_fields model attr of
                            None \<Rightarrow> Inr s2
                          | Some field \<Rightarrow>
                              (case fi_relation field of
                                 None \<Rightarrow> Inr s2
                               | Some relation \<Rightarrow>
                                   bind_err (pool_get p relation ''model'')
                                     (\<lambda>target.
                                        if fi_type field = ''many2one''
                                        then Inr (s2\<lparr>ps_node_mappings :=
                                                    (ps_node_mappings s2)(KNode n \<mapsto> target)\<rparr>)
                                        else Inr (s2\<lparr>ps_node_list_mappings :=
                                                    (ps_node_list_mappings s2)(KNode n \<mapsto> target)\<rparr>))))
                       else if pm_type model = ''wizard'' then
                         (case pm_states model attr of
                            None \<Rightarrow> Inr s2
                          | Some relation \<Rightarrow>
                              bind_err (pool_get p relation ''model'')
                                (\<lambda>target.
                                   Inr (s2\<lparr>ps_node_mappings :=
                                          (ps_node_mappings s2)(KNode n \<mapsto> target)\<rparr>)))
                       else Inr s2))"

text \<open>
  \<open>visit_Call\<close>: calling something whose model is known gives a record of that model;
  \<open>X.search(...)\<close> and \<open>X.browse(...)\<close> on a bound \<open>X\<close> give a sequence of it.
\<close>

definition call_receiver_key :: "py_state \<Rightarrow> expr \<Rightarrow> (mkey \<times> string) option" where
  "call_receiver_key s func =
     (case func of
        Attribute _ v _ a \<Rightarrow>
          if ps_node_mappings s (KNode (node_id v)) \<noteq> None then Some (KNode (node_id v), a)
          else (case v of
                  Name _ x \<Rightarrow> if ps_node_mappings s (KName x) \<noteq> None
                              then Some (KName x, a) else None
                | _ \<Rightarrow> None)
      | _ \<Rightarrow> None)"

definition visit_Call :: "py_env \<Rightarrow> nat \<Rightarrow> expr \<Rightarrow> py_state \<Rightarrow> py_error + py_state" where
  "visit_Call env n func s =
     bind_err (get_type env s (Some func))
       (\<lambda>(value_type, s1).
          case value_type of
            Some model \<Rightarrow>
              Inr (s1\<lparr>ps_node_mappings := (ps_node_mappings s1)(KNode n \<mapsto> model)\<rparr>)
          | None \<Rightarrow>
              (case call_receiver_key s1 func of
                 None \<Rightarrow> Inr s1
               | Some (k, func_name) \<Rightarrow>
                   if func_name = ''search'' \<or> func_name = ''browse''
                   then (case ps_node_mappings s1 k of
                           None \<Rightarrow> Inl KeyError
                         | Some model \<Rightarrow>
                             Inr (s1\<lparr>ps_node_list_mappings :=
                                    (ps_node_list_mappings s1)(KNode n \<mapsto> model)\<rparr>))
                   else Inr s1))"

text \<open>\<open>leave_Subscript\<close>: \<open>xs[i]\<close> or \<open>xs[i:j]\<close> (one subscript element) of a sequence.\<close>

definition leave_Subscript ::
  "nat \<Rightarrow> expr \<Rightarrow> subscript_element list \<Rightarrow> py_state \<Rightarrow> py_state" where
  "leave_Subscript n v slice s =
     (if length slice = 1 then
        (case get_list_type s (Some v) of
           None \<Rightarrow> s
         | Some value_type \<Rightarrow>
             s\<lparr>ps_node_mappings := (ps_node_mappings s)(KNode n \<mapsto> value_type)\<rparr>)
      else s)"

text \<open>
  The annotations \<open>Record\<close>, \<open>Records\<close>, \<open>Record["name"]\<close> and \<open>Records["name"]\<close>:
  the name of the annotation and, if given, the string token naming the model.
\<close>

fun annotation_match :: "expr \<Rightarrow> (string \<times> (nat \<times> string) option) option" where
  "annotation_match (Name _ a) =
     (if a = ''Record'' \<or> a = ''Records'' then Some (a, None) else None)"
| "annotation_match (Subscript _ (Name _ a) [Index (SimpleString n v)]) =
     (if a = ''Record'' \<or> a = ''Records'' then Some (a, Some (n, v)) else None)"
| "annotation_match _ = None"

text \<open>
  The model an annotation stands for: the named one (UnknownModel when the pool does
  not have it) or the model of the enclosing class.
\<close>

definition annotated_model ::
  "py_env \<Rightarrow> pool \<Rightarrow> (nat \<times> string) option \<Rightarrow> py_state \<Rightarrow> py_error + (pool_model option \<times> py_state)" where
  "annotated_model env p model_name s =
     (case model_name of
        Some (n, tok) \<Rightarrow>
          (case pool_get p (unquote tok) ''model'' of
             Inr m \<Rightarrow> Inr (Some m, s)
           | Inl KeyError \<Rightarrow>
               bind_err (py_add env (py_diag env s n (UnknownModel (unquote tok))) s)
                 (\<lambda>s1. Inr (None, s1))
           | Inl e \<Rightarrow> Inl e)
      | None \<Rightarrow>
          (case ps_class_metadata s of
             Some md \<Rightarrow> Inr (tm_model md, s)
           | None \<Rightarrow> Inr (None, s)))"

definition visit_AnnAssign :: "py_env \<Rightarrow> nat \<Rightarrow> expr \<Rightarrow> py_state \<Rightarrow> py_error + py_state" where
  "visit_AnnAssign env n annotation s =
     (case py_get_pool env s of
        None \<Rightarrow> Inr s
      | Some p \<Rightarrow>
          (case annotation_match annotation of
             None \<Rightarrow> Inr s
           | Some (annotation_name, model_name) \<Rightarrow>
               bind_err (annotated_model env p model_name s)
                 (\<lambda>(model_opt, s1).
                    case model_opt of
                      None \<Rightarrow> Inr s1
                    | Some model \<Rightarrow>
                        if annotation_name = ''Record''
                        then Inr (s1\<lparr>ps_node_mappings :=
                                    (ps_node_mappings s1)(KNode n \<mapsto> model)\<rparr>)
                        else Inr (s1\<lparr>ps_node_list_mappings :=
                                    (ps_node_list_mappings s1)(KNode n \<mapsto> model)\<rparr>))))"

text \<open>
  \<open>leave_AnnAssign\<close>. The model of the value is compared with the model the
  annotation gave to the statement node. In the sequence branch the message reads
  \<open>self._node_mappings[node]\<close>, the single-record map, which has no entry for the node
  when that branch is reached: the subscript raises KeyError.
\<close>

definition pop_name :: "string \<Rightarrow> py_state \<Rightarrow> py_state" where
  "pop_name name s =
     s\<lparr>ps_node_mappings := (ps_node_mappings s)(KName name := None),
       ps_node_list_mappings := (ps_node_list_mappings s)(KName name := None)\<rparr>"

definition leave_AnnAssign ::
  "py_env \<Rightarrow> nat \<Rightarrow> expr \<Rightarrow> expr option \<Rightarrow> py_state \<Rightarrow> py_error + py_state" where
  "leave_AnnAssign env n target_node value s =
     (case target_node of
        Name tn target \<Rightarrow>
          bind_err (get_type env s value)
            (\<lambda>(value_type, s1).
               bind_err
                 (case (value_type, ps_node_mappings s1 (KNode n)) of
                    (Some vt, Some prev) \<Rightarrow>
                      if vt \<noteq> prev
                      then py_add env
                             (py_diag env s1 tn (ChangeVariableModel (pm_name prev) (pm_name vt))) s1
                      else Inr s1
                  | _ \<Rightarrow> Inr s1)
                 (\<lambda>s2.
                    if value_type \<noteq> None \<or> ps_node_mappings s2 (KNode n) \<noteq> None
                    then Inr (s2\<lparr>ps_node_mappings := (ps_node_mappings s2)
                                  (KName target :=
                                     (case value_type of
                                        Some vt \<Rightarrow> Some vt
                                      | None \<Rightarrow> ps_node_mappings s2 (KNode n)))\<rparr>)
                    else
                      (let list_type = get_list_type s2 value in
                       bind_err
                         (case (list_type, ps_node_list_mappings s2 (KNode n)) of
                            (Some vt, Some prev) \<Rightarrow>
                              if vt \<noteq> prev
                              then (case ps_node_mappings s2 (KNode n) of
                                      None \<Rightarrow> Inl KeyError
                                    | Some prev_single \<Rightarrow>
                                        py_add env
                                          (py_diag env s2 tn
                                             (ChangeVariableModel (pm_name prev_single) (pm_name vt))) s2)
                              else Inr s2
                          | _ \<Rightarrow> Inr s2)
                         (\<lambda>s3.
                            if list_type \<noteq> None \<or> ps_node_list_mappings s3 (KNode n) \<noteq> None
                            then Inr (s3\<lparr>ps_node_list_mappings := (ps_node_list_mappings s3)
                                          (KName target :=
                                             (case list_type of
                                                Some vt \<Rightarrow> Some vt
                                              | None \<Rightarrow> ps_node_list_mappings s3 (KNode n)))\<rparr>)
                            else Inr (pop_name target s3)))))
      | _ \<Rightarrow> Inr s)"

text \<open>
  \<open>_check_is_pool\<close>: \<open>var = Pool(...)\<close> with a single name target records \<open>var\<close> as a
  pool variable.
\<close>

fun check_is_pool :: "expr list \<Rightarrow> expr \<Rightarrow> string option" where
  "check_is_pool [Name _ var] (Call _ (Name _ f) _) = (if f = ''Pool'' then Some var else None)"
| "check_is_pool _ _ = None"

text \<open>
  The targets \<open>leave_Assign\<close> understands, read off the first target: a tuple of
  names (at least one element, all of them names) or a single name.
\<close>

fun element_name :: "expr \<Rightarrow> string option" where
  "element_name (Name _ v) = Some v"
| "element_name _ = None"

fun assign_targets :: "expr list \<Rightarrow> (string option \<times> string list) option" where
  "assign_targets (TupleExpr _ elements # _) =
     (if elements \<noteq> [] \<and> list_all (\<lambda>e. element_name e \<noteq> None) elements
      then Some (None, map (\<lambda>e. the (element_name e)) elements)
      else None)"
| "assign_targets (Name _ v # _) = Some (Some v, [])"
| "assign_targets _ = None"

definition pop_names :: "string list \<Rightarrow> py_state \<Rightarrow> py_state" where
  "pop_names names s = foldl (\<lambda>st name. pop_name name st) s names"

definition truthy_name :: "string option \<Rightarrow> string list" where
  "truthy_name mono_t = (case mono_t of Some v \<Rightarrow> (if v \<noteq> [] then [v] else []) | None \<Rightarrow> [])"

definition leave_Assign ::
  "py_env \<Rightarrow> nat \<Rightarrow> expr list \<Rightarrow> expr \<Rightarrow> py_state \<Rightarrow> py_error + py_state" where
  "leave_Assign env n targets value s =
     (case check_is_pool targets value of
        Some var \<Rightarrow> Inr (s\<lparr>ps_function_pool_vars := insert var (ps_function_pool_vars s)\<rparr>)
      | None \<Rightarrow>
          (case assign_targets targets of
             None \<Rightarrow> Inr s
           | Some (mono_t, multi_t) \<Rightarrow>
               bind_err (get_type env s (Some value))
                 (\<lambda>(value_type, s1).
                    case value_type of
                      Some vt \<Rightarrow>
                        Inr (pop_names multi_t
                               (case truthy_name mono_t of
                                  [] \<Rightarrow> s1
                                | v # _ \<Rightarrow>
                                    s1\<lparr>ps_node_mappings := (ps_node_mappings s1)(KName v \<mapsto> vt)\<rparr>))
                    | None \<Rightarrow>
                        (case get_list_type s1 (Some value) of
                           Some lt \<Rightarrow>
                             (case truthy_name mono_t of
                                v # _ \<Rightarrow>
                                  Inr (s1\<lparr>ps_node_list_mappings :=
                                         (ps_node_list_mappings s1)(KName v \<mapsto> lt)\<rparr>)
                              | [] \<Rightarrow>
                                  if multi_t \<noteq> []
                                  then Inr (foldl (\<lambda>st name.
                                              st\<lparr>ps_node_mappings :=
                                                   (ps_node_mappings st)(KName name \<mapsto> lt)\<rparr>)
                                            s1 multi_t)
                                  else Inr (pop_names (multi_t @ truthy_name mono_t) s1))
                         | None \<Rightarrow> Inr (pop_names (multi_t @ truthy_name mono_t) s1)))))"

subsection \<open>The walk\<close>

text \<open>
  The visitor's traversal: a node's \<open>visit_\<close> handler, its children in the order of
  the syntax tree library (value before attribute name and before subscript; callee
  before arguments; targets, then annotation, then value), its \<open>leave_\<close> handler. A
  lambda is not entered.
\<close>

fun visit_expr :: "py_env \<Rightarrow> expr \<Rightarrow> py_state \<Rightarrow> py_error + py_state"
  and visit_exprs :: "py_env \<Rightarrow> expr list \<Rightarrow> py_state \<Rightarrow> py_error + py_state"
  and visit_args :: "py_env \<Rightarrow> arg list \<Rightarrow> py_state \<Rightarrow> py_error + py_state"
  and visit_slices :: "py_env \<Rightarrow> subscript_element list \<Rightarrow> py_state \<Rightarrow> py_error + py_state" where
  "visit_expr env (Name n v) s = Inr s"
| "visit_expr env (SimpleString n v) s = Inr s"
| "visit_expr env (Constant n) s = Inr s"
| "visit_expr env (Attribute n v an a) s =
     (case visit_expr env v s of
        Inl e \<Rightarrow> Inl e
      | Inr s1 \<Rightarrow> leave_Attribute env n v an a s1)"
| "visit_expr env (Subscript n v slice) s =
     (case visit_expr env v s of
        Inl e \<Rightarrow> Inl e
      | Inr s1 \<Rightarrow>
          (case visit_slices env slice s1 of
             Inl e \<Rightarrow> Inl e
           | Inr s2 \<Rightarrow> Inr (leave_Subscript n v slice s2)))"
| "visit_expr env (Call n func args) s =
     (case visit_Call env n func s of
        Inl e \<Rightarrow> Inl e
      | Inr s1 \<Rightarrow>
          (case visit_expr env func s1 of
             Inl e \<Rightarrow> Inl e
           | Inr s2 \<Rightarrow> visit_args env args s2))"
| "visit_expr env (ListExpr n elements) s = visit_exprs env elements s"
| "visit_expr env (TupleExpr n elements) s = visit_exprs env elements s"
| "visit_expr env (Lambda n body) s = Inr s"
| "visit_expr env (OtherExpr n children) s = visit_exprs env children s"
| "visit_exprs env [] s = Inr s"
| "visit_exprs env (e # es) s =
     (case visit_expr env e s of
        Inl err \<Rightarrow> Inl err
      | Inr s1 \<Rightarrow> visit_exprs env es s1)"
| "visit_args env [] s = Inr s"
| "visit_args env (Arg k v # rest) s =
     (case visit_expr env v s of
        Inl err \<Rightarrow> Inl err
      | Inr s1 \<Rightarrow> visit_args env rest s1)"
| "visit_slices env [] s = Inr s"
| "visit_slices env (Index e # rest) s =
     (case visit_expr env e s of
        Inl err \<Rightarrow> Inl err
      | Inr s1 \<Rightarrow> visit_slices env rest s1)"
| "visit_slices env (Slice es # rest) s =
     (case visit_exprs env es s of
        Inl err \<Rightarrow> Inl err
      | Inr s1 \<Rightarrow> visit_slices env rest s1)"

fun visit_stmt :: "py_env \<Rightarrow> stmt \<Rightarrow> py_state \<Rightarrow> py_error + py_state"
  and visit_stmts :: "py_env \<Rightarrow> stmt list \<Rightarrow> py_state \<Rightarrow> py_error + py_state" where
  "visit_stmt env (Expr e) s = visit_expr env e s"
| "visit_stmt env (Assign n targets value) s =
     (case visit_exprs env targets s of
        Inl e \<Rightarrow> Inl e
      | Inr s1 \<Rightarrow>
          (case visit_expr env value s1 of
             Inl e \<Rightarrow> Inl e
           | Inr s2 \<Rightarrow> leave_Assign env n targets value s2))"
| "visit_stmt env (AnnAssign n target annotation value) s =
     (case visit_AnnAssign env n annotation s of
        Inl e \<Rightarrow> Inl e
      | Inr s1 \<Rightarrow>
          (case visit_expr env target s1 of
             Inl e \<Rightarrow> Inl e
           | Inr s2 \<Rightarrow>
               (case visit_expr env annotation s2 of
                  Inl e \<Rightarrow> Inl e
                | Inr s3 \<Rightarrow>
                    (case (case value of
                             None \<Rightarrow> Inr s3
                           | Some v \<Rightarrow> visit_expr env v s3) of
                       Inl e \<Rightarrow> Inl e
                     | Inr s4 \<Rightarrow> leave_AnnAssign env n target value s4))))"
| "visit_stmt env (Compound header body) s =
     (case visit_exprs env header s of
        Inl e \<Rightarrow> Inl e
      | Inr s1 \<Rightarrow> visit_stmts env body s1)"
| "visit_stmts env [] s = Inr s"
| "visit_stmts env (st # rest) s =
     (case visit_stmt env st s of
        Inl e \<Rightarrow> Inl e
      | Inr s1 \<Rightarrow> visit_stmts env rest s1)"

text \<open>
  The part of \<open>visit_FunctionDef\<close> that resets the bindings and seeds \<open>self\<close> and
  \<open>cls\<close> with the model of the enclosing class, if it has one.
\<close>

definition enter_function :: "string \<Rightarrow> py_state \<Rightarrow> py_state" where
  "enter_function fname s =
     s\<lparr>ps_cur_function := Some fname,
       ps_function_pool_vars := {},
       ps_node_list_mappings := Map.empty,
       ps_node_mappings :=
         (case ps_class_metadata s of
            None \<Rightarrow> Map.empty
          | Some md \<Rightarrow>
              (case tm_model md of
                 None \<Rightarrow> Map.empty
               | Some model \<Rightarrow> [KName ''self'' \<mapsto> model, KName ''cls'' \<mapsto> model]))\<rparr>"

text \<open>Reading the outcome of a walk: its diagnostics and the binding of a key.\<close>

definition result_diagnostics :: "py_error + py_state \<Rightarrow> py_error + diagnostic list" where
  "result_diagnostics r = (case r of Inl e \<Rightarrow> Inl e | Inr s \<Rightarrow> Inr (ps_diagnostics s))"

definition result_binding :: "py_error + py_state \<Rightarrow> mkey \<Rightarrow> pool_model option" where
  "result_binding r k = (case r of Inl e \<Rightarrow> None | Inr s \<Rightarrow> ps_node_mappings s k)"

definition result_list_binding :: "py_error + py_state \<Rightarrow> mkey \<Rightarrow> pool_model option" where
  "result_list_binding r k = (case r of Inl e \<Rightarrow> None | Inr s \<Rightarrow> ps_node_list_mappings s k)"

text \<open>The diagnostics of a list that carry a given code.\<close>

definition with_code :: "string \<Rightarrow> diagnostic list \<Rightarrow> diagnostic list" where
  "with_code c ds = filter (\<lambda>d. err_code (d_kind d) = c) ds"

subsection \<open>Checks on a function definition\<close>

text \<open>
  A function definition as the checks read it: its name, the Name node of its name,
  the expressions of its decorators, its parameters (in the order of the syntax
  tree: positional-only, positional, starred, keyword-only, double-starred), its
  return annotation and its body. A parameter is the Name node of its name, its name,
  its annotation and its default value.
\<close>

datatype param = Param nat string "expr option" "expr option"

record function_def =
  fd_name :: string
  fd_name_id :: nat
  fd_decorators :: "expr list"
  fd_params :: "param list"
  fd_returns :: "expr option"
  fd_body :: "stmt list"

text \<open>
  \<open>_check_depends\<close>. The Python locals \<open>cur_model\<close> and \<open>field_name\<close> are assigned
  only while a plain string argument is checked; until then they are unbound, and
  reading them raises NameError. They live for the whole call, across arguments and
  decorators.
\<close>

record depends_locals =
  dl_cur_model :: "pool_model option"
  dl_field_name :: "string option"

text \<open>
  The loop over the segments before the last dot. The result says whether the loop
  ran to its end (no break), and gives the locals and the state it leaves.
\<close>

fun depends_parents ::
  "py_env \<Rightarrow> pool \<Rightarrow> nat \<Rightarrow> string list \<Rightarrow> pool_model \<Rightarrow> string option \<Rightarrow> py_state \<Rightarrow>
   py_error + (bool \<times> pool_model \<times> string option \<times> py_state)" where
  "depends_parents env p vid [] cur fname s = Inr (True, cur, fname, s)"
| "depends_parents env p vid (seg # rest) cur fname s =
     (if \<not> startswith seg ''_parent_'' then
        bind_err (py_add env (py_diag env s vid (UnknownAttribute (pm_name cur) seg)) s)
          (\<lambda>s1. Inr (False, cur, Some seg, s1))
      else
        (case pm_fields cur (drop 8 seg) of
           None \<Rightarrow>
             bind_err
               (py_add env (py_diag env s vid (UnknownAttribute (pm_name cur) (drop 8 seg))) s)
               (\<lambda>s1. Inr (False, cur, Some (drop 8 seg), s1))
         | Some field \<Rightarrow>
             if fi_type field \<noteq> ''many2one'' then
               bind_err
                 (py_add env (py_diag env s vid (UnknownAttribute (pm_name cur) (drop 8 seg))) s)
                 (\<lambda>s1. Inr (False, cur, Some (drop 8 seg), s1))
             else
               (case fi_relation field of
                  None \<Rightarrow> Inl KeyError
                | Some relation \<Rightarrow>
                    (case pool_get p relation ''model'' of
                       Inr target \<Rightarrow>
                         depends_parents env p vid rest target (Some (drop 8 seg)) s
                     | Inl KeyError \<Rightarrow>
                         bind_err (py_add env (py_diag env s vid (UnknownModel relation)) s)
                           (\<lambda>s1. Inr (False, cur, Some (drop 8 seg), s1))
                     | Inl e \<Rightarrow> Inl e))))"

text \<open>A plain string argument: the segments before the last, then the last one.\<close>

definition depends_string ::
  "py_env \<Rightarrow> pool \<Rightarrow> pool_model \<Rightarrow> nat \<Rightarrow> string \<Rightarrow> depends_locals \<Rightarrow> py_state \<Rightarrow>
   py_error + (depends_locals \<times> py_state)" where
  "depends_string env p model vid tok locals s =
     (let field_names = split_on CHR ''.'' (unquote tok)
      in bind_err
           (depends_parents env p vid (butlast field_names) model (dl_field_name locals) s)
           (\<lambda>(completed, cur, fname, s1).
              if completed then
                (let field_name = last field_names
                 in bind_err
                      (if pm_fields cur field_name = None
                       then py_add env
                              (py_diag env s1 vid (UnknownAttribute (pm_name cur) field_name)) s1
                       else Inr s1)
                      (\<lambda>s2. Inr (\<lparr>dl_cur_model = Some cur, dl_field_name = Some field_name\<rparr>, s2)))
              else Inr (\<lparr>dl_cur_model = Some cur, dl_field_name = fname\<rparr>, s1)))"

text \<open>\<open>methods=[...]\<close>: every string element must be a member of the class model.\<close>

fun depends_methods ::
  "py_env \<Rightarrow> pool_model \<Rightarrow> nat \<Rightarrow> expr list \<Rightarrow> py_state \<Rightarrow> py_error + py_state" where
  "depends_methods env model vid [] s = Inr s"
| "depends_methods env model vid (SimpleString n tok # rest) s =
     (case (if \<not> has_attribute model (unquote tok)
            then py_add env
                   (py_diag env s vid (UnknownAttribute (pm_name model) (unquote tok))) s
            else Inr s) of
        Inl e \<Rightarrow> Inl e
      | Inr s1 \<Rightarrow> depends_methods env model vid rest s1)"
| "depends_methods env model vid (other # rest) s = depends_methods env model vid rest s"

fun depends_arg ::
  "py_env \<Rightarrow> pool \<Rightarrow> pool_model \<Rightarrow> arg \<Rightarrow> depends_locals \<Rightarrow> py_state \<Rightarrow>
   py_error + (depends_locals \<times> py_state)" where
  "depends_arg env p model (Arg None (SimpleString vid tok)) locals s =
     depends_string env p model vid tok locals s"
| "depends_arg env p model (Arg (Some (kid, keyword)) (ListExpr vid elements)) locals s =
     (if keyword \<noteq> ''methods'' then
        (case dl_cur_model locals of
           None \<Rightarrow> Inl NameError
         | Some cur \<Rightarrow>
             (case dl_field_name locals of
                None \<Rightarrow> Inl NameError
              | Some field_name \<Rightarrow>
                  bind_err
                    (py_add env
                       (py_diag env s vid (UnknownAttribute (pm_name cur) field_name)) s)
                    (\<lambda>s1. Inr (locals, s1))))
      else bind_err (depends_methods env model vid elements s) (\<lambda>s1. Inr (locals, s1)))"
| "depends_arg env p model other locals s = Inr (locals, s)"

fun depends_args ::
  "py_env \<Rightarrow> pool \<Rightarrow> pool_model \<Rightarrow> arg list \<Rightarrow> depends_locals \<Rightarrow> py_state \<Rightarrow>
   py_error + (depends_locals \<times> py_state)" where
  "depends_args env p model [] locals s = Inr (locals, s)"
| "depends_args env p model (a # rest) locals s =
     (case depends_arg env p model a locals s of
        Inl e \<Rightarrow> Inl e
      | Inr (locals1, s1) \<Rightarrow> depends_args env p model rest locals1 s1)"

text \<open>Only decorators of the form \<open>fields.depends(...)\<close> are looked at.\<close>

fun depends_decorator_args :: "expr \<Rightarrow> arg list option" where
  "depends_decorator_args (Call _ (Attribute _ (Name _ v) _ a) args) =
     (if v = ''fields'' \<and> a = ''depends'' then Some args else None)"
| "depends_decorator_args _ = None"

fun depends_decorators ::
  "py_env \<Rightarrow> pool \<Rightarrow> pool_model \<Rightarrow> expr list \<Rightarrow> depends_locals \<Rightarrow> py_state \<Rightarrow>
   py_error + (depends_locals \<times> py_state)" where
  "depends_decorators env p model [] locals s = Inr (locals, s)"
| "depends_decorators env p model (d # rest) locals s =
     (case depends_decorator_args d of
        None \<Rightarrow> depends_decorators env p model rest locals s
      | Some args \<Rightarrow>
          (case depends_args env p model args locals s of
             Inl e \<Rightarrow> Inl e
           | Inr (locals1, s1) \<Rightarrow> depends_decorators env p model rest locals1 s1))"

definition check_depends :: "py_env \<Rightarrow> function_def \<Rightarrow> py_state \<Rightarrow> py_error + py_state" where
  "check_depends env node s =
     (case ps_class_metadata s of
        None \<Rightarrow> Inr s
      | Some md \<Rightarrow>
          (case tm_model md of
             None \<Rightarrow> Inr s
           | Some model \<Rightarrow>
               bind_err
                 (depends_decorators env (tm_pool md) model (fd_decorators node)
                    \<lparr>dl_cur_model = None, dl_field_name = None\<rparr> s)
                 (\<lambda>(locals, s1). Inr s1)))"

text \<open>
  What is asked of one dependency entry, given as its segments, with the test made
  on the last segment as a parameter: each segment before the last must carry the
  prefix \<open>_parent_\<close> and name a to-one field of the current model whose target the
  pool knows, the traversal then moves to the target; the last segment must pass the
  test on the model reached. The first segment that fails gives the entry's one
  finding, and the rest of the entry is skipped.
\<close>

fun entry_findings ::
  "(pool_model \<Rightarrow> string \<Rightarrow> bool) \<Rightarrow> pool \<Rightarrow> pool_model \<Rightarrow> string list \<Rightarrow> diag_kind list" where
  "entry_findings final_ok p cur [] = []"
| "entry_findings final_ok p cur [final] =
     (if final_ok cur final then [] else [UnknownAttribute (pm_name cur) final])"
| "entry_findings final_ok p cur (seg # rest) =
     (if \<not> startswith seg ''_parent_'' then [UnknownAttribute (pm_name cur) seg]
      else (case pm_fields cur (drop 8 seg) of
              None \<Rightarrow> [UnknownAttribute (pm_name cur) (drop 8 seg)]
            | Some field \<Rightarrow>
                if fi_type field \<noteq> ''many2one''
                then [UnknownAttribute (pm_name cur) (drop 8 seg)]
                else (case fi_relation field of
                        None \<Rightarrow> []
                      | Some relation \<Rightarrow>
                          (case pool_get p relation ''model'' of
                             Inr target \<Rightarrow> entry_findings final_ok p target rest
                           | Inl e \<Rightarrow> [UnknownModel relation]))))"

text \<open>
  The specification's reading: the last segment must be a member of the model
  reached. The reading of the code: it must be a field of that model.
\<close>

definition spec_entry_findings :: "pool \<Rightarrow> pool_model \<Rightarrow> string list \<Rightarrow> diag_kind list" where
  "spec_entry_findings = entry_findings has_attribute"

definition has_field :: "pool_model \<Rightarrow> string \<Rightarrow> bool" where
  "has_field model name = (pm_fields model name \<noteq> None)"

definition field_entry_findings :: "pool \<Rightarrow> pool_model \<Rightarrow> string list \<Rightarrow> diag_kind list" where
  "field_entry_findings = entry_findings has_field"

text \<open>
  The arguments of the \<open>fields.depends\<close> decorators of a function, in the order
  the check meets them, and the names a \<open>methods=[...]\<close> list gives as strings.
\<close>

definition depends_arguments :: "function_def \<Rightarrow> arg list" where
  "depends_arguments node =
     concat (map (\<lambda>d. case depends_decorator_args d of None \<Rightarrow> [] | Some args \<Rightarrow> args)
               (fd_decorators node))"

fun string_elements :: "expr list \<Rightarrow> string list" where
  "string_elements [] = []"
| "string_elements (SimpleString n tok # rest) = unquote tok # string_elements rest"
| "string_elements (other # rest) = string_elements rest"

text \<open>
  What the check is to report for one argument, in a class bound to \<open>model\<close>; the
  diagnostics carry the context of the state \<open>s\<close> the check starts in. A string
  entry: its findings, at the string. A list \<open>methods=[...]\<close>: one UnknownAttribute
  at the list for each string element that is no member of the class model. A list
  under another keyword: one UnknownAttribute at the list. Anything else: nothing.
\<close>

fun argument_report ::
  "py_env \<Rightarrow> py_state \<Rightarrow> pool \<Rightarrow> pool_model \<Rightarrow> arg \<Rightarrow> diagnostic list \<Rightarrow> bool" where
  "argument_report env s p model (Arg None (SimpleString vid tok)) report =
     (report = map (py_diag env s vid)
                 (field_entry_findings p model (split_on CHR ''.'' (unquote tok))))"
| "argument_report env s p model (Arg (Some (kid, keyword)) (ListExpr vid elements)) report =
     (if keyword = ''methods''
      then report = map (\<lambda>name. py_diag env s vid (UnknownAttribute (pm_name model) name))
                      (filter (\<lambda>name. \<not> has_attribute model name) (string_elements elements))
      else (\<exists>m x. report = [py_diag env s vid (UnknownAttribute m x)]))"
| "argument_report env s p model other report = (report = [])"

text \<open>The arguments \<open>_check_depends\<close> passes over: neither a plain string nor a keyword with a list.\<close>

fun passed_over :: "arg \<Rightarrow> bool" where
  "passed_over (Arg None (SimpleString _ _)) = False"
| "passed_over (Arg (Some _) (ListExpr _ _)) = False"
| "passed_over _ = True"

text \<open>
  \<open>_check_super_call\<close>. First the calls of the form \<open>super(...).name(...)\<close> anywhere
  in the function definition, in the order the matcher finds them (a node before its
  children): for each, the node of the \<open>super(...)\<close> invocation, whether it has
  arguments, the Name node of the method and its name.
\<close>

fun super_call_match :: "expr \<Rightarrow> (nat \<times> bool \<times> nat \<times> string) list" where
  "super_call_match (Call _ (Attribute _ (Call sid (Name _ f) sargs) an a) _) =
     (if f = ''super'' then [(sid, sargs \<noteq> [], an, a)] else [])"
| "super_call_match _ = []"

fun super_calls :: "expr \<Rightarrow> (nat \<times> bool \<times> nat \<times> string) list"
  and super_calls_list :: "expr list \<Rightarrow> (nat \<times> bool \<times> nat \<times> string) list"
  and super_calls_args :: "arg list \<Rightarrow> (nat \<times> bool \<times> nat \<times> string) list"
  and super_calls_slices :: "subscript_element list \<Rightarrow> (nat \<times> bool \<times> nat \<times> string) list" where
  "super_calls (Name n v) = []"
| "super_calls (SimpleString n v) = []"
| "super_calls (Constant n) = []"
| "super_calls (Attribute n v an a) = super_calls v"
| "super_calls (Subscript n v slice) = super_calls v @ super_calls_slices slice"
| "super_calls (Call n func args) =
     super_call_match (Call n func args) @ super_calls func @ super_calls_args args"
| "super_calls (ListExpr n elements) = super_calls_list elements"
| "super_calls (TupleExpr n elements) = super_calls_list elements"
| "super_calls (Lambda n body) = super_calls body"
| "super_calls (OtherExpr n children) = super_calls_list children"
| "super_calls_list [] = []"
| "super_calls_list (e # es) = super_calls e @ super_calls_list es"
| "super_calls_args [] = []"
| "super_calls_args (Arg k v # rest) = super_calls v @ super_calls_args rest"
| "super_calls_slices [] = []"
| "super_calls_slices (Index e # rest) = super_calls e @ super_calls_slices rest"
| "super_calls_slices (Slice es # rest) = super_calls_list es @ super_calls_slices rest"

fun super_calls_stmt :: "stmt \<Rightarrow> (nat \<times> bool \<times> nat \<times> string) list"
  and super_calls_stmts :: "stmt list \<Rightarrow> (nat \<times> bool \<times> nat \<times> string) list" where
  "super_calls_stmt (Expr e) = super_calls e"
| "super_calls_stmt (Assign n targets v) = super_calls_list targets @ super_calls v"
| "super_calls_stmt (AnnAssign n target annotation v) =
     super_calls target @ super_calls annotation @
     (case v of None \<Rightarrow> [] | Some e \<Rightarrow> super_calls e)"
| "super_calls_stmt (Compound header body) = super_calls_list header @ super_calls_stmts body"
| "super_calls_stmts [] = []"
| "super_calls_stmts (st # rest) = super_calls_stmt st @ super_calls_stmts rest"

text \<open>
  The matcher runs over the whole function definition: its decorators, then its
  parameters (annotation and default value of each), its return annotation and its
  body.
\<close>

fun super_calls_opt :: "expr option \<Rightarrow> (nat \<times> bool \<times> nat \<times> string) list" where
  "super_calls_opt None = []"
| "super_calls_opt (Some e) = super_calls e"

fun super_calls_params :: "param list \<Rightarrow> (nat \<times> bool \<times> nat \<times> string) list" where
  "super_calls_params [] = []"
| "super_calls_params (Param n name annotation dflt # rest) =
     super_calls_opt annotation @ super_calls_opt dflt @ super_calls_params rest"

definition function_super_calls :: "function_def \<Rightarrow> (nat \<times> bool \<times> nat \<times> string) list" where
  "function_super_calls node =
     super_calls_list (fd_decorators node) @ super_calls_params (fd_params node) @
     super_calls_opt (fd_returns node) @ super_calls_stmts (fd_body node)"

text \<open>The two style checks made on every such call.\<close>

fun super_call_checks ::
  "py_env \<Rightarrow> string \<Rightarrow> (nat \<times> bool \<times> nat \<times> string) list \<Rightarrow> py_state \<Rightarrow> py_error + py_state" where
  "super_call_checks env fname [] s = Inr s"
| "super_call_checks env fname ((sid, has_args, an, a) # rest) s =
     (case (if has_args then py_add env (py_diag env s sid SuperInvocationWithParams) s
            else Inr s) of
        Inl e \<Rightarrow> Inl e
      | Inr s1 \<Rightarrow>
          (case (if a \<noteq> fname
                 then py_add env (py_diag env s1 an (SuperInvocationMismatchedName fname)) s1
                 else Inr s1) of
             Inl e \<Rightarrow> Inl e
           | Inr s2 \<Rightarrow> super_call_checks env fname rest s2))"

text \<open>
  \<open>FunctionFinder\<close> on a parsed parent file: the function definition whose span
  holds the line, the last one in visiting order; classes are entered only when their
  span holds the line, functions never. The result is the list of comments inside the
  function found. \<open>ignore_error_code\<close> then looks for the marker in these comments.
\<close>

fun function_finder :: "int \<Rightarrow> outline list \<Rightarrow> string list option \<Rightarrow> string list option" where
  "function_finder lineno [] found = found"
| "function_finder lineno (OClass first_line last_line children # rest) found =
     function_finder lineno rest
       (if first_line \<le> lineno \<and> lineno \<le> last_line
        then function_finder lineno children found else found)"
| "function_finder lineno (OFunction first_line last_line comments # rest) found =
     function_finder lineno rest
       (if first_line \<le> lineno \<and> lineno \<le> last_line then Some comments else found)"
| "function_finder lineno (OBlock children # rest) found =
     function_finder lineno rest (function_finder lineno children found)"

definition ignore_error_code :: "string list \<Rightarrow> string \<Rightarrow> bool" where
  "ignore_error_code comments code = list_ex (\<lambda>c. str_contains c (marker code)) comments"

text \<open>
  The parent definition at a site: absent when the file could not be parsed or no
  function spans the line; otherwise whether the parent carries the marker for
  MissingSuperCall.
\<close>

definition parent_wants_super :: "py_env \<Rightarrow> string \<Rightarrow> int \<Rightarrow> bool" where
  "parent_wants_super env parent_file_name first_line_no =
     (case pe_get_parsed env parent_file_name of
        None \<Rightarrow> False
      | Some tree \<Rightarrow>
          (case function_finder first_line_no tree None of
             None \<Rightarrow> False
           | Some comments \<Rightarrow> \<not> ignore_error_code comments ''1004''))"

text \<open>
  The loop over the override chain. \<open>found_base\<close> becomes true at the entry of the
  current class (its import path occurs in the class string). The loop returns
  \<open>found_super\<close> and the state; a \<open>break\<close> returns at once.
\<close>

fun super_loop ::
  "py_env \<Rightarrow> bool \<Rightarrow> nat \<Rightarrow> string \<Rightarrow> (string \<times> details) list \<Rightarrow> bool \<Rightarrow> bool \<Rightarrow> py_state \<Rightarrow>
   py_error + (bool \<times> py_state)" where
  "super_loop env has_super name_id path [] found_base found_super s = Inr (found_super, s)"
| "super_loop env has_super name_id path ((klass_str, det) # rest) found_base found_super s =
     (if str_contains klass_str path
      then super_loop env has_super name_id path rest True found_super s
      else if found_base \<and> \<not> has_super \<and> det \<noteq> NoDetails then
        (case det of
           Site parent_file_name first_line_no \<Rightarrow>
             if parent_wants_super env parent_file_name first_line_no
             then bind_err (py_add env (py_diag env s name_id MissingSuperCall) s)
                    (\<lambda>s1. Inr (found_super, s1))
             else Inr (found_super, s)
         | _ \<Rightarrow> Inr (found_super, s))
      else if found_base \<and> has_super \<and> \<not> found_super \<and> det \<noteq> NoDetails
      then super_loop env has_super name_id path rest found_base True s
      else super_loop env has_super name_id path rest found_base found_super s)"

definition check_super_call :: "py_env \<Rightarrow> function_def \<Rightarrow> py_state \<Rightarrow> py_error + py_state" where
  "check_super_call env node s =
     (let super_call = function_super_calls node
      in bind_err (super_call_checks env (fd_name node) super_call s)
           (\<lambda>s1. case ps_class_metadata s1 of
                None \<Rightarrow> Inr s1
              | Some md \<Rightarrow>
                  (case tm_model md of
                     None \<Rightarrow> Inr s1
                   | Some model \<Rightarrow>
                       (let has_super = (super_call \<noteq> []);
                            function_name = get_current_function_name s1
                        in bind_err
                             (super_loop env has_super (fd_name_id node) (get_import_path env s1)
                                (pe_super_information env model function_name) False False s1)
                             (\<lambda>(found_super, s2).
                                if has_super \<and> \<not> found_super
                                then py_add env
                                       (py_diag env s2 (fd_name_id node) SuperWithoutParent) s2
                                else Inr s2)))))"

text \<open>
  The entries of a chain beyond the position of the current definition: those after
  the first entry of the current class that are not entries of that class themselves.
\<close>

definition of_class :: "string \<Rightarrow> string \<times> details \<Rightarrow> bool" where
  "of_class path entry = str_contains (fst entry) path"

definition beyond :: "string \<Rightarrow> (string \<times> details) list \<Rightarrow> (string \<times> details) list" where
  "beyond path chain =
     filter (\<lambda>e. \<not> of_class path e) (dropWhile (\<lambda>e. \<not> of_class path e) chain)"

definition first_defined :: "(string \<times> details) list \<Rightarrow> details" where
  "first_defined entries =
     (case find (\<lambda>e. snd e \<noteq> NoDetails) entries of None \<Rightarrow> NoDetails | Some e \<Rightarrow> snd e)"

section \<open>Completion requests (pool.py: PoolManager._get_completions)\<close>

text \<open>
  How the pruned walk of a completion request ends: it stops at the attribute access
  under the cursor with the model of the receiver (if it has one), or it runs to the
  end of the file without finding the cursor. Any other exception of the walk is not
  caught. The completion listing of a model is fetched through the registry, a
  parameter here.
\<close>

datatype walk_outcome = TargetFound "pool_model option" | WalkCompleted

definition get_completions ::
  "(pool_model \<Rightarrow> (string \<times> completion_info) list) \<Rightarrow> py_error + walk_outcome \<Rightarrow>
   py_error + completion_item list" where
  "get_completions fetch outcome =
     (case outcome of
        Inl e \<Rightarrow> Inl e
      | Inr (TargetFound (Some target_model)) \<Rightarrow> generate_completions (fetch target_model)
      | Inr (TargetFound None) \<Rightarrow> Inr []
      | Inr WalkCompleted \<Rightarrow> Inr [])"

section \<open>Module index (pool.py: Module)\<close>

text \<open>
  The part of the syntax tree of a module's \<open>__init__.py\<close> that the scan reads:
  expressions (names, attributes, constants, lists, calls with positional and keyword
  arguments) and nodes (expression statements, function definitions with their body,
  any other node with its children). Constants are given by their text.
\<close>

datatype ast_expr =
    AName string
  | AAttribute ast_expr string
  | AConstant string
  | AList "ast_expr list"
  | ACall ast_expr "ast_expr list" "(string option \<times> ast_expr) list"
  | AOtherExpr

datatype ast_node =
    AExprStmt ast_expr
  | AFunctionDef string "ast_node list"
  | AOtherNode "ast_node list"

fun ast_children :: "ast_node \<Rightarrow> ast_node list" where
  "ast_children (AExprStmt e) = []"
| "ast_children (AFunctionDef name body) = body"
| "ast_children (AOtherNode children) = children"

text \<open>\<open>ast.walk\<close>: every node of the tree, breadth first.\<close>

function ast_walk :: "ast_node list \<Rightarrow> ast_node list" where
  "ast_walk [] = []"
| "ast_walk (n # todo) = n # ast_walk (todo @ ast_children n)"
  by pat_completeness auto


lemma sum_list_Suc_size: "sum_list (map (\<lambda>n. Suc (f n)) xs) = size_list f xs"
  by (induction xs) simp_all

lemma ast_children_size: "sum_list (map (\<lambda>c. Suc (size c)) (ast_children n)) < Suc (size n)"
  by (cases n) (simp_all add: sum_list_Suc_size)

termination ast_walk
  by (relation "measure (\<lambda>todo. sum_list (map (\<lambda>n. Suc (size n)) todo))")
     (simp_all add: ast_children_size)

text \<open>
  A statement \<open>Pool.register(...)\<close>: its positional and keyword arguments. A
  positional argument \<open>module.Class\<close> names a registered class.
\<close>

fun register_call :: "ast_node \<Rightarrow> (ast_expr list \<times> (string option \<times> ast_expr) list) option" where
  "register_call (AExprStmt (ACall (AAttribute (AName v) a) args keywords)) =
     (if a = ''register'' \<and> v = ''Pool'' then Some (args, keywords) else None)"
| "register_call _ = None"

fun class_import :: "ast_expr \<Rightarrow> (string \<times> string) list" where
  "class_import (AAttribute (AName file_name) class_name) = [(file_name, class_name)]"
| "class_import _ = []"

fun constant_value :: "ast_expr \<Rightarrow> string list" where
  "constant_value (AConstant v) = [v]"
| "constant_value _ = []"

text \<open>
  The keywords of one call: \<open>depends=[...]\<close> extends the module list with the
  constants of the list, \<open>type_=constant\<close> assigns the local \<open>type_\<close>.
\<close>

fun scan_keywords ::
  "(string option \<times> ast_expr) list \<Rightarrow> string list \<Rightarrow> string option \<Rightarrow> string list \<times> string option" where
  "scan_keywords [] modules type_local = (modules, type_local)"
| "scan_keywords ((arg_name, AList elts) # rest) modules type_local =
     (if arg_name = Some ''depends''
      then scan_keywords rest (modules @ concat (map constant_value elts)) type_local
      else scan_keywords rest modules type_local)"
| "scan_keywords ((arg_name, AConstant v) # rest) modules type_local =
     (if arg_name = Some ''type_''
      then scan_keywords rest modules (Some v)
      else scan_keywords rest modules type_local)"
| "scan_keywords (other # rest) modules type_local = scan_keywords rest modules type_local"

type_synonym class_index = "(string \<times> string) \<rightharpoonup> (string \<times> string list)"

text \<open>
  The body of a function named \<open>register\<close>. The local \<open>type_\<close> is never reset: it
  is unbound until a call gives \<open>type_=\<close>, and building the entries of a call that
  names classes reads it.
\<close>

fun scan_register_body ::
  "string \<Rightarrow> ast_node list \<Rightarrow> string option \<Rightarrow> class_index \<Rightarrow> py_error + (string option \<times> class_index)" where
  "scan_register_body name [] type_local result = Inr (type_local, result)"
| "scan_register_body name (node # rest) type_local result =
     (case register_call node of
        None \<Rightarrow> scan_register_body name rest type_local result
      | Some (args, keywords) \<Rightarrow>
          (let cur_imports = concat (map class_import args);
               (modules, type1) = scan_keywords keywords [name] type_local
           in if cur_imports = [] then scan_register_body name rest type1 result
              else (case type1 of
                      None \<Rightarrow> Inl NameError
                    | Some t \<Rightarrow>
                        scan_register_body name rest type1
                          (foldl (\<lambda>r k. r(k \<mapsto> (t, sort modules))) result cur_imports))))"

fun scan_nodes ::
  "string \<Rightarrow> ast_node list \<Rightarrow> string option \<Rightarrow> class_index \<Rightarrow> py_error + (string option \<times> class_index)" where
  "scan_nodes name [] type_local result = Inr (type_local, result)"
| "scan_nodes name (AFunctionDef fname body # rest) type_local result =
     (if fname = ''register''
      then (case scan_register_body name body type_local result of
              Inl e \<Rightarrow> Inl e
            | Inr (type1, result1) \<Rightarrow> scan_nodes name rest type1 result1)
      else scan_nodes name rest type_local result)"
| "scan_nodes name (other # rest) type_local result = scan_nodes name rest type_local result"

text \<open>
  \<open>Module._get_modules_per_class\<close>. Its input is what \<open>ast.parse\<close> makes of the
  file: the tree, or SyntaxError when the file does not parse. Nothing in the function
  catches the exception.
\<close>

definition get_modules_per_class :: "string \<Rightarrow> py_error + ast_node \<Rightarrow> py_error + class_index" where
  "get_modules_per_class name parsed_init =
     (case parsed_init of
        Inl e \<Rightarrow> Inl e
      | Inr tree \<Rightarrow>
          (case scan_nodes name (ast_walk [tree]) None Map.empty of
             Inl e \<Rightarrow> Inl e
           | Inr (type_local, result) \<Rightarrow> Inr result))"

text \<open>
  \<open>Module.__init__\<close>, as far as the registrations go (the module's directory and its
  declarative-data records are left out), and \<open>get_module_list_for_import\<close>.
\<close>

record module_index =
  mi_name :: string
  mi_modules_per_class :: class_index

definition module_init :: "string \<Rightarrow> py_error + ast_node \<Rightarrow> py_error + module_index" where
  "module_init name parsed_init =
     (case get_modules_per_class name parsed_init of
        Inl e \<Rightarrow> Inl e
      | Inr index \<Rightarrow> Inr \<lparr>mi_name = name, mi_modules_per_class = index\<rparr>)"

definition get_module_list_for_import ::
  "module_index \<Rightarrow> string \<Rightarrow> string \<Rightarrow> (string \<times> string list) option" where
  "get_module_list_for_import m filename classname = mi_modules_per_class m (filename, classname)"

text \<open>
  \<open>PoolManager.generate_diagnostics\<close> for a file of a module the manager has not
  loaded yet: \<open>get_parsed\<close> builds the module (\<open>_get_module\<close>) before the analyzer of
  the file runs; the analyzer, given the module, is a parameter.
\<close>

definition generate_diagnostics ::
  "string \<Rightarrow> py_error + ast_node \<Rightarrow> (module_index \<Rightarrow> py_error + diagnostic list) \<Rightarrow>
   py_error + diagnostic list" where
  "generate_diagnostics module_name parsed_init analyze =
     (case module_init module_name parsed_init of
        Inl e \<Rightarrow> Inl e
      | Inr m \<Rightarrow> analyze m)"

section \<open>Properties of the structured-data walker\<close>

definition same_for :: "string \<Rightarrow> xml_state \<Rightarrow> xml_state \<Rightarrow> bool" where
  "same_for X s s' =
     (xs_fs_ids s' X = xs_fs_ids s X \<and>
      duplicate_id_diagnostics X (xs_diagnostics s') = duplicate_id_diagnostics X (xs_diagnostics s))"

lemma same_for_refl: "same_for X s s"
  by (simp add: same_for_def)

lemma same_for_trans: "same_for X s s1 \<Longrightarrow> same_for X s1 s2 \<Longrightarrow> same_for X s s2"
  by (simp add: same_for_def)

lemma bind_err_Inr:
  "bind_err m f = Inr y \<Longrightarrow> \<exists>x. m = Inr x \<and> f x = Inr y"
  by (cases m) (simp_all add: bind_err_def)

lemma xml_add_result:
  "xml_add env d s = Inr s' \<Longrightarrow>
     s' = s \<or> s' = s\<lparr>xs_diagnostics := xs_diagnostics s @ [d]\<rparr>"
  by (auto simp: xml_add_def add_diagnostic_def split: sum.splits bool.splits)

lemma xml_add_same_for:
  assumes "xml_add env d s = Inr s'"
    and "\<And>l. d_kind d \<noteq> RecordDuplicateId X l"
  shows "same_for X s s'"
proof -
  have "duplicate_id_diagnostics X [d] = []"
    using assms(2) by (cases "d_kind d") (auto simp: duplicate_id_diagnostics_def)
  then show ?thesis
    using xml_add_result [OF assms(1)]
    by (auto simp: same_for_def duplicate_id_diagnostics_def)
qed

lemma xml_add_opt_same_for:
  assumes "(if c then xml_add env d s else Inr s) = Inr s'"
    and "\<And>l. d_kind d \<noteq> RecordDuplicateId X l"
  shows "same_for X s s'"
  using assms xml_add_same_for [of env d s s' X] same_for_refl [of X s]
  by (cases c) auto



lemma bind_err_InrE:
  assumes "bind_err m f = Inr y"
  obtains x where "m = Inr x" and "f x = Inr y"
  using assms by (cases m) (simp_all add: bind_err_def)

lemma data_start_same_for:
  assumes "analyze_data_start env node s = Inr s'"
  shows "same_for X s s'"
proof (rule bind_err_InrE [OF assms [unfolded analyze_data_start_def]], goal_cases)
  case (1 s1)
  have "same_for X s s1"
    using 1(1) by (rule xml_add_opt_same_for) (simp add: xml_diag_def)
  moreover have "same_for X s1 s'"
    using 1(2) by (auto simp: same_for_def Let_def split: option.splits)
  ultimately show ?thesis by (rule same_for_trans)
qed

lemma field_start_same_for:
  assumes "analyze_field_start env node s = Inr s'"
  shows "same_for X s s'"
proof (rule bind_err_InrE [OF assms [unfolded analyze_field_start_def]], goal_cases)
  case (1 s1)
  have a: "same_for X s s1"
    using 1(1) by (rule xml_add_opt_same_for) (simp add: xml_diag_def)
  show ?thesis
  proof (rule bind_err_InrE [OF 1(2)], goal_cases)
    case (1 s2)
    have b: "same_for X s1 s2"
      using 1(1) by (rule xml_add_opt_same_for) (simp add: xml_diag_def)
    have c: "same_for X s2 s'"
      using 1(2) same_for_refl [of X s2]
        xml_add_same_for [of env _ s2 s' X]
      by (auto simp: xml_diag_def split: option.splits if_splits sum.splits py_error.splits)
    from a b c show ?thesis by (blast intro: same_for_trans)
  qed
qed


lemma record_tail_same_for:
  assumes "(case xs_current_pool s3 of
                 None \<Rightarrow> Inr s3
               | Some p \<Rightarrow>
                   (case el_attrib node ''model'' of
                      None \<Rightarrow> Inr s3
                    | Some model_name \<Rightarrow>
                        if model_name = [] then Inr s3
                        else (case pool_get p model_name ''model'' of
                                Inr m \<Rightarrow> Inr (s3\<lparr>xs_current_model := Some m\<rparr>)
                              | Inl KeyError \<Rightarrow>
                                  xml_add env
                                    (xml_diag env s3 node (RecordUnknownModel model_name)) s3
                              | Inl e \<Rightarrow> Inl e))) = Inr s'"
  shows "same_for X s3 s'"
  using assms same_for_refl [of X s3] xml_add_same_for [of env _ s3 s' X]
  by (auto simp: xml_diag_def same_for_def split: option.splits if_splits sum.splits py_error.splits)

lemma record_start_other:
  assumes "analyze_record_start env node s = Inr s'"
    and "el_attrib node ''id'' \<noteq> Some X"
  shows "same_for X s s'"
proof (rule bind_err_InrE [OF assms(1) [unfolded analyze_record_start_def]], goal_cases)
  case (1 s1)
  have a: "same_for X s s1"
    using 1(1) by (rule xml_add_opt_same_for) (simp add: xml_diag_def)
  show ?thesis
  proof (rule bind_err_InrE [OF 1(2)], goal_cases)
    case (1 s2)
    have b: "same_for X s1 s2"
      using 1(1) by (rule xml_add_opt_same_for) (simp add: xml_diag_def)
    show ?thesis
    proof (rule bind_err_InrE [OF 1(2)], goal_cases)
      case (1 s3)
      have c: "same_for X s2 s3"
        using 1(1) assms(2) same_for_refl [of X s2] xml_add_same_for [of env _ s2 s3 X]
        by (auto simp: xml_diag_def same_for_def split: option.splits)
      have d: "same_for X s3 s'"
        using 1(2) by (rule record_tail_same_for)
      from a b c d show ?thesis by (blast intro: same_for_trans)
    qed
  qed
qed

lemma record_start_first:
  assumes "analyze_record_start env node s = Inr s'"
    and "el_attrib node ''id'' = Some X"
    and "xs_fs_ids s X = None"
  shows "xs_fs_ids s' X = Some (el_sourceline node) \<and>
         duplicate_id_diagnostics X (xs_diagnostics s') =
         duplicate_id_diagnostics X (xs_diagnostics s)"
proof (rule bind_err_InrE [OF assms(1) [unfolded analyze_record_start_def]], goal_cases)
  case (1 s1)
  have a: "same_for X s s1"
    using 1(1) by (rule xml_add_opt_same_for) (simp add: xml_diag_def)
  show ?thesis
  proof (rule bind_err_InrE [OF 1(2)], goal_cases)
    case (1 s2)
    have b: "same_for X s1 s2"
      using 1(1) by (rule xml_add_opt_same_for) (simp add: xml_diag_def)
    show ?thesis
    proof (rule bind_err_InrE [OF 1(2)], goal_cases)
      case (1 s3)
      have "xs_fs_ids s2 X = None"
        using a b assms(3) by (simp add: same_for_def)
      then have c: "s3 = s2\<lparr>xs_fs_ids := (xs_fs_ids s2)(X \<mapsto> el_sourceline node)\<rparr>"
        using 1(1) assms(2) by simp
      have d: "same_for X s3 s'"
        using 1(2) by (rule record_tail_same_for)
      from a b c d show ?thesis by (simp add: same_for_def)
    qed
  qed
qed

lemma record_start_again:
  assumes "analyze_record_start env node s = Inr s'"
    and "el_attrib node ''id'' = Some X"
    and "xs_fs_ids s X = Some l"
    and "ignored XMLAnalyzer (xe_raw_lines env) ''5006'' (el_sourceline node) = Inr False"
  shows "xs_fs_ids s' X = Some l \<and>
         (\<exists>d. duplicate_id_diagnostics X (xs_diagnostics s') =
                 duplicate_id_diagnostics X (xs_diagnostics s) @ [d] \<and>
               d_kind d = RecordDuplicateId X (str_int l) \<and>
               pos_line (range_start (d_position d)) = el_sourceline node)"
proof (rule bind_err_InrE [OF assms(1) [unfolded analyze_record_start_def]], goal_cases)
  case (1 s1)
  have a: "same_for X s s1"
    using 1(1) by (rule xml_add_opt_same_for) (simp add: xml_diag_def)
  show ?thesis
  proof (rule bind_err_InrE [OF 1(2)], goal_cases)
    case (1 s2)
    have b: "same_for X s1 s2"
      using 1(1) by (rule xml_add_opt_same_for) (simp add: xml_diag_def)
    show ?thesis
    proof (rule bind_err_InrE [OF 1(2)], goal_cases)
      case (1 s3)
      let ?d = "xml_diag env s2 node (RecordDuplicateId X (str_int l))"
      have "xs_fs_ids s2 X = Some l"
        using a b assms(3) by (simp add: same_for_def)
      then have "xml_add env ?d s2 = Inr s3"
        using 1(1) assms(2) by simp
      then have c: "s3 = s2\<lparr>xs_diagnostics := xs_diagnostics s2 @ [?d]\<rparr>"
        using assms(4)
        by (auto simp: xml_add_def add_diagnostic_def xml_diag_def xml_node_position_def)
      have d: "same_for X s3 s'"
        using 1(2) by (rule record_tail_same_for)
      have "duplicate_id_diagnostics X (xs_diagnostics s') =
              duplicate_id_diagnostics X (xs_diagnostics s) @ [?d]"
        using a b c d by (simp add: same_for_def duplicate_id_diagnostics_def xml_diag_def)
      moreover have "xs_fs_ids s' X = Some l"
        using a b c d assms(3) by (simp add: same_for_def)
      ultimately show ?thesis
        by (intro conjI exI [of _ ?d]) (simp_all add: xml_diag_def xml_node_position_def)
    qed
  qed
qed


lemma xml_push_frame:
  "xs_fs_ids (xml_push e s) = xs_fs_ids s \<and> xs_diagnostics (xml_push e s) = xs_diagnostics s"
  by (simp add: xml_push_def Let_def split: option.splits)

lemma node_start_prelude:
  "\<exists>s2. xs_fs_ids s2 = xs_fs_ids s \<and> xs_diagnostics s2 = xs_diagnostics s \<and>
     xml_node_start env e s =
       (if el_tag e = ''tryton'' then analyze_tryton_start env e s2
        else if el_tag e = ''data'' then analyze_data_start env e s2
        else if el_tag e = ''record'' then analyze_record_start env e s2
        else if el_tag e = ''field'' then analyze_field_start env e s2
        else Inr s2)"
  using xml_push_frame [of e s]
  by (intro exI [of _ "xml_push e s"]) (simp add: xml_node_start_def Let_def)

lemma same_for_prelude:
  "xs_fs_ids s2 = xs_fs_ids s \<Longrightarrow> xs_diagnostics s2 = xs_diagnostics s \<Longrightarrow> same_for X s s2"
  by (simp add: same_for_def)

lemma node_start_other:
  assumes "xml_node_start env e s = Inr s'"
    and "\<not> (el_tag e = ''record'' \<and> el_attrib e ''id'' = Some X)"
  shows "same_for X s s'"
proof -
  obtain s2 where p: "xs_fs_ids s2 = xs_fs_ids s" "xs_diagnostics s2 = xs_diagnostics s"
    and r: "xml_node_start env e s =
       (if el_tag e = ''tryton'' then analyze_tryton_start env e s2
        else if el_tag e = ''data'' then analyze_data_start env e s2
        else if el_tag e = ''record'' then analyze_record_start env e s2
        else if el_tag e = ''field'' then analyze_field_start env e s2
        else Inr s2)"
    using node_start_prelude by blast
  have "same_for X s2 s'"
    using assms r data_start_same_for [of env e s2 s' X] field_start_same_for [of env e s2 s' X]
      record_start_other [of env e s2 s' X] same_for_refl [of X s2]
    by (auto simp: analyze_tryton_start_def same_for_def split: if_splits)
  with same_for_prelude [OF p] show ?thesis by (blast intro: same_for_trans)
qed

lemma node_end_same_for:
  assumes "xml_node_end env e s = Inr s'"
  shows "same_for X s s'"
  using assms
  by (auto simp: xml_node_end_def bind_err_def analyze_record_end_def analyze_data_end_def
      same_for_def split: if_splits)

lemma step_other:
  assumes "xml_step env ev s = Inr s'" and "\<not> record_start_with_id X ev"
  shows "same_for X s s'"
  using assms node_start_other [of env "snd ev" s s' X] node_end_same_for [of env "snd ev" s s' X]
    same_for_refl [of X s]
  by (cases ev) (auto simp: record_start_with_id_def split: if_splits)

lemma step_first:
  assumes "xml_step env ev s = Inr s'" and "record_start_with_id X ev"
    and "xs_fs_ids s X = None"
  shows "xs_fs_ids s' X = Some (el_sourceline (snd ev)) \<and>
         duplicate_id_diagnostics X (xs_diagnostics s') =
         duplicate_id_diagnostics X (xs_diagnostics s)"
proof -
  obtain s2 where p: "xs_fs_ids s2 = xs_fs_ids s" "xs_diagnostics s2 = xs_diagnostics s"
    and r: "xml_node_start env (snd ev) s = analyze_record_start env (snd ev) s2"
    using node_start_prelude [of s env "snd ev"] assms(2)
    by (auto simp: record_start_with_id_def)
  have "analyze_record_start env (snd ev) s2 = Inr s'"
    using assms(1,2) r by (cases ev) (simp add: record_start_with_id_def)
  from record_start_first [OF this, of X] assms(2,3) p show ?thesis
    by (simp add: record_start_with_id_def)
qed

lemma step_again:
  assumes "xml_step env ev s = Inr s'" and "record_start_with_id X ev"
    and "xs_fs_ids s X = Some l"
    and "ignored XMLAnalyzer (xe_raw_lines env) ''5006'' (el_sourceline (snd ev)) = Inr False"
  shows "xs_fs_ids s' X = Some l \<and>
         (\<exists>d. duplicate_id_diagnostics X (xs_diagnostics s') =
                 duplicate_id_diagnostics X (xs_diagnostics s) @ [d] \<and>
               d_kind d = RecordDuplicateId X (str_int l) \<and>
               pos_line (range_start (d_position d)) = el_sourceline (snd ev))"
proof -
  obtain s2 where p: "xs_fs_ids s2 = xs_fs_ids s" "xs_diagnostics s2 = xs_diagnostics s"
    and r: "xml_node_start env (snd ev) s = analyze_record_start env (snd ev) s2"
    using node_start_prelude [of s env "snd ev"] assms(2)
    by (auto simp: record_start_with_id_def)
  have "analyze_record_start env (snd ev) s2 = Inr s'"
    using assms(1,2) r by (cases ev) (simp add: record_start_with_id_def)
  from record_start_again [OF this, of X l] assms(2,3,4) p show ?thesis
    by (simp add: record_start_with_id_def)
qed

lemma xml_events_append:
  "xml_events env (a @ b) s = bind_err (xml_events env a s) (xml_events env b)"
  by (induction a arbitrary: s) (auto simp: bind_err_def split: sum.splits)

lemma events_other:
  assumes "xml_events env evs s = Inr s'"
    and "\<forall>ev \<in> set evs. \<not> record_start_with_id X ev"
  shows "same_for X s s'"
  using assms
proof (induction evs arbitrary: s)
  case Nil
  then show ?case by (simp add: same_for_def)
next
  case (Cons ev evs)
  from Cons.prems(1) obtain s1 where a: "xml_step env ev s = Inr s1"
    and b: "xml_events env evs s1 = Inr s'"
    by (auto split: sum.splits)
  have "same_for X s s1" using a Cons.prems(2) by (auto intro: step_other)
  moreover have "same_for X s1 s'" using b Cons.prems(2) by (auto intro: Cons.IH)
  ultimately show ?case by (rule same_for_trans)
qed


lemma xml_add_extra:
  assumes "xml_add env d s = Inr s'" and "err_code (d_kind d) = c"
  shows "\<exists>extra. xs_diagnostics s' = xs_diagnostics s @ extra \<and>
           (\<forall>x \<in> set extra. err_code (d_kind x) = c)"
  using xml_add_result [OF assms(1)] assms(2)
  by (elim disjE) (auto intro: exI [of _ "[]"] exI [of _ "[d]"])

lemma record_start_missing:
  assumes "analyze_record_start env node s = Inr s'"
    and "ignored XMLAnalyzer (xe_raw_lines env) ''5003'' (el_sourceline node) = Inr False"
  shows "filter (\<lambda>d. err_code (d_kind d) = ''5003'')
           (drop (length (xs_diagnostics s)) (xs_diagnostics s')) =
         (if el_attrib node ''model'' = None
          then [xml_diag env s node (RecordMissingAttribute ''model'')] else []) @
         (if el_attrib node ''id'' = None
          then [xml_diag env s node (RecordMissingAttribute ''id'')] else [])"
proof (rule bind_err_InrE [OF assms(1) [unfolded analyze_record_start_def]], goal_cases)
  case (1 s1)
  have a: "s1 = s \<or> s1 = s\<lparr>xs_diagnostics := xs_diagnostics s @ [xml_diag env s node (UnexpectedXMLTag (el_tag node))]\<rparr>"
    using 1(1) xml_add_result [of env _ s s1] by (auto split: if_splits)
  show ?thesis
  proof (rule bind_err_InrE [OF 1(2)], goal_cases)
    case (1 s2)
    have b: "s2 = (if el_attrib node ''model'' = None
                   then s1\<lparr>xs_diagnostics := xs_diagnostics s1 @ [xml_diag env s node (RecordMissingAttribute ''model'')]\<rparr>
                   else s1)"
      using 1(1) assms(2) a
      by (auto simp: xml_add_def add_diagnostic_def xml_diag_def xml_node_position_def split: if_splits)
    show ?thesis
    proof (rule bind_err_InrE [OF 1(2)], goal_cases)
      case (1 s3)
      have c: "el_attrib node ''id'' = None \<Longrightarrow>
                 s3 = s2\<lparr>xs_diagnostics := xs_diagnostics s2 @ [xml_diag env s node (RecordMissingAttribute ''id'')]\<rparr>"
        using 1(1) assms(2) a b
        by (auto simp: xml_add_def add_diagnostic_def xml_diag_def xml_node_position_def split: if_splits)
      have c': "el_attrib node ''id'' \<noteq> None \<Longrightarrow>
                 \<exists>extra. xs_diagnostics s3 = xs_diagnostics s2 @ extra \<and>
                    (\<forall>x \<in> set extra. err_code (d_kind x) = ''5006'')"
        using 1(1) xml_add_extra [of env _ s2 s3 "''5006''"]
        by (auto simp: xml_diag_def split: option.splits)
      have d: "\<exists>extra. xs_diagnostics s' = xs_diagnostics s3 @ extra \<and>
                    (\<forall>x \<in> set extra. err_code (d_kind x) = ''5004'')"
        using 1(2) xml_add_extra [of env _ s3 s' "''5004''"]
        by (auto simp: xml_diag_def split: option.splits if_splits sum.splits py_error.splits)
      show ?thesis
      proof (cases "el_attrib node ''id'' = None")
        case True
        with a b c [OF True] d show ?thesis
          by (auto simp: xml_diag_def)
      next
        case False
        with a b c' [OF False] d show ?thesis
          by (auto simp: xml_diag_def)
      qed
    qed
  qed
qed


lemma two_records_same_id:
  assumes run: "xml_events env (pre @ [(''start'', r1)] @ mid @ [(''start'', r2)] @ post) xml_init = Inr s"
    and r1: "el_tag r1 = ''record''" "el_attrib r1 ''id'' = Some X"
    and r2: "el_tag r2 = ''record''" "el_attrib r2 ''id'' = Some X"
    and others: "\<forall>ev \<in> set (pre @ mid @ post). \<not> record_start_with_id X ev"
    and visible: "ignored XMLAnalyzer (xe_raw_lines env) ''5006'' (el_sourceline r2) = Inr False"
  shows "\<exists>d. duplicate_id_diagnostics X (xs_diagnostics s) = [d] \<and>
              d_kind d = RecordDuplicateId X (str_int (el_sourceline r1)) \<and>
              pos_line (range_start (d_position d)) = el_sourceline r2"
proof -
  from run obtain s1 where e1: "xml_events env pre xml_init = Inr s1"
    and t1: "xml_events env ([(''start'', r1)] @ mid @ [(''start'', r2)] @ post) s1 = Inr s"
    unfolding xml_events_append [of env pre] by (rule bind_err_InrE)
  from t1 obtain s2 where e2: "xml_events env [(''start'', r1)] s1 = Inr s2"
    and t2: "xml_events env (mid @ [(''start'', r2)] @ post) s2 = Inr s"
    unfolding xml_events_append [of env "[(''start'', r1)]"] by (rule bind_err_InrE)
  from t2 obtain s3 where e3: "xml_events env mid s2 = Inr s3"
    and t3: "xml_events env ([(''start'', r2)] @ post) s3 = Inr s"
    unfolding xml_events_append [of env mid] by (rule bind_err_InrE)
  from t3 obtain s4 where e4: "xml_events env [(''start'', r2)] s3 = Inr s4"
    and e5: "xml_events env post s4 = Inr s"
    unfolding xml_events_append [of env "[(''start'', r2)]"] by (rule bind_err_InrE)
  have st1: "xml_step env (''start'', r1) s1 = Inr s2"
    using e2 by (simp split: sum.splits)
  have st2: "xml_step env (''start'', r2) s3 = Inr s4"
    using e4 by (simp split: sum.splits)
  have i1: "record_start_with_id X (''start'', r1)" and i2: "record_start_with_id X (''start'', r2)"
    using r1 r2 by (simp_all add: record_start_with_id_def)
  have f1: "same_for X xml_init s1" using e1 others by (auto intro: events_other)
  have f3: "same_for X s2 s3" using e3 others by (auto intro: events_other)
  have f5: "same_for X s4 s" using e5 others by (auto intro: events_other)
  have n1: "xs_fs_ids s1 X = None" "duplicate_id_diagnostics X (xs_diagnostics s1) = []"
    using f1 by (simp_all add: same_for_def xml_init_def duplicate_id_diagnostics_def)
  from step_first [OF st1 i1 n1(1)] n1(2)
  have n2: "xs_fs_ids s2 X = Some (el_sourceline r1)" "duplicate_id_diagnostics X (xs_diagnostics s2) = []"
    by simp_all
  with f3 have n3: "xs_fs_ids s3 X = Some (el_sourceline r1)" "duplicate_id_diagnostics X (xs_diagnostics s3) = []"
    by (simp_all add: same_for_def)
  from step_again [OF st2 i2 n3(1)] visible n3(2)
  obtain d where n4: "duplicate_id_diagnostics X (xs_diagnostics s4) = [d]"
    "d_kind d = RecordDuplicateId X (str_int (el_sourceline r1))"
    "pos_line (range_start (d_position d)) = el_sourceline r2"
    by auto
  with f5 show ?thesis by (auto simp: same_for_def)
qed

lemma xml_analyze_duplicates:
  assumes "xml_events env events xml_init = Inr s" and "xml_analyze env events = Inr ds"
  shows "duplicate_id_diagnostics X ds = duplicate_id_diagnostics X (xs_diagnostics s)"
  using assms by (auto simp: xml_analyze_def Let_def duplicate_id_diagnostics_def file_diag_def)

lemma xml_analyze_Inr:
  "xml_analyze env events = Inr ds \<Longrightarrow> \<exists>s. xml_events env events xml_init = Inr s"
  by (auto simp: xml_analyze_def Let_def split: sum.splits)

text \<open>
  Claim C7. In one pass over a declarative-data file in which two record elements
  carry the same identifier X (and no other record does), exactly one
  RecordDuplicateId about X is emitted; its position is the line of the second
  record and its message cites the line of the first. This is stated for a pass that
  ends without raising and in which no inline marker suppresses code 5006 on the
  second record's line. Second part: a record element yields one
  RecordMissingAttribute for each of the attributes model and id that it lacks, and
  no other (when no marker suppresses code 5003 on its line).
\<close>

theorem duplicate_record_id_reported_once:
  "(xml_analyze env (pre @ [(''start'', r1)] @ mid @ [(''start'', r2)] @ post) = Inr ds \<and>
    el_tag r1 = ''record'' \<and> el_attrib r1 ''id'' = Some X \<and>
    el_tag r2 = ''record'' \<and> el_attrib r2 ''id'' = Some X \<and>
    (\<forall>ev \<in> set (pre @ mid @ post). \<not> record_start_with_id X ev) \<and>
    ignored XMLAnalyzer (xe_raw_lines env) ''5006'' (el_sourceline r2) = Inr False
    \<longrightarrow> (\<exists>d. duplicate_id_diagnostics X ds = [d] \<and>
              d_kind d = RecordDuplicateId X (str_int (el_sourceline r1)) \<and>
              pos_line (range_start (d_position d)) = el_sourceline r2))
   \<and>
   (analyze_record_start env node s = Inr s' \<and>
    ignored XMLAnalyzer (xe_raw_lines env) ''5003'' (el_sourceline node) = Inr False
    \<longrightarrow> filter (\<lambda>d. err_code (d_kind d) = ''5003'')
           (drop (length (xs_diagnostics s)) (xs_diagnostics s')) =
         (if el_attrib node ''model'' = None
          then [xml_diag env s node (RecordMissingAttribute ''model'')] else []) @
         (if el_attrib node ''id'' = None
          then [xml_diag env s node (RecordMissingAttribute ''id'')] else []))"
proof (intro conjI impI)
  assume a: "xml_analyze env (pre @ [(''start'', r1)] @ mid @ [(''start'', r2)] @ post) = Inr ds \<and>
    el_tag r1 = ''record'' \<and> el_attrib r1 ''id'' = Some X \<and>
    el_tag r2 = ''record'' \<and> el_attrib r2 ''id'' = Some X \<and>
    (\<forall>ev \<in> set (pre @ mid @ post). \<not> record_start_with_id X ev) \<and>
    ignored XMLAnalyzer (xe_raw_lines env) ''5006'' (el_sourceline r2) = Inr False"
  then obtain st where st: "xml_events env (pre @ [(''start'', r1)] @ mid @ [(''start'', r2)] @ post) xml_init = Inr st"
    using xml_analyze_Inr by blast
  from two_records_same_id [OF st, of X] a
  obtain d where "duplicate_id_diagnostics X (xs_diagnostics st) = [d]"
    "d_kind d = RecordDuplicateId X (str_int (el_sourceline r1))"
    "pos_line (range_start (d_position d)) = el_sourceline r2"
    by blast
  moreover have "duplicate_id_diagnostics X ds = duplicate_id_diagnostics X (xs_diagnostics st)"
    using st a by (intro xml_analyze_duplicates) auto
  ultimately show "\<exists>d. duplicate_id_diagnostics X ds = [d] \<and>
              d_kind d = RecordDuplicateId X (str_int (el_sourceline r1)) \<and>
              pos_line (range_start (d_position d)) = el_sourceline r2"
    by auto
next
  assume "analyze_record_start env node s = Inr s' \<and>
    ignored XMLAnalyzer (xe_raw_lines env) ''5003'' (el_sourceline node) = Inr False"
  then show "filter (\<lambda>d. err_code (d_kind d) = ''5003'')
           (drop (length (xs_diagnostics s)) (xs_diagnostics s')) =
         (if el_attrib node ''model'' = None
          then [xml_diag env s node (RecordMissingAttribute ''model'')] else []) @
         (if el_attrib node ''id'' = None
          then [xml_diag env s node (RecordMissingAttribute ''id'')] else [])"
    using record_start_missing by blast
qed


definition ex_xml_env :: xml_env where
  "ex_xml_env = \<lparr>xe_filepath = ''sample_module/module.xml'', xe_filename = ''module'',
     xe_raw_lines = [''<tryton>'', ''  <data>'',
        ''    <record model=\"ir.ui.menu\" id=\"X\"/>'',
        ''    <record id=\"X\"/>'', ''  </data>'', ''</tryton>''],
     xe_module = None, xe_cfg_lines = [''[tryton]'', ''xml:'', ''    module.xml''],
     xe_manager = (\<lambda>key. \<lparr>pool_key = key, pool_models = Map.empty, pool_wizards = Map.empty\<rparr>)\<rparr>"

definition ex_el :: "string \<Rightarrow> (string \<times> string) list \<Rightarrow> int \<Rightarrow> xml_element" where
  "ex_el tag attrs line_no =
     \<lparr>el_tag = tag, el_attrib = map_of attrs, el_text = None, el_sourceline = line_no\<rparr>"

definition ex_xml_events :: "(string \<times> xml_element) list" where
  "ex_xml_events =
     [(''start'', ex_el ''tryton'' [] 1), (''start'', ex_el ''data'' [] 2),
      (''start'', ex_el ''record'' [(''model'', ''ir.ui.menu''), (''id'', ''X'')] 3),
      (''end'', ex_el ''record'' [(''model'', ''ir.ui.menu''), (''id'', ''X'')] 3),
      (''start'', ex_el ''record'' [(''id'', ''X'')] 4),
      (''end'', ex_el ''record'' [(''id'', ''X'')] 4),
      (''end'', ex_el ''data'' [] 2), (''end'', ex_el ''tryton'' [] 1)]"


lemmas xml_eval =
  xml_analyze_def xml_init_def xml_node_start_def xml_node_end_def xml_push_def
  analyze_tryton_start_def analyze_data_start_def analyze_record_start_def
  analyze_field_start_def analyze_record_end_def analyze_data_end_def
  check_is_tryton_xml_file_def xml_add_def add_diagnostic_def xml_diag_def
  xml_node_position_def file_diag_def base_ignored_def above_ignored_def py_index_def
  marker_def startswith_def lstrip_def strip_def is_space_def bind_err_def
  str_int_def str_nat.simps digit_char_def no_context_def Let_def

definition ex_record_diag :: "diag_kind \<Rightarrow> diagnostic" where
  "ex_record_diag k =
     \<lparr>d_kind = k,
      d_position = \<lparr>range_start = \<lparr>pos_line = 4, pos_column = 0\<rparr>,
                    range_end = \<lparr>pos_line = 4, pos_column = 99\<rparr>\<rparr>,
      d_filepath = ''sample_module/module.xml'', d_context = no_context\<rparr>"

theorem duplicate_record_id_reported_once_witness:
  "xml_analyze ex_xml_env ex_xml_events =
     Inr [ex_record_diag (RecordMissingAttribute ''model''),
          ex_record_diag (RecordDuplicateId ''X'' ''3'')] \<and>
   (\<exists>d. duplicate_id_diagnostics ''X''
            [ex_record_diag (RecordMissingAttribute ''model''),
             ex_record_diag (RecordDuplicateId ''X'' ''3'')] = [d] \<and>
         d_kind d = RecordDuplicateId ''X'' (str_int 3) \<and>
         pos_line (range_start (d_position d)) = 4) \<and>
   (\<exists>s'. analyze_record_start ex_xml_env (ex_el ''record'' [(''id'', ''X'')] 4)
            (xml_init\<lparr>xs_tag_stack := take 3 (map snd ex_xml_events)\<rparr>) = Inr s' \<and>
         filter (\<lambda>d. err_code (d_kind d) = ''5003'') (xs_diagnostics s') =
           [ex_record_diag (RecordMissingAttribute ''model'')])"
proof -
  let ?r1 = "ex_el ''record'' [(''model'', ''ir.ui.menu''), (''id'', ''X'')] 3"
  let ?r2 = "ex_el ''record'' [(''id'', ''X'')] 4"
  let ?pre = "[(''start'', ex_el ''tryton'' [] 1), (''start'', ex_el ''data'' [] 2)]"
  let ?mid = "[(''end'', ?r1)]"
  let ?post = "[(''end'', ?r2), (''end'', ex_el ''data'' [] 2), (''end'', ex_el ''tryton'' [] 1)]"
  let ?ds = "[ex_record_diag (RecordMissingAttribute ''model''),
              ex_record_diag (RecordDuplicateId ''X'' ''3'')]"
  let ?s = "xml_init\<lparr>xs_tag_stack := take 3 (map snd ex_xml_events)\<rparr>"
  have ev: "ex_xml_events = ?pre @ [(''start'', ?r1)] @ ?mid @ [(''start'', ?r2)] @ ?post"
    by (simp add: ex_xml_events_def)
  have run: "xml_analyze ex_xml_env ex_xml_events = Inr ?ds"
    by (simp add: ex_xml_env_def ex_xml_events_def ex_el_def ex_record_diag_def xml_eval)
  have h1: "el_tag ?r1 = ''record'' \<and> el_attrib ?r1 ''id'' = Some ''X'' \<and>
            el_tag ?r2 = ''record'' \<and> el_attrib ?r2 ''id'' = Some ''X''"
    by (simp add: ex_el_def)
  have h2: "\<forall>ev \<in> set (?pre @ ?mid @ ?post). \<not> record_start_with_id ''X'' ev"
    by (simp add: record_start_with_id_def ex_el_def)
  have h3: "ignored XMLAnalyzer (xe_raw_lines ex_xml_env) ''5006'' (el_sourceline ?r2) = Inr False"
    by (simp add: ex_xml_env_def ex_el_def xml_eval)
  have h4: "ignored XMLAnalyzer (xe_raw_lines ex_xml_env) ''5003'' (el_sourceline ?r2) = Inr False"
    by (simp add: ex_xml_env_def ex_el_def xml_eval)
  have "\<exists>s'. analyze_record_start ex_xml_env ?r2 ?s = Inr s'"
    by (simp add: ex_xml_env_def ex_xml_events_def ex_el_def xml_eval)
  then obtain s' where h5: "analyze_record_start ex_xml_env ?r2 ?s = Inr s'" ..
  have h6: "length (xs_diagnostics ?s) = 0" "el_attrib ?r2 ''model'' = None"
    "el_attrib ?r2 ''id'' \<noteq> None"
    "xml_diag ex_xml_env ?s ?r2 (RecordMissingAttribute ''model'') =
       ex_record_diag (RecordMissingAttribute ''model'')"
    by (simp_all add: xml_init_def ex_el_def xml_diag_def xml_node_position_def
        ex_record_diag_def ex_xml_env_def)
  note inst = duplicate_record_id_reported_once
    [of ex_xml_env ?pre ?r1 ?mid ?r2 ?post ?ds "''X''" ?r2 ?s s']
  from inst run [unfolded ev] h1 h2 h3
  have c1: "\<exists>d. duplicate_id_diagnostics ''X'' ?ds = [d] \<and>
         d_kind d = RecordDuplicateId ''X'' (str_int (el_sourceline ?r1)) \<and>
         pos_line (range_start (d_position d)) = el_sourceline ?r2"
    by blast
  from inst h4 h5
  have "filter (\<lambda>d. err_code (d_kind d) = ''5003'')
           (drop (length (xs_diagnostics ?s)) (xs_diagnostics s')) =
         (if el_attrib ?r2 ''model'' = None
          then [xml_diag ex_xml_env ?s ?r2 (RecordMissingAttribute ''model'')] else []) @
         (if el_attrib ?r2 ''id'' = None
          then [xml_diag ex_xml_env ?s ?r2 (RecordMissingAttribute ''id'')] else [])"
    by blast
  then have c2: "filter (\<lambda>d. err_code (d_kind d) = ''5003'') (xs_diagnostics s') =
           [ex_record_diag (RecordMissingAttribute ''model'')]"
    using h6 by simp
  have sl: "el_sourceline ?r1 = 3" "el_sourceline ?r2 = 4" by (simp_all add: ex_el_def)
  from run c1 c2 h5 sl show ?thesis by auto
qed

text \<open>
  Claim C10. When the wrapper tag and the registration of the file disagree, the
  walker appends TrytonTagNotFound or TrytonXmlFileUnregistered to its result
  directly: the diagnostic is in the result even when the raw lines carry a marker
  for which \<open>ignored\<close> answers True, a marker with which \<open>add_diagnostic\<close> would
  have dropped the same diagnostic.
\<close>

theorem wrapper_tag_diagnostics_bypass_suppression:
  assumes run: "xml_events env events xml_init = Inr s"
    and mismatch: "check_is_tryton_xml_file env \<noteq> xs_found_tryton_tag s"
    and d: "d = file_diag env (if check_is_tryton_xml_file env
                               then TrytonTagNotFound else TrytonXmlFileUnregistered)"
    and marked: "ignored XMLAnalyzer (xe_raw_lines env) (err_code (d_kind d))
                   (pos_line (range_start (d_position d))) = Inr True"
  shows "xml_analyze env events = Inr (xs_diagnostics s @ [d]) \<and>
         add_diagnostic XMLAnalyzer (xe_raw_lines env) d (xs_diagnostics s) =
           Inr (xs_diagnostics s)"
  using assms by (auto simp: xml_analyze_def Let_def add_diagnostic_def)

definition ex_marked_env :: xml_env where
  "ex_marked_env = \<lparr>xe_filepath = ''sample_module/registered_typo.xml'',
     xe_filename = ''registered_typo'',
     xe_raw_lines = [''<trytond> <!-- IGNORE-TRYTON-LS-5000 -->'', ''</trytond>''],
     xe_module = None, xe_cfg_lines = [''xml:'', ''    registered_typo.xml''],
     xe_manager = (\<lambda>key. \<lparr>pool_key = key, pool_models = Map.empty, pool_wizards = Map.empty\<rparr>)\<rparr>"

theorem wrapper_tag_diagnostics_bypass_suppression_witness:
  "xml_analyze ex_marked_env
     [(''start'', ex_el ''trytond'' [] 1), (''end'', ex_el ''trytond'' [] 1)] =
     Inr [file_diag ex_marked_env TrytonTagNotFound] \<and>
   add_diagnostic XMLAnalyzer (xe_raw_lines ex_marked_env)
     (file_diag ex_marked_env TrytonTagNotFound) [] = Inr []"
proof -
  let ?ev = "[(''start'', ex_el ''trytond'' [] 1), (''end'', ex_el ''trytond'' [] 1)]"
  have "\<exists>s. xml_events ex_marked_env ?ev xml_init = Inr s \<and> xs_diagnostics s = []
          \<and> \<not> xs_found_tryton_tag s"
    by (simp add: ex_marked_env_def ex_el_def xml_eval)
  then obtain s where s: "xml_events ex_marked_env ?ev xml_init = Inr s"
    "xs_diagnostics s = []" "\<not> xs_found_tryton_tag s" by blast
  have c: "check_is_tryton_xml_file ex_marked_env"
    by (simp add: ex_marked_env_def xml_eval)
  have m: "ignored XMLAnalyzer (xe_raw_lines ex_marked_env)
             (err_code (d_kind (file_diag ex_marked_env TrytonTagNotFound)))
             (pos_line (range_start (d_position (file_diag ex_marked_env TrytonTagNotFound)))) = Inr True"
    by (simp add: ex_marked_env_def xml_eval)
  from wrapper_tag_diagnostics_bypass_suppression
    [OF s(1), of "file_diag ex_marked_env TrytonTagNotFound"] s(2,3) c m
  show ?thesis by simp
qed

section \<open>A sample registry\<close>

text \<open>
  The models "author" and "book" of the sample module of the test suite, a pool
  holding them, and an analyzer positioned in a class bound to one of them. Node
  \<open>n\<close> lies on line \<open>n div 10 + 1\<close>.
\<close>

definition ex_field :: "string \<Rightarrow> string \<Rightarrow> string option \<Rightarrow> field_info" where
  "ex_field label type_tag relation =
     \<lparr>fi_string = label, fi_type = type_tag, fi_relation = relation\<rparr>"

definition ex_author_data :: model_data where
  "ex_author_data =
     \<lparr>md_attrs = {''name'', ''books'', ''id'', ''rec_name'', ''test_function'', ''get_rec_name''},
      md_fields = [''name'' \<mapsto> ex_field ''Author'' ''char'' None,
                   ''books'' \<mapsto> ex_field ''Books'' ''one2many'' (Some ''book'')],
      md_states = Map.empty\<rparr>"

definition ex_book_data :: model_data where
  "ex_book_data =
     \<lparr>md_attrs = {''name'', ''author'', ''id'', ''rec_name'', ''test_depends''},
      md_fields = [''name'' \<mapsto> ex_field ''Name'' ''char'' None,
                   ''author'' \<mapsto> ex_field ''Author'' ''many2one'' (Some ''author'')],
      md_states = Map.empty\<rparr>"

definition ex_ir_model_data :: model_data where
  "ex_ir_model_data =
     \<lparr>md_attrs = {''name'', ''model'', ''fields'', ''id'', ''rec_name''},
      md_fields = [''name'' \<mapsto> ex_field ''Model Description'' ''char'' None,
                   ''model'' \<mapsto> ex_field ''Model Name'' ''char'' None,
                   ''fields'' \<mapsto> ex_field ''Fields'' ''one2many'' (Some ''ir.model.field'')],
      md_states = Map.empty\<rparr>"

definition ex_pool :: pool where
  "ex_pool = \<lparr>pool_key = [''res'', ''sample_module''],
     pool_models = [''author'' \<mapsto> ex_author_data, ''book'' \<mapsto> ex_book_data,
                    ''ir.model'' \<mapsto> ex_ir_model_data],
     pool_wizards = Map.empty\<rparr>"

definition ex_model :: "string \<Rightarrow> model_data \<Rightarrow> pool_model" where
  "ex_model name data =
     \<lparr>pm_key = [''res'', ''sample_module''], pm_type = ''model'', pm_name = name,
      pm_dir = md_attrs data, pm_fields = md_fields data, pm_states = md_states data\<rparr>"

definition ex_line :: "int \<Rightarrow> code_range" where
  "ex_line l = \<lparr>range_start = \<lparr>pos_line = l, pos_column = 8\<rparr>,
                range_end = \<lparr>pos_line = l, pos_column = 30\<rparr>\<rparr>"

definition ex_py_env :: "string list \<Rightarrow> py_env" where
  "ex_py_env raw_lines =
     \<lparr>pe_filepath = ''sample_module/module.py'', pe_module = Some ''sample_module'',
      pe_raw_lines = raw_lines,
      pe_positions = (\<lambda>n. ex_line (int (n div 10) + 1)),
      pe_import_path = ''trytond.modules.sample_module.module'',
      pe_manager = (\<lambda>key. ex_pool),
      pe_supported_keys = [''model'', ''wizard''],
      pe_super_information = (\<lambda>model fname. []),
      pe_get_parsed = (\<lambda>path. None)\<rparr>"

definition ex_metadata :: "string \<Rightarrow> string \<Rightarrow> model_data \<Rightarrow> tryton_metadata" where
  "ex_metadata class_name name data =
     \<lparr>tm_pool = ex_pool, tm_model = Some (ex_model name data), tm_model_name = name,
      tm_kind = Some ''model'', tm_class_name = class_name\<rparr>"

definition ex_class_state :: "tryton_metadata \<Rightarrow> py_state" where
  "ex_class_state md =
     \<lparr>ps_diagnostics = [], ps_class_metadata = Some md, ps_cur_function = None,
      ps_function_pool_vars = {}, ps_node_mappings = Map.empty,
      ps_node_list_mappings = Map.empty\<rparr>"

definition ex_author_state :: py_state where
  "ex_author_state = enter_function ''test_function''
     (ex_class_state (ex_metadata ''AuthorOverride'' ''author'' ex_author_data))"

definition ex_book_state :: py_state where
  "ex_book_state = enter_function ''test_param_typing''
     (ex_class_state (ex_metadata ''BookOverride'' ''book'' ex_book_data))"

lemmas py_eval =
  pool_get_def has_attribute_def py_get_pool_def py_diag_def py_add_def add_diagnostic_def
  base_ignored_def above_ignored_def py_index_def marker_def startswith_def lstrip_def
  is_space_def bind_err_def get_module_name_def get_current_model_name_def
  get_current_class_name_def get_current_function_name_def unquote_def Let_def

lemmas ex_eval =
  ex_author_state_def ex_book_state_def ex_class_state_def ex_metadata_def ex_pool_def
  ex_model_def ex_author_data_def ex_book_data_def ex_ir_model_data_def ex_field_def
  ex_py_env_def ex_line_def enter_function_def

lemmas walk_eval =
  leave_Attribute_def leave_Subscript_def leave_Assign_def leave_AnnAssign_def
  visit_AnnAssign_def visit_Call_def annotated_model_def get_type_def get_list_type_def
  lookup_node_def name_key_def handle_pool_get_def truthy_name_def pop_names_def
  pop_name_def call_receiver_key_def result_diagnostics_def result_binding_def
  result_list_binding_def

section \<open>Properties of the suppression markers\<close>












section \<open>Reporting a diagnostic in the general walker\<close>

lemma py_add_result:
  "py_add env d s = Inr s' \<Longrightarrow>
     s' = s \<or> s' = s\<lparr>ps_diagnostics := ps_diagnostics s @ [d]\<rparr>"
  by (auto simp: py_add_def add_diagnostic_def split: sum.splits bool.splits)

lemma py_add_visible:
  "ignored PythonAnalyzer (pe_raw_lines env) (err_code (d_kind d))
     (pos_line (range_start (d_position d))) = Inr False \<Longrightarrow>
   py_add env d s = Inr (s\<lparr>ps_diagnostics := ps_diagnostics s @ [d]\<rparr>)"
  by (simp add: py_add_def add_diagnostic_def)

lemma py_add_visible_code:
  assumes "ignored PythonAnalyzer (pe_raw_lines env) (err_code k)
     (pos_line (range_start (pe_positions env vid))) = Inr False"
  shows "py_add env (py_diag env s vid k) s =
     Inr (s\<lparr>ps_diagnostics := ps_diagnostics s @ [py_diag env s vid k]\<rparr>)"
  using assms by (intro py_add_visible) (simp add: py_diag_def)

lemma py_add_other_code:
  assumes "py_add env d s = Inr s'" and "err_code (d_kind d) \<noteq> c"
  shows "with_code c (ps_diagnostics s') = with_code c (ps_diagnostics s)"
  using py_add_result [OF assms(1)] assms(2) by (auto simp: with_code_def)

lemma py_add_context:
  "py_add env d s = Inr s' \<Longrightarrow>
     ps_class_metadata s' = ps_class_metadata s \<and> ps_cur_function s' = ps_cur_function s"
  by (auto dest: py_add_result)

lemma py_diag_context:
  "ps_class_metadata s' = ps_class_metadata s \<Longrightarrow> ps_cur_function s' = ps_cur_function s \<Longrightarrow>
     py_diag env s' = py_diag env s"
  by (simp add: py_diag_def fun_eq_iff get_current_model_name_def get_current_class_name_def
      get_current_function_name_def)

lemma py_add_extra:
  assumes "py_add env d s = Inr s'" and "P d"
  shows "ps_class_metadata s' = ps_class_metadata s \<and> ps_cur_function s' = ps_cur_function s \<and>
     (\<exists>extra. ps_diagnostics s' = ps_diagnostics s @ extra \<and> (\<forall>x \<in> set extra. P x))"
  using py_add_result [OF assms(1)] assms(2)
  by (elim disjE) (auto intro: exI [of _ "[]"] exI [of _ "[d]"])

section \<open>Properties of the general walker\<close>

lemma pool_get_name:
  "pool_get p name kind = Inr m \<Longrightarrow> pm_name m = name \<and> pm_type m = kind"
  by (auto simp: pool_get_def Let_def split: option.splits)

lemma get_type_bound_name:
  "ps_node_mappings s (KName v) = Some m \<Longrightarrow> get_type env s (Some (Name n v)) = Inr (Some m, s)"
  by (simp add: get_type_def lookup_node_def name_key_def)

lemma get_type_bound_node:
  "name_key e = None \<Longrightarrow> ps_node_mappings s (KNode (node_id e)) = Some m \<Longrightarrow>
     get_type env s (Some e) = Inr (Some m, s)"
  by (simp add: get_type_def lookup_node_def)

lemma leave_Attribute_relation:
  assumes "get_type env s (Some v) = Inr (Some model, s)"
    and "attr \<in> pm_dir model" and "pm_type model = ''model''"
    and "ps_class_metadata s = Some md"
    and "pm_fields model attr = Some field" and "fi_relation field = Some relation"
    and "pool_get (tm_pool md) relation ''model'' = Inr target"
  shows "leave_Attribute env n v an attr s =
     Inr (if fi_type field = ''many2one''
          then s\<lparr>ps_node_mappings := (ps_node_mappings s)(KNode n \<mapsto> target)\<rparr>
          else s\<lparr>ps_node_list_mappings := (ps_node_list_mappings s)(KNode n \<mapsto> target)\<rparr>)"
  using assms
  by (simp add: leave_Attribute_def bind_err_def has_attribute_def py_get_pool_def)

lemma leave_Attribute_unknown:
  assumes "get_type env s (Some v) = Inr (Some model, s)"
    and "attr \<notin> pm_dir model" and "pm_type model = ''model''"
    and "pm_fields model attr = None"
    and "ignored PythonAnalyzer (pe_raw_lines env) ''1007''
           (pos_line (range_start (pe_positions env an))) = Inr False"
  shows "leave_Attribute env n v an attr s =
     Inr (s\<lparr>ps_diagnostics := ps_diagnostics s @
             [py_diag env s an (UnknownAttribute (pm_name model) attr)]\<rparr>)"
  using assms
  by (auto simp: leave_Attribute_def bind_err_def has_attribute_def py_get_pool_def
      py_add_def add_diagnostic_def py_diag_def split: option.splits)


text \<open>The expression \<open>self.books[0].a\<close> for an attribute name \<open>a\<close>.\<close>

definition books_chain :: "nat \<Rightarrow> nat \<Rightarrow> nat \<Rightarrow> nat \<Rightarrow> nat \<Rightarrow> nat \<Rightarrow> nat \<Rightarrow> string \<Rightarrow> expr" where
  "books_chain n0 n1 a1 c n2 n3 a3 last_attr =
     Attribute n3 (Subscript n2 (Attribute n1 (Name n0 ''self'') a1 ''books'') [Index (Constant c)])
       a3 last_attr"

lemma books_prefix:
  assumes md: "ps_class_metadata s0 = Some md" "tm_model md = Some author"
    and books: "pm_type author = ''model''" "''books'' \<in> pm_dir author"
      "pm_fields author ''books'' = Some fb" "fi_relation fb = Some ''book''"
      "fi_type fb \<noteq> ''many2one''"
    and book: "pool_get (tm_pool md) ''book'' ''model'' = Inr book"
  shows "visit_expr env (Subscript n2 (Attribute n1 (Name n0 ''self'') a1 ''books'') [Index (Constant c)])
           (enter_function f s0) =
         Inr ((enter_function f s0)
               \<lparr>ps_node_list_mappings := [KNode n1 \<mapsto> book],
                ps_node_mappings := [KName ''self'' \<mapsto> author, KName ''cls'' \<mapsto> author,
                                     KNode n2 \<mapsto> book]\<rparr>)"
proof -
  let ?s = "enter_function f s0"
  have s: "ps_node_mappings ?s = [KName ''self'' \<mapsto> author, KName ''cls'' \<mapsto> author]"
    "ps_node_list_mappings ?s = Map.empty" "ps_class_metadata ?s = Some md"
    using md by (simp_all add: enter_function_def)
  have g: "get_type env ?s (Some (Name n0 ''self'')) = Inr (Some author, ?s)"
    by (rule get_type_bound_name) (simp add: s)
  have a: "leave_Attribute env n1 (Name n0 ''self'') a1 ''books'' ?s =
      Inr (?s\<lparr>ps_node_list_mappings := [KNode n1 \<mapsto> book]\<rparr>)"
    using leave_Attribute_relation [OF g books(2) books(1) s(3) books(3) books(4) book, of n1 a1]
      books(5) s(2) by simp
  show ?thesis
    using a s by (simp add: leave_Subscript_def get_list_type_def lookup_node_def name_key_def)
qed


text \<open>
  Claim C2. In a method of a class bound to the entity model "author" whose to-many
  field "books" targets the model "book", walking the statement
  \<open>self.books[0].author\<close> adds no diagnostic: \<open>self\<close> is bound to author,
  \<open>self.books\<close> to a sequence of book, the subscript to a single book and
  \<open>.author\<close> (a to-one field of book towards author) to author. Walking
  \<open>self.books[0].missing\<close>, where \<open>missing\<close> is not a member of book, adds exactly
  one UnknownAttribute, citing model "book" and the member, at the attribute name
  (when no inline marker suppresses code 1007 there). The fields of book are among
  its members.
\<close>

theorem attribute_chain_example:
  assumes md: "ps_class_metadata s0 = Some md" "tm_model md = Some author"
      "pool_get (tm_pool md) ''author'' ''model'' = Inr author"
      "pool_get (tm_pool md) ''book'' ''model'' = Inr book"
    and books: "''books'' \<in> pm_dir author"
      "pm_fields author ''books'' = Some fb" "fi_relation fb = Some ''book''"
      "fi_type fb = ''one2many''"
    and members: "dom (pm_fields book) \<subseteq> pm_dir book"
    and ids: "n2 \<noteq> n3"
  shows "(''author'' \<in> pm_dir book \<and> pm_fields book ''author'' = Some fa \<and>
          fi_relation fa = Some ''author'' \<and> fi_type fa = ''many2one''
          \<longrightarrow> (\<exists>s1. visit_stmt env (Expr (books_chain n0 n1 a1 c n2 n3 a3 ''author''))
                       (enter_function f s0) = Inr s1 \<and>
                    ps_diagnostics s1 = ps_diagnostics s0 \<and>
                    ps_node_mappings s1 (KName ''self'') = Some author \<and>
                    ps_node_list_mappings s1 (KNode n1) = Some book \<and>
                    ps_node_mappings s1 (KNode n2) = Some book \<and>
                    ps_node_mappings s1 (KNode n3) = Some author))
         \<and>
         (missing \<notin> pm_dir book \<and>
          ignored PythonAnalyzer (pe_raw_lines env) ''1007''
            (pos_line (range_start (pe_positions env a3))) = Inr False
          \<longrightarrow> (\<exists>s2. visit_stmt env (Expr (books_chain n0 n1 a1 c n2 n3 a3 missing))
                       (enter_function f s0) = Inr s2 \<and>
                    ps_diagnostics s2 = ps_diagnostics s0 @
                      [py_diag env (enter_function f s0) a3 (UnknownAttribute ''book'' missing)]))"
proof -
  let ?s = "enter_function f s0"
  let ?sub = "Subscript n2 (Attribute n1 (Name n0 ''self'') a1 ''books'') [Index (Constant c)]"
  let ?s2 = "?s\<lparr>ps_node_list_mappings := [KNode n1 \<mapsto> book],
                ps_node_mappings := [KName ''self'' \<mapsto> author, KName ''cls'' \<mapsto> author,
                                     KNode n2 \<mapsto> book]\<rparr>"
  have ta: "pm_type author = ''model''" and tb: "pm_type book = ''model''"
    and nb: "pm_name book = ''book''"
    using md(3,4) by (auto dest: pool_get_name)
  have pre: "visit_expr env ?sub ?s = Inr ?s2"
    using books(4) by (intro books_prefix [OF md(1,2) ta books(1,2,3) _ md(4)]) simp
  have g: "get_type env ?s2 (Some ?sub) = Inr (Some book, ?s2)"
    by (rule get_type_bound_node) (simp_all add: name_key_def)
  have cm: "ps_class_metadata ?s2 = Some md" "ps_diagnostics ?s2 = ps_diagnostics s0"
    using md(1) by (simp_all add: enter_function_def)
  show ?thesis
  proof (intro conjI impI)
    assume h: "''author'' \<in> pm_dir book \<and> pm_fields book ''author'' = Some fa \<and>
          fi_relation fa = Some ''author'' \<and> fi_type fa = ''many2one''"
    have "leave_Attribute env n3 ?sub a3 ''author'' ?s2 =
        Inr (?s2\<lparr>ps_node_mappings := (ps_node_mappings ?s2)(KNode n3 \<mapsto> author)\<rparr>)"
      using leave_Attribute_relation [OF g _ tb cm(1) _ _ md(3), where field = fa and n = n3 and an = a3] h by simp
    then show "\<exists>s1. visit_stmt env (Expr (books_chain n0 n1 a1 c n2 n3 a3 ''author''))
                       (enter_function f s0) = Inr s1 \<and>
                    ps_diagnostics s1 = ps_diagnostics s0 \<and>
                    ps_node_mappings s1 (KName ''self'') = Some author \<and>
                    ps_node_list_mappings s1 (KNode n1) = Some book \<and>
                    ps_node_mappings s1 (KNode n2) = Some book \<and>
                    ps_node_mappings s1 (KNode n3) = Some author"
      using pre cm ids by (simp add: books_chain_def)
  next
    assume h: "missing \<notin> pm_dir book \<and>
          ignored PythonAnalyzer (pe_raw_lines env) ''1007''
            (pos_line (range_start (pe_positions env a3))) = Inr False"
    then have nf: "pm_fields book missing = None"
      using members by (auto simp: dom_def)
    have "leave_Attribute env n3 ?sub a3 missing ?s2 =
        Inr (?s2\<lparr>ps_diagnostics := ps_diagnostics ?s2 @
             [py_diag env ?s2 a3 (UnknownAttribute (pm_name book) missing)]\<rparr>)"
      using h by (intro leave_Attribute_unknown [OF g _ tb nf]) simp_all
    moreover have "py_diag env ?s2 a3 (UnknownAttribute (pm_name book) missing) =
        py_diag env ?s a3 (UnknownAttribute ''book'' missing)"
      by (simp add: py_diag_def nb get_current_model_name_def get_current_class_name_def
          get_current_function_name_def)
    ultimately show "\<exists>s2. visit_stmt env (Expr (books_chain n0 n1 a1 c n2 n3 a3 missing))
                       (enter_function f s0) = Inr s2 \<and>
                    ps_diagnostics s2 = ps_diagnostics s0 @
                      [py_diag env (enter_function f s0) a3 (UnknownAttribute ''book'' missing)]"
      using pre cm by (simp add: books_chain_def)
  qed
qed


theorem attribute_chain_example_witness:
  "(\<exists>s1. visit_stmt (ex_py_env [''        self.books[0].author''])
            (Expr (books_chain 0 1 2 3 4 5 6 ''author''))
            (enter_function ''test_function''
               (ex_class_state (ex_metadata ''AuthorOverride'' ''author'' ex_author_data))) = Inr s1 \<and>
         ps_diagnostics s1 = []) \<and>
   (\<exists>s2. visit_stmt (ex_py_env [''        self.books[0].missingField''])
            (Expr (books_chain 0 1 2 3 4 5 6 ''missingField''))
            (enter_function ''test_function''
               (ex_class_state (ex_metadata ''AuthorOverride'' ''author'' ex_author_data))) = Inr s2 \<and>
         map d_kind (ps_diagnostics s2) = [UnknownAttribute ''book'' ''missingField''] \<and>
         map (\<lambda>d. pos_line (range_start (d_position d))) (ps_diagnostics s2) = [1])"
proof -
  let ?md = "ex_metadata ''AuthorOverride'' ''author'' ex_author_data"
  let ?s0 = "ex_class_state ?md"
  let ?author = "ex_model ''author'' ex_author_data"
  let ?book = "ex_model ''book'' ex_book_data"
  let ?fb = "ex_field ''Books'' ''one2many'' (Some ''book'')"
  let ?fa = "ex_field ''Author'' ''many2one'' (Some ''author'')"
  have md: "ps_class_metadata ?s0 = Some ?md" "tm_model ?md = Some ?author"
      "pool_get (tm_pool ?md) ''author'' ''model'' = Inr ?author"
      "pool_get (tm_pool ?md) ''book'' ''model'' = Inr ?book"
    by (simp_all add: ex_class_state_def ex_metadata_def ex_pool_def ex_model_def pool_get_def)
  have books: "''books'' \<in> pm_dir ?author" "pm_fields ?author ''books'' = Some ?fb"
      "fi_relation ?fb = Some ''book''" "fi_type ?fb = ''one2many''"
    by (simp_all add: ex_model_def ex_author_data_def ex_field_def)
  have members: "dom (pm_fields ?book) \<subseteq> pm_dir ?book"
    by (simp add: ex_model_def ex_book_data_def)
  have ids: "(4::nat) \<noteq> 5" by simp
  have hit: "''author'' \<in> pm_dir ?book \<and> pm_fields ?book ''author'' = Some ?fa \<and>
          fi_relation ?fa = Some ''author'' \<and> fi_type ?fa = ''many2one''"
    by (simp add: ex_model_def ex_book_data_def ex_field_def)
  have miss: "''missingField'' \<notin> pm_dir ?book \<and>
          ignored PythonAnalyzer (pe_raw_lines (ex_py_env [''        self.books[0].missingField'']))
            ''1007'' (pos_line (range_start
               (pe_positions (ex_py_env [''        self.books[0].missingField'']) 6))) = Inr False"
    by (simp add: ex_model_def ex_book_data_def ex_py_env_def ex_line_def py_eval)
  have ds0: "ps_diagnostics ?s0 = []" by (simp add: ex_class_state_def)
  from attribute_chain_example [OF md books members ids,
      where env = "ex_py_env [''        self.books[0].author'']" and fa = ?fa
        and missing = "''x''" and f = "''test_function''" and ?n0.0 = 0 and ?n1.0 = 1
        and ?a1.0 = 2 and c = 3 and ?a3.0 = 6] hit ds0
  have c1: "\<exists>s1. visit_stmt (ex_py_env [''        self.books[0].author''])
            (Expr (books_chain 0 1 2 3 4 5 6 ''author''))
            (enter_function ''test_function'' ?s0) = Inr s1 \<and> ps_diagnostics s1 = []"
    by auto
  from attribute_chain_example [OF md books members ids,
      where env = "ex_py_env [''        self.books[0].missingField'']" and fa = ?fa
        and missing = "''missingField''" and f = "''test_function''" and ?n0.0 = 0
        and ?n1.0 = 1 and ?a1.0 = 2 and c = 3 and ?a3.0 = 6] miss ds0
  have c2: "\<exists>s2. visit_stmt (ex_py_env [''        self.books[0].missingField''])
            (Expr (books_chain 0 1 2 3 4 5 6 ''missingField''))
            (enter_function ''test_function'' ?s0) = Inr s2 \<and>
         map d_kind (ps_diagnostics s2) = [UnknownAttribute ''book'' ''missingField''] \<and>
         map (\<lambda>d. pos_line (range_start (d_position d))) (ps_diagnostics s2) = [1]"
    by (auto simp: py_diag_def ex_py_env_def ex_line_def)
  from c1 c2 show ?thesis by blast
qed

section \<open>Properties of the dependency-list check\<close>

lemma depends_arg_passed_over:
  "passed_over a \<Longrightarrow> depends_arg env p model a locals s = Inr (locals, s)"
  by (induction a rule: passed_over.induct) simp_all

lemma depends_args_passed_over:
  "\<forall>a \<in> set pre. passed_over a \<Longrightarrow>
     depends_args env p model (pre @ rest) locals s = depends_args env p model rest locals s"
  by (induction pre) (simp_all add: depends_arg_passed_over)

text \<open>
  Claim C9. In a class bound to a model, a \<open>fields.depends\<close> decorator whose
  arguments hold a list-valued keyword argument with a keyword other than "methods",
  with no plain string argument (and no other keyword list) before it in the
  decorator, makes \<open>_check_depends\<close> raise NameError when it is the first decorator
  of the function: the locals \<open>cur_model\<close> and \<open>field_name\<close> are read before any
  assignment. No diagnostic is returned.
\<close>

theorem depends_keyword_list_name_error:
  assumes "ps_class_metadata s = Some md" and "tm_model md = Some model"
    and "fd_decorators node =
           Call c (Attribute a (Name f ''fields'') an ''depends'')
             (pre @ Arg (Some (kid, keyword)) (ListExpr vid elements) # post) # others"
    and "keyword \<noteq> ''methods''"
    and "\<forall>x \<in> set pre. passed_over x"
  shows "check_depends env node s = Inl NameError"
  using assms
  by (simp add: check_depends_def bind_err_def depends_args_passed_over)

text \<open>\<open>@fields.depends(method=["test_depends"])\<close> on a method of the class bound to "book".\<close>

definition ex_bad_depends :: function_def where
  "ex_bad_depends =
     \<lparr>fd_name = ''on_change_author'', fd_name_id = 10,
      fd_decorators =
        [Call 0 (Attribute 1 (Name 2 ''fields'') 3 ''depends'')
           [Arg (Some (4, ''method'')) (ListExpr 5 [SimpleString 6 ''\"test_depends\"''])]],
      fd_params = [], fd_returns = None, fd_body = []\<rparr>"

theorem depends_keyword_list_name_error_witness:
  "check_depends (ex_py_env [''    @fields.depends(method=[\"test_depends\"])''])
     ex_bad_depends ex_book_state = Inl NameError"
  using depends_keyword_list_name_error
    [where s = ex_book_state and node = ex_bad_depends and pre = "[]" and keyword = "''method''"
       and md = "ex_metadata ''BookOverride'' ''book'' ex_book_data"
       and model = "ex_model ''book'' ex_book_data"]
  by (simp add: ex_bad_depends_def ex_eval)

lemma split_on_nonempty: "split_on sep s \<noteq> []"
  by (induction s) (auto split: list.splits)

lemma entry_findings_step:
  "entry_findings ok p cur (seg # ps @ [final]) =
     (if \<not> startswith seg ''_parent_'' then [UnknownAttribute (pm_name cur) seg]
      else (case pm_fields cur (drop 8 seg) of
              None \<Rightarrow> [UnknownAttribute (pm_name cur) (drop 8 seg)]
            | Some field \<Rightarrow>
                if fi_type field \<noteq> ''many2one''
                then [UnknownAttribute (pm_name cur) (drop 8 seg)]
                else (case fi_relation field of
                        None \<Rightarrow> []
                      | Some relation \<Rightarrow>
                          (case pool_get p relation ''model'' of
                             Inr target \<Rightarrow> entry_findings ok p target (ps @ [final])
                           | Inl e \<Rightarrow> [UnknownModel relation]))))"
  by (cases ps) (auto split: option.splits sum.splits)

lemma entry_findings_one:
  "length (entry_findings ok p cur segs) \<le> 1 \<and>
   (\<forall>k \<in> set (entry_findings ok p cur segs).
      (\<exists>m a. k = UnknownAttribute m a) \<or> (\<exists>r. k = UnknownModel r))"
  by (induction ok p cur segs rule: entry_findings.induct)
     (auto split: option.splits sum.splits)

lemma depends_parents_findings:
  assumes "depends_parents env p vid parents cur fname s = Inr (completed, cur', fname', s')"
    and "ignored PythonAnalyzer (pe_raw_lines env) ''1007''
           (pos_line (range_start (pe_positions env vid))) = Inr False"
    and "ignored PythonAnalyzer (pe_raw_lines env) ''1006''
           (pos_line (range_start (pe_positions env vid))) = Inr False"
  shows "ps_class_metadata s' = ps_class_metadata s \<and> ps_cur_function s' = ps_cur_function s \<and>
     (if completed
      then ps_diagnostics s' = ps_diagnostics s \<and>
           entry_findings ok p cur (parents @ [final]) = entry_findings ok p cur' [final]
      else \<exists>k. ps_diagnostics s' = ps_diagnostics s @ [py_diag env s vid k] \<and>
             entry_findings ok p cur (parents @ [final]) = [k])"
  using assms(1)
proof (induction parents arbitrary: cur fname)
  case Nil
  then show ?case by simp
next
  case (Cons seg ps)
  have v7: "\<And>m a. py_add env (py_diag env s vid (UnknownAttribute m a)) s =
     Inr (s\<lparr>ps_diagnostics := ps_diagnostics s @ [py_diag env s vid (UnknownAttribute m a)]\<rparr>)"
    using assms(2) by (intro py_add_visible_code) simp
  have v6: "\<And>r. py_add env (py_diag env s vid (UnknownModel r)) s =
     Inr (s\<lparr>ps_diagnostics := ps_diagnostics s @ [py_diag env s vid (UnknownModel r)]\<rparr>)"
    using assms(3) by (intro py_add_visible_code) simp
  show ?case
  proof (cases "startswith seg ''_parent_''")
    case False
    with Cons.prems show ?thesis
      by (auto simp: v7 bind_err_def entry_findings_step)
  next
    case True
    note pre = True
    show ?thesis
    proof (cases "pm_fields cur (drop 8 seg)")
      case None
      with pre Cons.prems show ?thesis
        by (auto simp: v7 bind_err_def entry_findings_step)
    next
      case (Some field)
      note fld = Some
      show ?thesis
      proof (cases "fi_type field = ''many2one''")
        case False
        with pre fld Cons.prems show ?thesis
          by (auto simp: v7 bind_err_def entry_findings_step)
      next
        case True
        note m2o = True
        from pre fld m2o Cons.prems obtain relation where rel: "fi_relation field = Some relation"
          by (cases "fi_relation field") auto
        show ?thesis
        proof (cases "pool_get p relation ''model''")
          case (Inr target)
          with pre fld m2o rel Cons.prems
          have "depends_parents env p vid ps target (Some (drop 8 seg)) s =
                  Inr (completed, cur', fname', s')"
            by simp
          from Cons.IH [OF this] pre fld m2o rel Inr show ?thesis
            by (simp add: entry_findings_step)
        next
          case (Inl e)
          with pre fld m2o rel Cons.prems show ?thesis
            by (cases e) (auto simp: v6 bind_err_def entry_findings_step)
        qed
      qed
    qed
  qed
qed

lemma depends_string_findings:
  assumes "depends_string env p model vid tok locals s = Inr (locals', s')"
    and "ignored PythonAnalyzer (pe_raw_lines env) ''1007''
           (pos_line (range_start (pe_positions env vid))) = Inr False"
    and "ignored PythonAnalyzer (pe_raw_lines env) ''1006''
           (pos_line (range_start (pe_positions env vid))) = Inr False"
  shows "ps_class_metadata s' = ps_class_metadata s \<and> ps_cur_function s' = ps_cur_function s \<and>
     ps_diagnostics s' = ps_diagnostics s @
       map (py_diag env s vid) (field_entry_findings p model (split_on CHR ''.'' (unquote tok)))"
proof -
  let ?fs = "split_on CHR ''.'' (unquote tok)"
  have fs: "butlast ?fs @ [last ?fs] = ?fs"
    using split_on_nonempty by simp
  from assms(1) obtain completed cur fname s1 where
    par: "depends_parents env p vid (butlast ?fs) model (dl_field_name locals) s =
            Inr (completed, cur, fname, s1)"
    and rest: "(if completed then
                (let field_name = last ?fs
                 in bind_err
                      (if pm_fields cur field_name = None
                       then py_add env
                              (py_diag env s1 vid (UnknownAttribute (pm_name cur) field_name)) s1
                       else Inr s1)
                      (\<lambda>s2. Inr (\<lparr>dl_cur_model = Some cur, dl_field_name = Some field_name\<rparr>, s2)))
              else Inr (\<lparr>dl_cur_model = Some cur, dl_field_name = fname\<rparr>, s1)) = Inr (locals', s')"
    unfolding depends_string_def Let_def
    by (auto simp: bind_err_def split: sum.splits prod.splits)
  note pf = depends_parents_findings [OF par assms(2,3), of has_field "last ?fs"]
  have ctx: "py_diag env s1 = py_diag env s"
    using pf by (intro py_diag_context) simp_all
  show ?thesis
  proof (cases completed)
    case False
    with pf rest fs show ?thesis by (auto simp: field_entry_findings_def)
  next
    case True
    have "py_add env (py_diag env s1 vid (UnknownAttribute (pm_name cur) (last ?fs))) s1 =
       Inr (s1\<lparr>ps_diagnostics := ps_diagnostics s1 @
              [py_diag env s1 vid (UnknownAttribute (pm_name cur) (last ?fs))]\<rparr>)"
      using assms(2) by (intro py_add_visible_code) simp
    then have v7: "py_add env (py_diag env s vid (UnknownAttribute (pm_name cur) (last ?fs))) s1 =
       Inr (s1\<lparr>ps_diagnostics := ps_diagnostics s1 @
              [py_diag env s vid (UnknownAttribute (pm_name cur) (last ?fs))]\<rparr>)"
      by (simp add: ctx)
    from True pf rest fs ctx show ?thesis
      by (cases "pm_fields cur (last ?fs)")
         (auto simp: v7 bind_err_def Let_def has_field_def field_entry_findings_def)
  qed
qed

lemma depends_methods_findings:
  assumes "depends_methods env model vid elements s = Inr s'"
    and "ignored PythonAnalyzer (pe_raw_lines env) ''1007''
           (pos_line (range_start (pe_positions env vid))) = Inr False"
    and "py_diag env s = py_diag env s0"
  shows "ps_class_metadata s' = ps_class_metadata s \<and> ps_cur_function s' = ps_cur_function s \<and>
     ps_diagnostics s' = ps_diagnostics s @
       map (\<lambda>name. py_diag env s0 vid (UnknownAttribute (pm_name model) name))
         (filter (\<lambda>name. \<not> has_attribute model name) (string_elements elements))"
  using assms(1,3)
proof (induction elements arbitrary: s)
  case Nil
  then show ?case by simp
next
  case (Cons e rest)
  show ?case
  proof (cases "\<exists>n tok. e = SimpleString n tok")
    case False
    then have skip: "depends_methods env model vid (e # rest) s = depends_methods env model vid rest s"
      and same: "string_elements (e # rest) = string_elements rest"
      by (cases e; simp)+
    from Cons.IH [OF _ Cons.prems(2)] Cons.prems(1) skip same show ?thesis by simp
  next
    case True
    then obtain n tok where e: "e = SimpleString n tok" by blast
    show ?thesis
    proof (cases "has_attribute model (unquote tok)")
      case True
      with Cons.prems e have "depends_methods env model vid rest s = Inr s'" by simp
      from Cons.IH [OF this Cons.prems(2)] True e show ?thesis by simp
    next
      case False
      let ?d = "py_diag env s vid (UnknownAttribute (pm_name model) (unquote tok))"
      let ?s1 = "s\<lparr>ps_diagnostics := ps_diagnostics s @ [?d]\<rparr>"
      have add: "py_add env ?d s = Inr ?s1"
        using assms(2) by (intro py_add_visible_code) simp
      with False Cons.prems e have rest: "depends_methods env model vid rest ?s1 = Inr s'" by simp
      have ctx: "py_diag env ?s1 = py_diag env s0"
        using Cons.prems(2) py_diag_context [of ?s1 s env] by simp
      from Cons.IH [OF rest ctx] False e Cons.prems(2) show ?thesis by simp
    qed
  qed
qed

lemma argument_report_passed_over:
  "passed_over a \<Longrightarrow> argument_report env s p model a report = (report = [])"
  by (induction a rule: passed_over.induct) simp_all

lemma not_passed_over:
  "\<not> passed_over a \<Longrightarrow>
     (\<exists>vid tok. a = Arg None (SimpleString vid tok)) \<or>
     (\<exists>kid keyword vid elements. a = Arg (Some (kid, keyword)) (ListExpr vid elements))"
  by (induction a rule: passed_over.induct) auto

lemma depends_arg_report:
  assumes run: "depends_arg env p model a locals s = Inr (locals', s')"
    and v7: "ignored PythonAnalyzer (pe_raw_lines env) ''1007''
           (pos_line (range_start (pe_positions env (node_id (arg_value a))))) = Inr False"
    and v6: "ignored PythonAnalyzer (pe_raw_lines env) ''1006''
           (pos_line (range_start (pe_positions env (node_id (arg_value a))))) = Inr False"
    and ctx: "ps_class_metadata s = ps_class_metadata s0" "ps_cur_function s = ps_cur_function s0"
  shows "ps_class_metadata s' = ps_class_metadata s0 \<and> ps_cur_function s' = ps_cur_function s0 \<and>
     (\<exists>report. argument_report env s0 p model a report \<and>
        ps_diagnostics s' = ps_diagnostics s @ report)"
proof -
  have d: "py_diag env s = py_diag env s0"
    using ctx by (rule py_diag_context)
  show ?thesis
  proof (cases "passed_over a")
    case True
    with run ctx show ?thesis
      by (simp add: depends_arg_passed_over argument_report_passed_over)
  next
    case False
    from not_passed_over [OF this] show ?thesis
    proof (elim disjE exE)
      fix vid tok assume a: "a = Arg None (SimpleString vid tok)"
      with run have "depends_string env p model vid tok locals s = Inr (locals', s')" by simp
      from depends_string_findings [OF this] v7 v6 a d ctx show ?thesis by simp
    next
      fix kid keyword vid elements
      assume a: "a = Arg (Some (kid, keyword)) (ListExpr vid elements)"
      show ?thesis
      proof (cases "keyword = ''methods''")
        case True
        with run a obtain s1 where
          m: "depends_methods env model vid elements s = Inr s1" and s1: "s' = s1"
          by (auto simp: bind_err_def split: sum.splits)
        from depends_methods_findings [OF m _ d] v7 a True s1 ctx show ?thesis by simp
      next
        case False
        with run a obtain cur field_name where
          l: "dl_cur_model locals = Some cur" "dl_field_name locals = Some field_name"
          by (auto split: option.splits)
        have "py_add env (py_diag env s vid (UnknownAttribute (pm_name cur) field_name)) s =
            Inr (s\<lparr>ps_diagnostics := ps_diagnostics s @
                   [py_diag env s vid (UnknownAttribute (pm_name cur) field_name)]\<rparr>)"
          using v7 a by (intro py_add_visible_code) simp
        with run a False l d ctx have
          "ps_class_metadata s' = ps_class_metadata s0 \<and> ps_cur_function s' = ps_cur_function s0 \<and>
           ps_diagnostics s' = ps_diagnostics s @
             [py_diag env s0 vid (UnknownAttribute (pm_name cur) field_name)]"
          by (auto simp: bind_err_def)
        moreover have "argument_report env s0 p model a
            [py_diag env s0 vid (UnknownAttribute (pm_name cur) field_name)]"
          using a False by auto
        ultimately show ?thesis by blast
      qed
    qed
  qed
qed

lemma depends_args_report:
  assumes "depends_args env p model args locals s = Inr (locals', s')"
    and "\<forall>a \<in> set args.
           ignored PythonAnalyzer (pe_raw_lines env) ''1007''
             (pos_line (range_start (pe_positions env (node_id (arg_value a))))) = Inr False \<and>
           ignored PythonAnalyzer (pe_raw_lines env) ''1006''
             (pos_line (range_start (pe_positions env (node_id (arg_value a))))) = Inr False"
    and "ps_class_metadata s = ps_class_metadata s0" "ps_cur_function s = ps_cur_function s0"
  shows "\<exists>reports. list_all2 (argument_report env s0 p model) args reports \<and>
           ps_diagnostics s' = ps_diagnostics s @ concat reports"
  using assms
proof (induction args arbitrary: locals s)
  case Nil
  then show ?case by simp
next
  case (Cons a args)
  from Cons.prems(1) obtain locals1 s1 where
    first: "depends_arg env p model a locals s = Inr (locals1, s1)"
    and rest: "depends_args env p model args locals1 s1 = Inr (locals', s')"
    by (auto split: sum.splits prod.splits)
  from depends_arg_report [OF first _ _ Cons.prems(3,4)] Cons.prems(2)
  obtain report where
    r: "ps_class_metadata s1 = ps_class_metadata s0" "ps_cur_function s1 = ps_cur_function s0"
       "argument_report env s0 p model a report" "ps_diagnostics s1 = ps_diagnostics s @ report"
    by auto
  from Cons.prems(2) have "\<forall>a \<in> set args.
           ignored PythonAnalyzer (pe_raw_lines env) ''1007''
             (pos_line (range_start (pe_positions env (node_id (arg_value a))))) = Inr False \<and>
           ignored PythonAnalyzer (pe_raw_lines env) ''1006''
             (pos_line (range_start (pe_positions env (node_id (arg_value a))))) = Inr False"
    by simp
  from Cons.IH [OF rest this r(1,2)] obtain reports where
    rs: "list_all2 (argument_report env s0 p model) args reports"
      "ps_diagnostics s' = ps_diagnostics s1 @ concat reports"
    by blast
  show ?case
    by (rule exI [of _ "report # reports"]) (use r rs in simp)
qed

lemma depends_args_append:
  "depends_args env p model (xs @ ys) locals s =
     (case depends_args env p model xs locals s of
        Inl e \<Rightarrow> Inl e
      | Inr (locals1, s1) \<Rightarrow> depends_args env p model ys locals1 s1)"
  by (induction xs arbitrary: locals s) (auto split: sum.splits prod.splits)

lemma depends_decorators_arguments:
  "depends_decorators env p model ds locals s =
     depends_args env p model
       (concat (map (\<lambda>d. case depends_decorator_args d of None \<Rightarrow> [] | Some args \<Rightarrow> args) ds))
       locals s"
proof (induction ds arbitrary: locals s)
  case Nil
  then show ?case by simp
next
  case (Cons d ds)
  show ?case
    by (cases "depends_decorator_args d")
       (auto simp: Cons.IH depends_args_append split: sum.splits prod.splits)
qed

text \<open>
  \<open>@fields.depends("test_depends", "_parent_author.get_rec_name")\<close> on a method of
  the class bound to "book": \<open>test_depends\<close> is a method of the class, and
  \<open>get_rec_name\<close> is a method of the model "author" the field \<open>author\<close> leads to.
\<close>

definition ex_member_depends :: function_def where
  "ex_member_depends =
     \<lparr>fd_name = ''on_change_name'', fd_name_id = 10,
      fd_decorators =
        [Call 0 (Attribute 1 (Name 2 ''fields'') 3 ''depends'')
           [Arg None (SimpleString 5 ''\"test_depends\"''),
            Arg None (SimpleString 6 ''\"_parent_author.get_rec_name\"'')]],
      fd_params = [Param 11 ''self'' None None], fd_returns = None, fd_body = []\<rparr>"

definition ex_member_env :: py_env where
  "ex_member_env = ex_py_env
     [''    @fields.depends(\"test_depends\", \"_parent_author.get_rec_name\")'',
      ''    def on_change_name(self):'']"

lemmas depends_eval =
  check_depends_def depends_string_def split_on.simps

text \<open>
  Against claim C3 as stated: the last segment of each of the two entries is an
  existing member of the model reached, so the claim asks for no finding
  (\<open>spec_entry_findings\<close>), and the check reports an UnknownAttribute for each.
\<close>

theorem depends_member_entry_counterexample:
  "result_diagnostics (check_depends ex_member_env ex_member_depends ex_book_state) =
     Inr [py_diag ex_member_env ex_book_state 5 (UnknownAttribute ''book'' ''test_depends''),
          py_diag ex_member_env ex_book_state 6 (UnknownAttribute ''author'' ''get_rec_name'')] \<and>
   has_attribute (ex_model ''book'' ex_book_data) ''test_depends'' \<and>
   has_attribute (ex_model ''author'' ex_author_data) ''get_rec_name'' \<and>
   spec_entry_findings ex_pool (ex_model ''book'' ex_book_data)
     (split_on CHR ''.'' (unquote ''\"test_depends\"'')) = [] \<and>
   spec_entry_findings ex_pool (ex_model ''book'' ex_book_data)
     (split_on CHR ''.'' (unquote ''\"_parent_author.get_rec_name\"'')) = []"
  by (simp add: ex_member_depends_def ex_member_env_def depends_eval spec_entry_findings_def
      ex_eval py_eval result_diagnostics_def)

text \<open>
  Claim C3, as amended. In a class bound to a model, when the check returns and no
  inline marker suppresses codes 1007 and 1006 on the lines of the arguments, the
  diagnostics the check adds are, argument after argument over all
  \<open>fields.depends\<close> decorators of the function and in their order, what
  \<open>argument_report\<close> asks for each argument on its own. For a string entry these are
  the findings of the entry split at the dots, starting from the class model, each
  reported at the entry's string: a segment before the last that lacks the prefix
  \<open>_parent_\<close>, names no to-one field of the current model, or whose target the pool
  does not know gives exactly one finding and ends the entry; otherwise the last
  segment gives one UnknownAttribute when it is no field of the model reached (being
  a member of it is not enough). An entry has at most one finding, an
  UnknownAttribute or an UnknownModel, and a finding in one entry does not keep the
  arguments after it from being checked.
\<close>

theorem depends_entries_checked_one_by_one:
  assumes "ps_class_metadata s = Some md" and "tm_model md = Some model"
    and "check_depends env node s = Inr s'"
    and "\<forall>a \<in> set (depends_arguments node).
           ignored PythonAnalyzer (pe_raw_lines env) ''1007''
             (pos_line (range_start (pe_positions env (node_id (arg_value a))))) = Inr False \<and>
           ignored PythonAnalyzer (pe_raw_lines env) ''1006''
             (pos_line (range_start (pe_positions env (node_id (arg_value a))))) = Inr False"
  shows "(\<exists>reports.
            list_all2 (argument_report env s (tm_pool md) model) (depends_arguments node) reports \<and>
            ps_diagnostics s' = ps_diagnostics s @ concat reports) \<and>
         (\<forall>segs. length (field_entry_findings (tm_pool md) model segs) \<le> 1 \<and>
            (\<forall>k \<in> set (field_entry_findings (tm_pool md) model segs).
               (\<exists>m x. k = UnknownAttribute m x) \<or> (\<exists>r. k = UnknownModel r)))"
proof -
  from assms(1,2,3) obtain locals' where
    "depends_decorators env (tm_pool md) model (fd_decorators node)
       \<lparr>dl_cur_model = None, dl_field_name = None\<rparr> s = Inr (locals', s')"
    by (auto simp: check_depends_def bind_err_def split: sum.splits prod.splits)
  then have "depends_args env (tm_pool md) model (depends_arguments node)
       \<lparr>dl_cur_model = None, dl_field_name = None\<rparr> s = Inr (locals', s')"
    by (simp add: depends_decorators_arguments depends_arguments_def)
  from depends_args_report [OF this assms(4) refl refl] entry_findings_one
  show ?thesis unfolding field_entry_findings_def by blast
qed

text \<open>
  On a method of the class bound to "book":

  \<^verbatim>\<open>@fields.depends("author.whatever", "_parent_whatever.name",\<close>
  \<^verbatim>\<open>    "_parent_author.name", "_parent_author.whatever")\<close>
  \<^verbatim>\<open>@classmethod\<close>
  \<^verbatim>\<open>@fields.depends("name", 5, methods=["test_typo", "test_depends"], method=["m"])\<close>
\<close>

definition ex_depends :: function_def where
  "ex_depends =
     \<lparr>fd_name = ''test_depends_6'', fd_name_id = 30,
      fd_decorators =
        [Call 0 (Attribute 1 (Name 2 ''fields'') 3 ''depends'')
           [Arg None (SimpleString 5 ''\"author.whatever\"''),
            Arg None (SimpleString 6 ''\"_parent_whatever.name\"''),
            Arg None (SimpleString 7 ''\"_parent_author.name\"''),
            Arg None (SimpleString 8 ''\"_parent_author.whatever\"'')],
         Name 10 ''classmethod'',
         Call 20 (Attribute 21 (Name 22 ''fields'') 23 ''depends'')
           [Arg None (SimpleString 24 ''\"name\"''),
            Arg None (Constant 25),
            Arg (Some (26, ''methods''))
              (ListExpr 27 [SimpleString 28 ''\"test_typo\"'', SimpleString 29 ''\"test_depends\"'']),
            Arg (Some (31, ''method'')) (ListExpr 32 [SimpleString 33 ''\"m\"''])]],
      fd_params = [Param 34 ''self'' None None], fd_returns = None, fd_body = []\<rparr>"

definition ex_depends_env :: py_env where
  "ex_depends_env = ex_py_env
     [''    @fields.depends(\"author.whatever\", \"_parent_whatever.name\", ...)'',
      ''    @classmethod'',
      ''    @fields.depends(\"name\", 5, methods=[...], method=[\"m\"])'',
      ''    def test_depends_6(self):'']"

theorem depends_entries_checked_one_by_one_witness:
  "result_diagnostics (check_depends ex_depends_env ex_depends ex_book_state) =
     Inr [py_diag ex_depends_env ex_book_state 5 (UnknownAttribute ''book'' ''author''),
          py_diag ex_depends_env ex_book_state 6 (UnknownAttribute ''book'' ''whatever''),
          py_diag ex_depends_env ex_book_state 8 (UnknownAttribute ''author'' ''whatever''),
          py_diag ex_depends_env ex_book_state 27 (UnknownAttribute ''book'' ''test_typo''),
          py_diag ex_depends_env ex_book_state 32 (UnknownAttribute ''book'' ''name'')]"
proof -
  let ?md = "ex_metadata ''BookOverride'' ''book'' ex_book_data"
  let ?book = "ex_model ''book'' ex_book_data"
  have h1: "ps_class_metadata ex_book_state = Some ?md" "tm_model ?md = Some ?book"
    by (simp_all add: ex_eval)
  have args: "depends_arguments ex_depends =
      [Arg None (SimpleString 5 ''\"author.whatever\"''),
       Arg None (SimpleString 6 ''\"_parent_whatever.name\"''),
       Arg None (SimpleString 7 ''\"_parent_author.name\"''),
       Arg None (SimpleString 8 ''\"_parent_author.whatever\"''),
       Arg None (SimpleString 24 ''\"name\"''),
       Arg None (Constant 25),
       Arg (Some (26, ''methods''))
         (ListExpr 27 [SimpleString 28 ''\"test_typo\"'', SimpleString 29 ''\"test_depends\"'']),
       Arg (Some (31, ''method'')) (ListExpr 32 [SimpleString 33 ''\"m\"''])]"
    by (simp add: depends_arguments_def ex_depends_def)
  have h4: "\<forall>a \<in> set (depends_arguments ex_depends).
           ignored PythonAnalyzer (pe_raw_lines ex_depends_env) ''1007''
             (pos_line (range_start (pe_positions ex_depends_env (node_id (arg_value a))))) = Inr False \<and>
           ignored PythonAnalyzer (pe_raw_lines ex_depends_env) ''1006''
             (pos_line (range_start (pe_positions ex_depends_env (node_id (arg_value a))))) = Inr False"
    unfolding args by (simp add: ex_depends_env_def ex_eval py_eval)
  have run: "result_diagnostics (check_depends ex_depends_env ex_depends ex_book_state) =
     Inr [py_diag ex_depends_env ex_book_state 5 (UnknownAttribute ''book'' ''author''),
          py_diag ex_depends_env ex_book_state 6 (UnknownAttribute ''book'' ''whatever''),
          py_diag ex_depends_env ex_book_state 8 (UnknownAttribute ''author'' ''whatever''),
          py_diag ex_depends_env ex_book_state 27 (UnknownAttribute ''book'' ''test_typo''),
          py_diag ex_depends_env ex_book_state 32 (UnknownAttribute ''book'' ''name'')]"
    by (simp add: ex_depends_def ex_depends_env_def depends_eval ex_eval py_eval
        result_diagnostics_def)
  then obtain s' where h5: "check_depends ex_depends_env ex_depends ex_book_state = Inr s'"
    by (cases "check_depends ex_depends_env ex_depends ex_book_state")
       (simp_all add: result_diagnostics_def)
  have d0: "ps_diagnostics ex_book_state = []" by (simp add: ex_eval)
  from depends_entries_checked_one_by_one [OF h1 h5 h4]
  obtain reports where
    r: "list_all2 (argument_report ex_depends_env ex_book_state (tm_pool ?md) ?book)
          (depends_arguments ex_depends) reports"
       "ps_diagnostics s' = ps_diagnostics ex_book_state @ concat reports"
    by blast
  from r(1) obtain last_report where
    "reports =
       [[py_diag ex_depends_env ex_book_state 5 (UnknownAttribute ''book'' ''author'')],
        [py_diag ex_depends_env ex_book_state 6 (UnknownAttribute ''book'' ''whatever'')],
        [],
        [py_diag ex_depends_env ex_book_state 8 (UnknownAttribute ''author'' ''whatever'')],
        [], [],
        [py_diag ex_depends_env ex_book_state 27 (UnknownAttribute ''book'' ''test_typo'')],
        last_report]"
    unfolding args
    by (auto simp: list_all2_Cons1 field_entry_findings_def has_field_def ex_eval py_eval)
  with r(2) d0 have "take 4 (ps_diagnostics s') =
       [py_diag ex_depends_env ex_book_state 5 (UnknownAttribute ''book'' ''author''),
        py_diag ex_depends_env ex_book_state 6 (UnknownAttribute ''book'' ''whatever''),
        py_diag ex_depends_env ex_book_state 8 (UnknownAttribute ''author'' ''whatever''),
        py_diag ex_depends_env ex_book_state 27 (UnknownAttribute ''book'' ''test_typo'')]"
    by simp
  with run show ?thesis by simp
qed

section \<open>Properties of the completion listing\<close>

text \<open>The three member types the introspector produces.\<close>

definition known_type :: "completion_info \<Rightarrow> bool" where
  "known_type info =
     (info_type info = ''field'' \<or> info_type info = ''state'' \<or> info_type info = ''method'')"

text \<open>A field member one of whose selection choices has a key that is no string.\<close>

definition odd_choice :: "completion_info \<Rightarrow> bool" where
  "odd_choice info = (info_type info = ''field'' \<and> None \<in> fst ` set (info_selection info))"

lemma those_None: "those keys = None \<longleftrightarrow> None \<in> set keys"
  by (induction keys) (auto split: option.splits)

lemma join_keys_cases:
  "join_keys sep keys = (if None \<in> set keys then Inl TypeError else Inr (join_with sep (the (those keys))))"
  by (cases "those keys") (auto simp: join_keys_def those_None [symmetric])

lemma field_documentation_cases:
  "(None \<in> fst ` set (info_selection info) \<longrightarrow> field_documentation info = Inl TypeError) \<and>
   (None \<notin> fst ` set (info_selection info) \<longrightarrow> (\<exists>doc. field_documentation info = Inr doc))"
  by (auto simp: field_documentation_def bind_err_def join_keys_cases)

lemma completion_entry_odd:
  "odd_choice info \<Longrightarrow> completion_entry key info = Inl TypeError"
  using field_documentation_cases [of info]
  by (simp add: completion_entry_def odd_choice_def bind_err_def)

lemma completion_entry_plain:
  assumes "\<not> odd_choice info" and "known_type info"
  shows "\<exists>x. completion_entry key info = Inr [x] \<and> item_label x = key \<and>
           (item_kind x = MethodKind \<longleftrightarrow> info_type info = ''method'')"
proof (cases "info_type info = ''field''")
  case True
  with assms(1) field_documentation_cases [of info]
  obtain doc where "field_documentation info = Inr doc"
    by (auto simp: odd_choice_def)
  with True show ?thesis by (simp add: completion_entry_def bind_err_def)
next
  case False
  with assms(2) show ?thesis by (auto simp: completion_entry_def known_type_def)
qed

lemma completion_items_odd:
  "\<exists>e \<in> set listing. odd_choice (snd e) \<Longrightarrow> \<forall>e \<in> set listing. known_type (snd e) \<Longrightarrow>
     completion_items listing = Inl TypeError"
proof (induction listing)
  case Nil
  then show ?case by simp
next
  case (Cons e listing)
  obtain key info where e: "e = (key, info)" by (cases e)
  show ?case
  proof (cases "odd_choice info")
    case True
    then show ?thesis using e by (simp add: completion_entry_odd)
  next
    case False
    with Cons.prems e have "\<exists>e \<in> set listing. odd_choice (snd e)" by auto
    moreover from Cons.prems have "\<forall>e \<in> set listing. known_type (snd e)" by simp
    ultimately have "completion_items listing = Inl TypeError" by (rule Cons.IH)
    moreover from False Cons.prems(2) e obtain x where "completion_entry key info = Inr [x]"
      using completion_entry_plain [of info key] by auto
    ultimately show ?thesis using e by simp
  qed
qed

lemma completion_items_plain:
  "\<forall>e \<in> set listing. \<not> odd_choice (snd e) \<and> known_type (snd e) \<Longrightarrow>
     \<exists>items. completion_items listing = Inr items \<and>
       map item_label items = map fst listing \<and>
       (\<forall>x \<in> set items. \<exists>e \<in> set listing. item_label x = fst e \<and>
          (item_kind x = MethodKind \<longleftrightarrow> info_type (snd e) = ''method''))"
proof (induction listing)
  case Nil
  then show ?case by simp
next
  case (Cons e listing)
  obtain key info where e: "e = (key, info)" by (cases e)
  from Cons.prems e obtain x where
    x: "completion_entry key info = Inr [x]" "item_label x = key"
       "item_kind x = MethodKind \<longleftrightarrow> info_type info = ''method''"
    using completion_entry_plain [of info key] by auto
  from Cons.prems have "\<forall>e \<in> set listing. \<not> odd_choice (snd e) \<and> known_type (snd e)" by simp
  from Cons.IH [OF this] obtain items where
    items: "completion_items listing = Inr items" "map item_label items = map fst listing"
      "\<forall>x \<in> set items. \<exists>e \<in> set listing. item_label x = fst e \<and>
          (item_kind x = MethodKind \<longleftrightarrow> info_type (snd e) = ''method'')"
    by blast
  show ?case
    by (rule exI [of _ "x # items"]) (use e x items in auto)
qed

lemma sorted_two_ranks:
  "sorted (map completion_rank xs) \<Longrightarrow>
     xs = filter (\<lambda>x. item_kind x = FieldKind) xs @ filter (\<lambda>x. item_kind x \<noteq> FieldKind) xs"
proof (induction xs)
  case Nil
  then show ?case by simp
next
  case (Cons a xs)
  show ?case
  proof (cases "item_kind a = FieldKind")
    case True
    with Cons show ?thesis by simp
  next
    case False
    from Cons.prems have "\<forall>x \<in> set xs. completion_rank a \<le> completion_rank x"
      by simp
    with False have "\<forall>x \<in> set xs. item_kind x \<noteq> FieldKind"
      by (auto simp: completion_rank_def split: if_splits)
    then have "filter (\<lambda>x. item_kind x = FieldKind) xs = []"
      and "filter (\<lambda>x. item_kind x \<noteq> FieldKind) xs = xs"
      by (simp_all add: filter_empty_conv)
    with False show ?thesis by simp
  qed
qed

lemma sorted_completions_split:
  "sort_key completion_rank items =
     filter (\<lambda>x. item_kind x = FieldKind) (sort_key completion_rank items) @
     filter (\<lambda>x. item_kind x \<noteq> FieldKind) (sort_key completion_rank items)"
  by (rule sorted_two_ranks) simp

text \<open>
  Claim C8. The completion listing of a model is a dictionary (its keys are
  distinct) whose members are fields, states or methods. When the walk of a
  completion request captured a model at the cursor:
  \<^item> if no field member has a selection choice whose key is not a string, the list
    returned holds the members of the listing, each exactly once (the labels of the
    list are distinct and are exactly the keys of the listing), as a run of
    field-kind items followed by a run of method-kind items, an item being of method
    kind exactly when the member is a method;
  \<^item> if some field member has a selection choice whose key is not a string (the
    choice \<open>(None, "")\<close>, say), no list is returned: the request raises TypeError.

  When the walk found the cursor without a model, or did not find it, the list is
  empty.
\<close>

theorem completions_of_captured_model:
  assumes "distinct (map fst (fetch model))"
    and "\<forall>e \<in> set (fetch model). known_type (snd e)"
  shows "((\<forall>e \<in> set (fetch model).
             info_type (snd e) = ''field'' \<longrightarrow> None \<notin> fst ` set (info_selection (snd e))) \<longrightarrow>
          (\<exists>fields methods.
             get_completions fetch (Inr (TargetFound (Some model))) = Inr (fields @ methods) \<and>
             (\<forall>x \<in> set fields. item_kind x = FieldKind) \<and>
             (\<forall>x \<in> set methods. item_kind x = MethodKind) \<and>
             distinct (map item_label (fields @ methods)) \<and>
             set (map item_label (fields @ methods)) = set (map fst (fetch model)) \<and>
             (\<forall>x \<in> set (fields @ methods). \<exists>e \<in> set (fetch model). item_label x = fst e \<and>
                (item_kind x = MethodKind \<longleftrightarrow> info_type (snd e) = ''method'')))) \<and>
         ((\<exists>e \<in> set (fetch model).
             info_type (snd e) = ''field'' \<and> None \<in> fst ` set (info_selection (snd e))) \<longrightarrow>
          get_completions fetch (Inr (TargetFound (Some model))) = Inl TypeError) \<and>
         get_completions fetch (Inr (TargetFound None)) = Inr [] \<and>
         get_completions fetch (Inr WalkCompleted) = Inr []"
proof (intro conjI impI)
  assume plain: "\<forall>e \<in> set (fetch model).
             info_type (snd e) = ''field'' \<longrightarrow> None \<notin> fst ` set (info_selection (snd e))"
  with assms(2) have "\<forall>e \<in> set (fetch model). \<not> odd_choice (snd e) \<and> known_type (snd e)"
    by (auto simp: odd_choice_def)
  from completion_items_plain [OF this] obtain items where
    items: "completion_items (fetch model) = Inr items"
      "map item_label items = map fst (fetch model)"
      "\<forall>x \<in> set items. \<exists>e \<in> set (fetch model). item_label x = fst e \<and>
          (item_kind x = MethodKind \<longleftrightarrow> info_type (snd e) = ''method'')"
    by blast
  let ?g = "sort_key completion_rank items"
  let ?fs = "filter (\<lambda>x. item_kind x = FieldKind) ?g"
  let ?ms = "filter (\<lambda>x. item_kind x \<noteq> FieldKind) ?g"
  have g: "?g = ?fs @ ?ms" by (rule sorted_completions_split)
  have "distinct (map item_label items)"
    using assms(1) unfolding items(2) .
  then have d: "distinct items" and inj: "inj_on item_label (set items)"
    by (simp_all add: distinct_map)
  have 1: "distinct (map item_label ?g)"
    using d inj by (simp add: distinct_map)
  have "set (map item_label ?g) = set (map item_label items)" by simp
  then have 2: "set (map item_label ?g) = set (map fst (fetch model))"
    unfolding items(2) .
  have 3: "\<forall>x \<in> set ?g. \<exists>e \<in> set (fetch model). item_label x = fst e \<and>
              (item_kind x = MethodKind \<longleftrightarrow> info_type (snd e) = ''method'')"
    using items(3) by simp
  have 4: "\<forall>x \<in> set ?ms. item_kind x = MethodKind"
  proof
    fix x assume "x \<in> set ?ms"
    then have "item_kind x \<noteq> FieldKind" by simp
    then show "item_kind x = MethodKind" by (cases "item_kind x") simp_all
  qed
  have 5: "\<forall>x \<in> set ?fs. item_kind x = FieldKind" by simp
  have 0: "get_completions fetch (Inr (TargetFound (Some model))) = Inr (?fs @ ?ms)"
    unfolding g [symmetric] by (simp add: get_completions_def generate_completions_def items(1))
  show "\<exists>fields methods.
           get_completions fetch (Inr (TargetFound (Some model))) = Inr (fields @ methods) \<and>
           (\<forall>x \<in> set fields. item_kind x = FieldKind) \<and>
           (\<forall>x \<in> set methods. item_kind x = MethodKind) \<and>
           distinct (map item_label (fields @ methods)) \<and>
           set (map item_label (fields @ methods)) = set (map fst (fetch model)) \<and>
           (\<forall>x \<in> set (fields @ methods). \<exists>e \<in> set (fetch model). item_label x = fst e \<and>
              (item_kind x = MethodKind \<longleftrightarrow> info_type (snd e) = ''method''))"
  proof (rule exI [of _ ?fs], rule exI [of _ ?ms], intro conjI)
    show "get_completions fetch (Inr (TargetFound (Some model))) = Inr (?fs @ ?ms)" by (rule 0)
    show "\<forall>x \<in> set ?fs. item_kind x = FieldKind" by (rule 5)
    show "\<forall>x \<in> set ?ms. item_kind x = MethodKind" by (rule 4)
    show "distinct (map item_label (?fs @ ?ms))" unfolding g [symmetric] by (rule 1)
    show "set (map item_label (?fs @ ?ms)) = set (map fst (fetch model))"
      unfolding g [symmetric] by (rule 2)
    show "\<forall>x \<in> set (?fs @ ?ms). \<exists>e \<in> set (fetch model). item_label x = fst e \<and>
              (item_kind x = MethodKind \<longleftrightarrow> info_type (snd e) = ''method'')"
      unfolding g [symmetric] by (rule 3)
  qed
next
  assume "\<exists>e \<in> set (fetch model).
             info_type (snd e) = ''field'' \<and> None \<in> fst ` set (info_selection (snd e))"
  then have "\<exists>e \<in> set (fetch model). odd_choice (snd e)"
    by (simp add: odd_choice_def)
  from completion_items_odd [OF this assms(2)]
  show "get_completions fetch (Inr (TargetFound (Some model))) = Inl TypeError"
    by (simp add: get_completions_def generate_completions_def)
next
  show "get_completions fetch (Inr (TargetFound None)) = Inr []"
    by (simp add: get_completions_def)
next
  show "get_completions fetch (Inr WalkCompleted) = Inr []"
    by (simp add: get_completions_def)
qed

text \<open>
  A completion listing with fields and methods interleaved, and the same listing
  with a selection field \<open>state\<close> whose choices are \<open>(None, "")\<close> and
  \<open>("draft", "Draft")\<close>.
\<close>

definition ex_member :: "string \<Rightarrow> completion_info" where
  "ex_member member_type =
     \<lparr>info_type = member_type, info_string = ''Label'',
      info_class_name = ''<class trytond.model.fields.field.Char>'', info_function = False,
      info_selection = [], info_domain = [], info_states = [],
      info_documentation = Some ''Documentation''\<rparr>"

definition ex_listing :: "pool_model \<Rightarrow> (string \<times> completion_info) list" where
  "ex_listing model =
     [(''books'', ex_member ''field''), (''create'', ex_member ''method''),
      (''name'', ex_member ''field''), (''search'', ex_member ''method''),
      (''write_date'', ex_member ''field'')]"

definition ex_state_listing :: "pool_model \<Rightarrow> (string \<times> completion_info) list" where
  "ex_state_listing model =
     ex_listing model @
     [(''state'', (ex_member ''field'')
         \<lparr>info_selection := [(None, []), (Some ''draft'', ''Draft'')]\<rparr>)]"

theorem completions_of_captured_model_witness:
  "map (\<lambda>x. (item_label x, item_kind x))
     (projr (get_completions ex_listing
        (Inr (TargetFound (Some (ex_model ''author'' ex_author_data)))))) =
     [(''books'', FieldKind), (''name'', FieldKind), (''write_date'', FieldKind),
      (''create'', MethodKind), (''search'', MethodKind)] \<and>
   get_completions ex_state_listing
     (Inr (TargetFound (Some (ex_model ''author'' ex_author_data)))) = Inl TypeError \<and>
   get_completions ex_listing (Inr (TargetFound None)) = Inr [] \<and>
   get_completions ex_listing (Inr WalkCompleted) = Inr []"
proof -
  let ?m = "ex_model ''author'' ex_author_data"
  have h1: "distinct (map fst (ex_listing ?m))"
    and h2: "\<forall>e \<in> set (ex_listing ?m). known_type (snd e)"
    and h3: "distinct (map fst (ex_state_listing ?m))"
    and h4: "\<forall>e \<in> set (ex_state_listing ?m). known_type (snd e)"
    by (simp_all add: ex_listing_def ex_state_listing_def ex_member_def known_type_def)
  have h5: "\<exists>e \<in> set (ex_state_listing ?m).
      info_type (snd e) = ''field'' \<and> None \<in> fst ` set (info_selection (snd e))"
    by (simp add: ex_listing_def ex_state_listing_def ex_member_def)
  have e: "map (\<lambda>x. (item_label x, item_kind x))
     (projr (get_completions ex_listing (Inr (TargetFound (Some ?m))))) =
     [(''books'', FieldKind), (''name'', FieldKind), (''write_date'', FieldKind),
      (''create'', MethodKind), (''search'', MethodKind)]"
    by (simp add: get_completions_def generate_completions_def completion_rank_def
        completion_entry_def field_documentation_def bind_err_def ex_listing_def ex_member_def)
  from completions_of_captured_model [of ex_listing ?m, OF h1 h2]
    completions_of_captured_model [of ex_state_listing ?m, OF h3 h4] h5 e
  show ?thesis by simp
qed

section \<open>Properties of the module index\<close>

text \<open>The \<open>__init__.py\<close> of the sample module of the test suite.\<close>

definition ex_init :: ast_node where
  "ex_init =
     AOtherNode
       [AOtherNode [], AOtherNode [],
        AFunctionDef ''register''
          [AExprStmt (ACall (AAttribute (AName ''Pool'') ''register'')
             [AAttribute (AName ''module'') ''Author'', AAttribute (AName ''module'') ''Book'',
              AAttribute (AName ''module'') ''Menu'']
             [(Some ''module'', AConstant ''sample_module''), (Some ''type_'', AConstant ''model'')]),
           AExprStmt (ACall (AAttribute (AName ''Pool'') ''register'')
             [AAttribute (AName ''module'') ''AuthorOverride'',
              AAttribute (AName ''module'') ''BookOverride'']
             [(Some ''module'', AConstant ''sample_module''), (Some ''type_'', AConstant ''model''),
              (Some ''depends'', AList [AConstant ''res''])])]]"

lemma module_index_of_sample:
  "\<exists>m. module_init ''sample_module'' (Inr ex_init) = Inr m \<and>
     get_module_list_for_import m ''module'' ''Author'' = Some (''model'', [''sample_module'']) \<and>
     get_module_list_for_import m ''module'' ''AuthorOverride'' =
       Some (''model'', [''res'', ''sample_module'']) \<and>
     get_module_list_for_import m ''module'' ''NonRegistered'' = None"
  by (simp add: module_init_def get_modules_per_class_def get_module_list_for_import_def
      ex_init_def Let_def)

text \<open>
  Claim C6 says that a registration entry point that fails to parse leaves the module
  without registrations and never aborts the analysis. The code does otherwise:
  \<open>_get_modules_per_class\<close> lets the SyntaxError of \<open>ast.parse\<close> through, and so do
  \<open>Module.__init__\<close> and the diagnostics request that needed the module.
\<close>

theorem module_index_parse_failure_raises:
  "get_modules_per_class name (Inl SyntaxError) = Inl SyntaxError \<and>
   module_init name (Inl SyntaxError) = Inl SyntaxError \<and>
   generate_diagnostics name (Inl SyntaxError) analyze = Inl SyntaxError"
  by (simp add: get_modules_per_class_def module_init_def generate_diagnostics_def)

end
